theory Spec2Isabelle
  imports Complex_Main "HOL-Library.Word"
begin

section \<open>Colorspace transform engine (src/colorspace.c)\<close>

text \<open>
  Conventions of the embedding.
  \<^item> C \<open>float\<close> and \<open>double\<close> quantities are modelled as exact reals: the theorems below
    are statements about the arithmetic the code writes down, not about IEEE rounding.
  \<^item> \<open>abort()\<close> and a failing \<open>pl_assert\<close> are the value \<open>None\<close> of an option result.
  \<^item> A function that mutates \<open>*repr\<close> returns the updated record next to its result.
  \<^item> The \<open>int\<close> members of \<open>pl_bit_encoding\<close> are used as shift counts
    (\<open>1LL << n\<close>); they are naturals here and \<open>1LL << n\<close> is \<open>2 ^ n\<close>, which is what C
    computes for \<open>n < 63\<close>.
\<close>

subsection \<open>Enumerations and value types\<close>

datatype pl_color_system =
    PL_COLOR_SYSTEM_UNKNOWN
  | PL_COLOR_SYSTEM_BT_601
  | PL_COLOR_SYSTEM_BT_709
  | PL_COLOR_SYSTEM_SMPTE_240M
  | PL_COLOR_SYSTEM_BT_2020_NC
  | PL_COLOR_SYSTEM_BT_2020_C
  | PL_COLOR_SYSTEM_BT_2100_PQ
  | PL_COLOR_SYSTEM_BT_2100_HLG
  | PL_COLOR_SYSTEM_YCGCO
  | PL_COLOR_SYSTEM_RGB
  | PL_COLOR_SYSTEM_XYZ
  | PL_COLOR_SYSTEM_COUNT

datatype pl_color_levels =
    PL_COLOR_LEVELS_UNKNOWN
  | PL_COLOR_LEVELS_TV
  | PL_COLOR_LEVELS_PC
  | PL_COLOR_LEVELS_COUNT

datatype pl_alpha_mode =
    PL_ALPHA_UNKNOWN
  | PL_ALPHA_INDEPENDENT
  | PL_ALPHA_PREMULTIPLIED

datatype pl_color_primaries =
    PL_COLOR_PRIM_UNKNOWN
  | PL_COLOR_PRIM_BT_601_525
  | PL_COLOR_PRIM_BT_601_625
  | PL_COLOR_PRIM_BT_709
  | PL_COLOR_PRIM_BT_470M
  | PL_COLOR_PRIM_BT_2020
  | PL_COLOR_PRIM_APPLE
  | PL_COLOR_PRIM_ADOBE
  | PL_COLOR_PRIM_PRO_PHOTO
  | PL_COLOR_PRIM_CIE_1931
  | PL_COLOR_PRIM_DCI_P3
  | PL_COLOR_PRIM_DISPLAY_P3
  | PL_COLOR_PRIM_V_GAMUT
  | PL_COLOR_PRIM_S_GAMUT
  | PL_COLOR_PRIM_COUNT

datatype pl_rendering_intent =
    PL_INTENT_PERCEPTUAL
  | PL_INTENT_RELATIVE_COLORIMETRIC
  | PL_INTENT_SATURATION
  | PL_INTENT_ABSOLUTE_COLORIMETRIC

record pl_bit_encoding =
  sample_depth :: nat
  color_depth :: nat
  bit_shift :: nat

record pl_color_repr =
  sys :: pl_color_system
  levels :: pl_color_levels
  alpha :: pl_alpha_mode
  bits :: pl_bit_encoding

record pl_color_adjustment =
  brightness :: real
  contrast :: real
  saturation :: real
  hue :: real
  gamma :: real

text \<open>\<open>struct pl_cie_xy { float x, y; }\<close>: the members are named \<open>cie_x\<close>, \<open>cie_y\<close> here.\<close>

record pl_cie_xy =
  cie_x :: real
  cie_y :: real

record pl_raw_primaries =
  red :: pl_cie_xy
  green :: pl_cie_xy
  blue :: pl_cie_xy
  white :: pl_cie_xy

text \<open>
  \<open>struct pl_matrix3x3 { float m[3][3]; }\<close> is the list of its three rows, so that
  \<open>mat.m[i][j]\<close> reads \<open>mat ! i ! j\<close>; \<open>struct pl_transform3x3\<close> has the matrix
  \<open>mat\<close> and the constant vector \<open>c\<close>.
\<close>

type_synonym pl_matrix3x3 = "real list list"

record pl_transform3x3 =
  mat :: pl_matrix3x3
  c :: "real list"

text \<open>\<open>PL_DEF(x, d)\<close> is \<open>(x) ? (x) : (d)\<close>.\<close>

definition PL_DEF :: "'a::zero \<Rightarrow> 'a \<Rightarrow> 'a" where
  "PL_DEF x d = (if x = 0 then d else x)"

subsection \<open>Matrix helpers\<close>

text \<open>
  The matrix helpers and the inline \<open>pl_cie_X\<close>, \<open>pl_cie_Z\<close> are defined outside the
  files at hand. The spec's matrix engine has "3x3 invert, multiply, apply-to-vector,
  scale" and the "standard xyY-to-XYZ" conversion; each helper below is that textbook
  operation.
\<close>

text \<open>Modelled from the spec: \<open>pl_matrix3x3_identity\<close> (not in the files at hand), the unit matrix.\<close>

definition pl_matrix3x3_identity :: pl_matrix3x3 where
  "pl_matrix3x3_identity = [[1, 0, 0], [0, 1, 0], [0, 0, 1]]"

text \<open>
  Modelled from the spec: \<open>pl_matrix3x3_scale\<close> (not in the files at hand), "scale":
  every entry times the factor.
\<close>

definition pl_matrix3x3_scale :: "pl_matrix3x3 \<Rightarrow> real \<Rightarrow> pl_matrix3x3" where
  "pl_matrix3x3_scale a s = map (map (\<lambda>e. e * s)) a"

text \<open>
  Modelled from the spec: \<open>pl_matrix3x3_mul\<close> (not in the files at hand), "multiply":
  \<open>a := a * b\<close>, as the comment \<open>M := M * XYZd<-XYZs\<close> of its caller has it.
\<close>

definition pl_matrix3x3_mul :: "pl_matrix3x3 \<Rightarrow> pl_matrix3x3 \<Rightarrow> pl_matrix3x3" where
  "pl_matrix3x3_mul a b =
     map (\<lambda>i. map (\<lambda>j. a ! i ! 0 * b ! 0 ! j + a ! i ! 1 * b ! 1 ! j + a ! i ! 2 * b ! 2 ! j)
                   [0, 1, 2])
         [0, 1, 2]"

text \<open>
  Modelled from the spec: \<open>pl_matrix3x3_invert\<close> (not in the files at hand), "invert":
  the adjugate divided by the determinant.
\<close>

definition pl_matrix3x3_invert :: "pl_matrix3x3 \<Rightarrow> pl_matrix3x3" where
  "pl_matrix3x3_invert a =
     (let m00 = a ! 0 ! 0; m01 = a ! 0 ! 1; m02 = a ! 0 ! 2;
          m10 = a ! 1 ! 0; m11 = a ! 1 ! 1; m12 = a ! 1 ! 2;
          m20 = a ! 2 ! 0; m21 = a ! 2 ! 1; m22 = a ! 2 ! 2;
          adj = [[  (m11 * m22 - m21 * m12), - (m01 * m22 - m21 * m02),   (m01 * m12 - m11 * m02)],
                 [- (m10 * m22 - m20 * m12),   (m00 * m22 - m20 * m02), - (m00 * m12 - m10 * m02)],
                 [  (m10 * m21 - m20 * m11), - (m00 * m21 - m20 * m01),   (m00 * m11 - m10 * m01)]];
          det = m00 * adj ! 0 ! 0 + m10 * adj ! 0 ! 1 + m20 * adj ! 0 ! 2
      in pl_matrix3x3_scale adj (1 / det))"

text \<open>
  Modelled from the spec: \<open>pl_matrix3x3_apply\<close> (not in the files at hand),
  "apply-to-vector": the matrix-vector product.
\<close>

definition pl_matrix3x3_apply :: "pl_matrix3x3 \<Rightarrow> real list \<Rightarrow> real list" where
  "pl_matrix3x3_apply a v =
     map (\<lambda>i. a ! i ! 0 * v ! 0 + a ! i ! 1 * v ! 1 + a ! i ! 2 * v ! 2) [0, 1, 2]"

text \<open>
  Modelled from the spec: \<open>pl_transform3x3_apply\<close> (not in the files at hand), the
  "3x3 affine transform (matrix + constant offset)" applied to a vector.
\<close>

definition pl_transform3x3_apply :: "pl_transform3x3 \<Rightarrow> real list \<Rightarrow> real list" where
  "pl_transform3x3_apply t v =
     (let v1 = pl_matrix3x3_apply (mat t) v
      in map (\<lambda>i. v1 ! i + c t ! i) [0, 1, 2])"

text \<open>
  Modelled from the spec: \<open>pl_cie_X\<close> and \<open>pl_cie_Z\<close> (inline, not in the files at hand),
  the xyY-to-XYZ conversion at \<open>Y = 1\<close>, as \<open>pl_get_rgb2xyz_matrix\<close> writes it out.
\<close>

definition pl_cie_X :: "pl_cie_xy \<Rightarrow> real" where
  "pl_cie_X xy = cie_x xy / cie_y xy"

definition pl_cie_Z :: "pl_cie_xy \<Rightarrow> real" where
  "pl_cie_Z xy = (1 - cie_x xy - cie_y xy) / cie_y xy"

subsection \<open>Color systems, levels and bit depth\<close>

fun pl_color_system_is_ycbcr_like :: "pl_color_system \<Rightarrow> bool option" where
  "pl_color_system_is_ycbcr_like PL_COLOR_SYSTEM_UNKNOWN = Some False"
| "pl_color_system_is_ycbcr_like PL_COLOR_SYSTEM_RGB = Some False"
| "pl_color_system_is_ycbcr_like PL_COLOR_SYSTEM_XYZ = Some False"
| "pl_color_system_is_ycbcr_like PL_COLOR_SYSTEM_BT_601 = Some True"
| "pl_color_system_is_ycbcr_like PL_COLOR_SYSTEM_BT_709 = Some True"
| "pl_color_system_is_ycbcr_like PL_COLOR_SYSTEM_SMPTE_240M = Some True"
| "pl_color_system_is_ycbcr_like PL_COLOR_SYSTEM_BT_2020_NC = Some True"
| "pl_color_system_is_ycbcr_like PL_COLOR_SYSTEM_BT_2020_C = Some True"
| "pl_color_system_is_ycbcr_like PL_COLOR_SYSTEM_BT_2100_PQ = Some True"
| "pl_color_system_is_ycbcr_like PL_COLOR_SYSTEM_BT_2100_HLG = Some True"
| "pl_color_system_is_ycbcr_like PL_COLOR_SYSTEM_YCGCO = Some True"
| "pl_color_system_is_ycbcr_like PL_COLOR_SYSTEM_COUNT = None"

fun pl_color_system_is_linear :: "pl_color_system \<Rightarrow> bool option" where
  "pl_color_system_is_linear PL_COLOR_SYSTEM_UNKNOWN = Some True"
| "pl_color_system_is_linear PL_COLOR_SYSTEM_RGB = Some True"
| "pl_color_system_is_linear PL_COLOR_SYSTEM_BT_601 = Some True"
| "pl_color_system_is_linear PL_COLOR_SYSTEM_BT_709 = Some True"
| "pl_color_system_is_linear PL_COLOR_SYSTEM_SMPTE_240M = Some True"
| "pl_color_system_is_linear PL_COLOR_SYSTEM_BT_2020_NC = Some True"
| "pl_color_system_is_linear PL_COLOR_SYSTEM_YCGCO = Some True"
| "pl_color_system_is_linear PL_COLOR_SYSTEM_BT_2020_C = Some False"
| "pl_color_system_is_linear PL_COLOR_SYSTEM_BT_2100_PQ = Some False"
| "pl_color_system_is_linear PL_COLOR_SYSTEM_BT_2100_HLG = Some False"
| "pl_color_system_is_linear PL_COLOR_SYSTEM_XYZ = Some False"
| "pl_color_system_is_linear PL_COLOR_SYSTEM_COUNT = None"

definition guess_levels :: "pl_color_repr \<Rightarrow> pl_color_levels option" where
  "guess_levels repr =
     (if levels repr \<noteq> PL_COLOR_LEVELS_UNKNOWN then Some (levels repr)
      else case pl_color_system_is_ycbcr_like (sys repr) of
             None \<Rightarrow> None
           | Some yuv \<Rightarrow> Some (if yuv then PL_COLOR_LEVELS_TV else PL_COLOR_LEVELS_PC))"

text \<open>
  \<open>pl_color_repr_normalize\<close> returns the scale and the repr with its \<open>bits\<close> rewritten:
  the shift is cleared when it was set, and \<open>sample_depth\<close> becomes \<open>color_depth\<close>.
\<close>

definition pl_color_repr_normalize :: "pl_color_repr \<Rightarrow> (real \<times> pl_color_repr) option" where
  "pl_color_repr_normalize repr =
     (let scale0 = (1 :: real);
          scale1 = (if bit_shift (bits repr) \<noteq> 0
                    then scale0 / 2 ^ bit_shift (bits repr) else scale0);
          bits1 = (if bit_shift (bits repr) \<noteq> 0
                   then (bits repr)\<lparr>bit_shift := 0\<rparr> else bits repr);
          repr1 = repr\<lparr>bits := bits1\<rparr>;
          tex_bits = PL_DEF (sample_depth bits1) 8;
          col_bits = PL_DEF (color_depth bits1) 8
      in case guess_levels repr1 of
           None \<Rightarrow> None
         | Some lv \<Rightarrow>
             let scale2 = (if lv = PL_COLOR_LEVELS_TV
                           then scale1 * (2 ^ tex_bits / 2 ^ col_bits)
                           else scale1 * ((2 ^ tex_bits - 1) / (2 ^ col_bits - 1)))
             in Some (scale2, repr1\<lparr>bits := bits1\<lparr>sample_depth := color_depth bits1\<rparr>\<rparr>))"

definition pl_color_adjustment_neutral :: pl_color_adjustment where
  "pl_color_adjustment_neutral =
     \<lparr>brightness = 0, contrast = 1, saturation = 1, hue = 0, gamma = 1\<rparr>"

subsection \<open>Primaries\<close>

definition CIE_D50 :: pl_cie_xy where "CIE_D50 = \<lparr>cie_x = 0.34577, cie_y = 0.35850\<rparr>"
definition CIE_D65 :: pl_cie_xy where "CIE_D65 = \<lparr>cie_x = 0.31271, cie_y = 0.32902\<rparr>"
definition CIE_DCI :: pl_cie_xy where "CIE_DCI = \<lparr>cie_x = 0.31400, cie_y = 0.35100\<rparr>"
definition CIE_C :: pl_cie_xy where "CIE_C = \<lparr>cie_x = 0.31006, cie_y = 0.31616\<rparr>"
definition CIE_E :: pl_cie_xy where "CIE_E = \<lparr>cie_x = 1 / 3, cie_y = 1 / 3\<rparr>"

definition xy :: "real \<Rightarrow> real \<Rightarrow> pl_cie_xy" where
  "xy a b = \<lparr>cie_x = a, cie_y = b\<rparr>"

text \<open>
  The static table \<open>primaries[]\<close>, indexed by the enum. No initializer names the slot of
  \<open>PL_COLOR_PRIM_UNKNOWN\<close>, which C zero-fills; the table ends with the slot of
  \<open>PL_COLOR_PRIM_S_GAMUT\<close>, so \<open>PL_COLOR_PRIM_COUNT\<close> is past its end (the value given
  for it here is never read).
\<close>

fun primaries :: "pl_color_primaries \<Rightarrow> pl_raw_primaries" where
  "primaries PL_COLOR_PRIM_BT_470M =
     \<lparr>red = xy 0.670 0.330, green = xy 0.210 0.710, blue = xy 0.140 0.080, white = CIE_C\<rparr>"
| "primaries PL_COLOR_PRIM_BT_601_525 =
     \<lparr>red = xy 0.630 0.340, green = xy 0.310 0.595, blue = xy 0.155 0.070, white = CIE_D65\<rparr>"
| "primaries PL_COLOR_PRIM_BT_601_625 =
     \<lparr>red = xy 0.640 0.330, green = xy 0.290 0.600, blue = xy 0.150 0.060, white = CIE_D65\<rparr>"
| "primaries PL_COLOR_PRIM_BT_709 =
     \<lparr>red = xy 0.640 0.330, green = xy 0.300 0.600, blue = xy 0.150 0.060, white = CIE_D65\<rparr>"
| "primaries PL_COLOR_PRIM_BT_2020 =
     \<lparr>red = xy 0.708 0.292, green = xy 0.170 0.797, blue = xy 0.131 0.046, white = CIE_D65\<rparr>"
| "primaries PL_COLOR_PRIM_APPLE =
     \<lparr>red = xy 0.625 0.340, green = xy 0.280 0.595, blue = xy 0.115 0.070, white = CIE_D65\<rparr>"
| "primaries PL_COLOR_PRIM_ADOBE =
     \<lparr>red = xy 0.640 0.330, green = xy 0.210 0.710, blue = xy 0.150 0.060, white = CIE_D65\<rparr>"
| "primaries PL_COLOR_PRIM_PRO_PHOTO =
     \<lparr>red = xy 0.7347 0.2653, green = xy 0.1596 0.8404, blue = xy 0.0366 0.0001, white = CIE_D50\<rparr>"
| "primaries PL_COLOR_PRIM_CIE_1931 =
     \<lparr>red = xy 0.7347 0.2653, green = xy 0.2738 0.7174, blue = xy 0.1666 0.0089, white = CIE_E\<rparr>"
| "primaries PL_COLOR_PRIM_DCI_P3 =
     \<lparr>red = xy 0.680 0.320, green = xy 0.265 0.690, blue = xy 0.150 0.060, white = CIE_DCI\<rparr>"
| "primaries PL_COLOR_PRIM_DISPLAY_P3 =
     \<lparr>red = xy 0.680 0.320, green = xy 0.265 0.690, blue = xy 0.150 0.060, white = CIE_D65\<rparr>"
| "primaries PL_COLOR_PRIM_V_GAMUT =
     \<lparr>red = xy 0.730 0.280, green = xy 0.165 0.840, blue = xy 0.100 (- 0.03), white = CIE_D65\<rparr>"
| "primaries PL_COLOR_PRIM_S_GAMUT =
     \<lparr>red = xy 0.730 0.280, green = xy 0.140 0.855, blue = xy 0.100 (- 0.05), white = CIE_D65\<rparr>"
| "primaries PL_COLOR_PRIM_UNKNOWN =
     \<lparr>red = xy 0 0, green = xy 0 0, blue = xy 0 0, white = xy 0 0\<rparr>"
| "primaries PL_COLOR_PRIM_COUNT =
     \<lparr>red = xy 0 0, green = xy 0 0, blue = xy 0 0, white = xy 0 0\<rparr>"

text \<open>
  \<open>pl_raw_primaries_get\<close> returns \<open>&primaries[prim]\<close>. A pointer into the static table
  is determined by the slot it points to, so the result is the slot's enum value (read
  through \<open>primaries\<close>), or \<open>None\<close> when \<open>pl_assert(prim < PL_ARRAY_SIZE(primaries))\<close>
  fails.
\<close>

definition pl_raw_primaries_get :: "pl_color_primaries \<Rightarrow> pl_color_primaries option" where
  "pl_raw_primaries_get prim =
     (let prim1 = (if prim = PL_COLOR_PRIM_UNKNOWN then PL_COLOR_PRIM_BT_709 else prim)
      in if prim1 \<noteq> PL_COLOR_PRIM_COUNT then Some prim1 else None)"

definition pl_get_rgb2xyz_matrix :: "pl_raw_primaries \<Rightarrow> pl_matrix3x3" where
  "pl_get_rgb2xyz_matrix prim =
     (let X = [cie_x (red prim) / cie_y (red prim),
               cie_x (green prim) / cie_y (green prim),
               cie_x (blue prim) / cie_y (blue prim),
               cie_x (white prim) / cie_y (white prim)];
          Z = [(1 - cie_x (red prim) - cie_y (red prim)) / cie_y (red prim),
               (1 - cie_x (green prim) - cie_y (green prim)) / cie_y (green prim),
               (1 - cie_x (blue prim) - cie_y (blue prim)) / cie_y (blue prim),
               (1 - cie_x (white prim) - cie_y (white prim)) / cie_y (white prim)];
          out1 = [map (\<lambda>i. X ! i) [0, 1, 2], map (\<lambda>i. 1) [0, 1, 2 :: nat], map (\<lambda>i. Z ! i) [0, 1, 2]];
          out2 = pl_matrix3x3_invert out1;
          S = map (\<lambda>i. out2 ! i ! 0 * X ! 3 + out2 ! i ! 1 * 1 + out2 ! i ! 2 * Z ! 3) [0, 1, 2]
      in [map (\<lambda>i. S ! i * X ! i) [0, 1, 2],
          map (\<lambda>i. S ! i * 1) [0, 1, 2],
          map (\<lambda>i. S ! i * Z ! i) [0, 1, 2]])"

definition pl_get_xyz2rgb_matrix :: "pl_raw_primaries \<Rightarrow> pl_matrix3x3" where
  "pl_get_xyz2rgb_matrix prim = pl_matrix3x3_invert (pl_get_rgb2xyz_matrix prim)"

definition m_cat97 :: pl_matrix3x3 where
  "m_cat97 = [[  0.8562,   0.3372, - 0.1934],
              [- 0.8360,   1.8327,   0.0033],
              [  0.0357, - 0.0469,   1.0112]]"

text \<open>\<open>apply_chromatic_adaptation\<close> updates \<open>*mat\<close>; the model returns the new matrix.\<close>

definition apply_chromatic_adaptation ::
    "pl_cie_xy \<Rightarrow> pl_cie_xy \<Rightarrow> pl_matrix3x3 \<Rightarrow> pl_matrix3x3" where
  "apply_chromatic_adaptation src dest a =
     (if \<bar>cie_x src - cie_x dest\<bar> < 1 / 10 ^ 6 \<and> \<bar>cie_y src - cie_y dest\<bar> < 1 / 10 ^ 6
      then a
      else
        let C = map (\<lambda>i. [m_cat97 ! i ! 0 * pl_cie_X src + m_cat97 ! i ! 1 * 1
                             + m_cat97 ! i ! 2 * pl_cie_Z src,
                           m_cat97 ! i ! 0 * pl_cie_X dest + m_cat97 ! i ! 1 * 1
                             + m_cat97 ! i ! 2 * pl_cie_Z dest]) [0, 1, 2];
            tmp0 = map (\<lambda>i. map (\<lambda>j. if i = j then C ! i ! 1 / C ! i ! 0 else 0) [0, 1, 2])
                       [0, 1, (2 :: nat)];
            tmp = pl_matrix3x3_mul tmp0 m_cat97;
            ma_inv = pl_matrix3x3_invert m_cat97
        in pl_matrix3x3_mul (pl_matrix3x3_mul a ma_inv) tmp)"

definition pl_get_color_mapping_matrix ::
    "pl_raw_primaries \<Rightarrow> pl_raw_primaries \<Rightarrow> pl_rendering_intent \<Rightarrow> pl_matrix3x3" where
  "pl_get_color_mapping_matrix src dst intent =
     (if intent = PL_INTENT_SATURATION then pl_matrix3x3_identity
      else
        let xyz2rgb_d = pl_get_xyz2rgb_matrix dst;
            xyz2rgb_d1 = (if intent \<noteq> PL_INTENT_ABSOLUTE_COLORIMETRIC
                          then apply_chromatic_adaptation (white src) (white dst) xyz2rgb_d
                          else xyz2rgb_d);
            rgb2xyz_s = pl_get_rgb2xyz_matrix src
        in pl_matrix3x3_mul xyz2rgb_d1 rgb2xyz_s)"

subsection \<open>The decoding transform\<close>

text \<open>\<open>luma_coeffs\<close>; its \<open>pl_assert\<close> on the sum of the weights is the \<open>None\<close> branch.\<close>

definition luma_coeffs :: "real \<Rightarrow> real \<Rightarrow> real \<Rightarrow> pl_matrix3x3 option" where
  "luma_coeffs lr lg lb =
     (if \<bar>lr + lg + lb - 1\<bar> < 1 / 10 ^ 6
      then Some [[1, 0,                       2 * (1 - lr)],
                 [1, - 2 * (1 - lb) * lb / lg, - 2 * (1 - lr) * lr / lg],
                 [1, 2 * (1 - lb),            0]]
      else None)"

text \<open>
  \<open>pl_color_repr_decode\<close>. The parameter pointer is an option (\<open>None\<close> is \<open>NULL\<close>); the
  result is the transform together with the repr as the call leaves it. The two
  \<open>default: abort()\<close> arms and the aborts of the callees are \<open>None\<close>.
\<close>

definition pl_color_repr_decode ::
    "pl_color_repr \<Rightarrow> pl_color_adjustment option
       \<Rightarrow> (pl_transform3x3 \<times> pl_color_repr) option" where
  "pl_color_repr_decode repr params_ptr =
     (let params = (case params_ptr of None \<Rightarrow> pl_color_adjustment_neutral | Some p \<Rightarrow> p)
      in case (case sys repr of
                 PL_COLOR_SYSTEM_BT_709 \<Rightarrow> luma_coeffs 0.2126 0.7152 0.0722
               | PL_COLOR_SYSTEM_BT_601 \<Rightarrow> luma_coeffs 0.2990 0.5870 0.1140
               | PL_COLOR_SYSTEM_SMPTE_240M \<Rightarrow> luma_coeffs 0.2122 0.7013 0.0865
               | PL_COLOR_SYSTEM_BT_2020_NC \<Rightarrow> luma_coeffs 0.2627 0.6780 0.0593
               | PL_COLOR_SYSTEM_BT_2020_C \<Rightarrow> Some [[0, 0, 1], [1, 0, 0], [0, 1, 0]]
               | PL_COLOR_SYSTEM_BT_2100_PQ \<Rightarrow>
                   Some [[1, 0.008609, 0.111029625],
                         [1, - 0.008609, - 0.111029625],
                         [1, 0.560031, - 0.320627]]
               | PL_COLOR_SYSTEM_BT_2100_HLG \<Rightarrow>
                   Some [[1, 0.008609, 0.111029625],
                         [1, - 0.008609, - 0.111029625],
                         [1, 0.560031, - 0.320627]]
               | PL_COLOR_SYSTEM_YCGCO \<Rightarrow> Some [[1, - 1, 1], [1, 1, 0], [1, - 1, - 1]]
               | PL_COLOR_SYSTEM_UNKNOWN \<Rightarrow> Some pl_matrix3x3_identity
               | PL_COLOR_SYSTEM_RGB \<Rightarrow> Some pl_matrix3x3_identity
               | PL_COLOR_SYSTEM_XYZ \<Rightarrow>
                   (case pl_raw_primaries_get PL_COLOR_PRIM_BT_709 of
                      None \<Rightarrow> None
                    | Some p \<Rightarrow> Some (pl_get_xyz2rgb_matrix (primaries p)))
               | PL_COLOR_SYSTEM_COUNT \<Rightarrow> None) of
           None \<Rightarrow> None
         | Some m0 \<Rightarrow>
        (case pl_color_system_is_ycbcr_like (sys repr) of
           None \<Rightarrow> None
         | Some yuv \<Rightarrow>
        (let huecos = saturation params * cos (hue params);
             huesin = saturation params * sin (hue params);
             m1 = (if yuv
                   then map (\<lambda>i. [m0 ! i ! 0,
                                  huecos * (m0 ! i ! 1) - huesin * (m0 ! i ! 2),
                                  huesin * (m0 ! i ! 1) + huecos * (m0 ! i ! 2)]) [0, 1, 2]
                   else m0);
             bit_depth = PL_DEF (sample_depth (bits repr)) (PL_DEF (color_depth (bits repr)) 8);
             scale = 2 ^ bit_depth / (2 ^ bit_depth - 1)
         in case guess_levels repr of
              None \<Rightarrow> None
            | Some lv \<Rightarrow>
           (case (case lv of
                    PL_COLOR_LEVELS_TV \<Rightarrow>
                      Some (235 / 256 * scale, 16 / 256 * scale,
                            240 / 256 * scale, 128 / 256 * scale)
                  | PL_COLOR_LEVELS_PC \<Rightarrow> Some (1, 0, 1, 128 / 256 * scale)
                  | PL_COLOR_LEVELS_UNKNOWN \<Rightarrow> None
                  | PL_COLOR_LEVELS_COUNT \<Rightarrow> None) of
              None \<Rightarrow> None
            | Some (ymax, ymin, cmax, cmid) \<Rightarrow>
           (let ymul = 1 / (ymax - ymin);
                cmul = 0.5 / (cmax - cmid);
                mul0 = (if yuv then [ymul, cmul, cmul] else [ymul, ymul, ymul]);
                black = (if yuv then [ymin, cmid, cmid] else [ymin, ymin, ymin]);
                mul = map (\<lambda>i. mul0 ! i * contrast params) [0, 1, 2];
                c0 = map (\<lambda>i. 0 + brightness params) [0, 1, 2 :: nat];
                m2 = map (\<lambda>i. map (\<lambda>j. m1 ! i ! j * mul ! j) [0, 1, 2]) [0, 1, 2];
                c1 = map (\<lambda>i. foldl (\<lambda>acc j. acc - m2 ! i ! j * black ! j) (c0 ! i) [0, 1, 2])
                         [0, 1, 2]
            in case pl_color_repr_normalize repr of
                 None \<Rightarrow> None
               | Some (s, repr1) \<Rightarrow>
                   Some (\<lparr>mat = pl_matrix3x3_scale m2 s, c = c1\<rparr>,
                         repr1\<lparr>sys := PL_COLOR_SYSTEM_RGB,
                               levels := PL_COLOR_LEVELS_PC\<rparr>))))))"

subsection \<open>The reference pixels of the decoding test (src/tests/colorspace.c)\<close>

definition white_ycbcr :: "real list" where "white_ycbcr = [235 / 255, 128 / 255, 128 / 255]"
definition black_ycbcr :: "real list" where "black_ycbcr = [16 / 255, 128 / 255, 128 / 255]"
definition white_other :: "real list" where "white_other = [235 / 255, 235 / 255, 235 / 255]"
definition black_other :: "real list" where "black_other = [16 / 255, 16 / 255, 16 / 255]"

text \<open>
  The test picks the YCbCr pixel when \<open>pl_color_system_is_ycbcr_like(sys)\<close> and the other
  one otherwise, and decodes \<open>{ .levels = PL_COLOR_LEVELS_TV, .sys = sys }\<close>, every other
  member zero.
\<close>

definition nominal_white :: "pl_color_system \<Rightarrow> real list" where
  "nominal_white s =
     (if pl_color_system_is_ycbcr_like s = Some True then white_ycbcr else white_other)"

definition nominal_black :: "pl_color_system \<Rightarrow> real list" where
  "nominal_black s =
     (if pl_color_system_is_ycbcr_like s = Some True then black_ycbcr else black_other)"

definition tv_repr_of :: "pl_color_system \<Rightarrow> pl_color_repr" where
  "tv_repr_of s = \<lparr>sys = s, levels = PL_COLOR_LEVELS_TV, alpha = PL_ALPHA_UNKNOWN,
                   bits = \<lparr>sample_depth = 0, color_depth = 0, bit_shift = 0\<rparr>\<rparr>"

section \<open>Shader dispatch and pass cache (src/dispatch.c)\<close>

text \<open>
  Conventions of the embedding.
  \<^item> Several C structs share member names (\<open>name\<close>, \<open>type\<close>, \<open>params\<close>, \<open>offset\<close>); a
    record field carries a short prefix of its struct (\<open>var_name\<close>, \<open>desc_type\<close>,
    \<open>p_failed\<close> for \<open>pass.failed\<close>, \<open>rp_\<close> for \<open>pl_pass_run_params\<close>, \<open>pp_\<close> for
    \<open>pl_pass_params\<close>, \<open>res_\<close> for \<open>sh->res\<close>).
  \<^item> An array with its count (\<open>vars\<close>/\<open>num_vars\<close>) is a list. \<open>size_t\<close> and the \<open>int\<close>
    counters are naturals; a rectangle's coordinates are integers.
  \<^item> A pointer to an immutable external object (texture, buffer, format) is the object's
    value, \<open>NULL\<close> is \<open>None\<close>; a format carries its address \<open>fmt_addr\<close>, and two format
    pointers are equal when the addresses are.
  \<^item> A crash of the C program (null dereference, failed assertion, \<open>abort()\<close>, a write
    past an array, a division by zero, a loop that cannot end) is a value \<open>Inl\<close> of
    type \<open>crash\<close>.
  \<^item> The generated GLSL text is not part of the model: of \<open>generate_shaders\<close> and
    \<open>translate_compute_shader\<close> the assertions and the changes to the shader remain.
  \<^item> The calls into the GPU layer that create, write or run something are appended to a
    log, the \<open>world\<close>, which every function passes along.
\<close>

datatype crash = NullDeref | AssertFail | Abort | OutOfBounds | DivByZero | Hang

subsection \<open>Data\<close>

datatype pl_var_type = PL_VAR_INVALID | PL_VAR_SINT | PL_VAR_UINT | PL_VAR_FLOAT

record pl_var =
  var_name :: string
  var_type :: pl_var_type
  dim_v :: nat
  dim_m :: nat
  dim_a :: nat

record pl_var_layout =
  layout_offset :: nat
  layout_stride :: nat
  layout_size :: nat

text \<open>
  The host data a variable points to is the list of its scalar components;
  \<open>memcmp\<close> over the host size is equality of the two values. A buffer the dispatcher
  fills (push constants, vertex data) is the map from the byte offsets written so far
  to the values written there; freshly zeroed it is the empty map.
\<close>

datatype scalar = Float real | Sint int

record pl_shader_var =
  sv_var :: pl_var
  sv_data :: "scalar list"
  sv_dynamic :: bool

record pl_buffer_var =
  bv_var :: pl_var
  bv_layout :: pl_var_layout

record pl_fmt =
  fmt_addr :: nat
  texel_size :: nat
  num_components :: nat
  has_glsl_format :: bool

definition fmt_ptr_eq :: "pl_fmt option \<Rightarrow> pl_fmt option \<Rightarrow> bool" where
  "fmt_ptr_eq a b = (map_option fmt_addr a = map_option fmt_addr b)"

record pl_tex_params =
  tex_w :: nat
  tex_h :: nat
  tex_d :: nat
  tex_format :: "pl_fmt option"
  renderable :: bool
  storable :: bool

record pl_tex =
  tex_params :: pl_tex_params

record pl_buf =
  buf_size :: nat
  buf_format :: "pl_fmt option"

datatype pl_object = NullObj | TexObj pl_tex | BufObj pl_buf

datatype pl_desc_type =
    PL_DESC_INVALID
  | PL_DESC_SAMPLED_TEX
  | PL_DESC_STORAGE_IMG
  | PL_DESC_BUF_UNIFORM
  | PL_DESC_BUF_STORAGE
  | PL_DESC_BUF_TEXEL_UNIFORM
  | PL_DESC_BUF_TEXEL_STORAGE

datatype pl_desc_access =
    PL_DESC_ACCESS_READWRITE
  | PL_DESC_ACCESS_READONLY
  | PL_DESC_ACCESS_WRITEONLY

record pl_desc =
  desc_name :: string
  desc_type :: pl_desc_type
  desc_binding :: nat
  desc_access :: pl_desc_access

record pl_shader_desc =
  sd_desc :: pl_desc
  sd_object :: pl_object
  sd_buffer_vars :: "pl_buffer_var list"

record pl_vertex_attrib =
  va_name :: string
  va_fmt :: pl_fmt
  va_offset :: nat
  va_location :: nat

record pl_shader_va =
  sva_attr :: pl_vertex_attrib
  sva_data :: "scalar list list"

datatype pl_shader_sig = PL_SHADER_SIG_NONE | PL_SHADER_SIG_COLOR

text \<open>
  \<open>struct pl_shader\<close>, as far as the dispatcher reads or writes it. \<open>sh_addr\<close> is the
  address of the object, which no operation changes; \<open>sh_is_compute\<close> is what
  \<open>pl_shader_is_compute\<close> returns and \<open>sh_output_w\<close>, \<open>sh_output_h\<close> what
  \<open>pl_shader_output_size\<close> reads.
\<close>

record pl_shader =
  sh_addr :: nat
  sh_failed :: bool
  sh_mutable :: bool
  sh_is_compute :: bool
  sh_output_w :: int
  sh_output_h :: int
  res_input :: pl_shader_sig
  res_output :: pl_shader_sig
  res_variables :: "pl_shader_var list"
  res_descriptors :: "pl_shader_desc list"
  res_vertex_attribs :: "pl_shader_va list"
  res_compute_group_size :: "int \<times> int"

datatype pl_blend_mode =
    PL_BLEND_ZERO
  | PL_BLEND_ONE
  | PL_BLEND_SRC_ALPHA
  | PL_BLEND_ONE_MINUS_SRC_ALPHA

record pl_blend_params =
  src_rgb :: pl_blend_mode
  dst_rgb :: pl_blend_mode
  src_alpha :: pl_blend_mode
  dst_alpha :: pl_blend_mode

record pl_rect2d =
  rc_x0 :: int
  rc_y0 :: int
  rc_x1 :: int
  rc_y1 :: int

record pl_rect2df =
  rcf_x0 :: real
  rcf_y0 :: real
  rcf_x1 :: real
  rcf_y1 :: real

datatype pl_pass_type = PL_PASS_INVALID | PL_PASS_RASTER | PL_PASS_COMPUTE

record pl_pass_params =
  pp_type :: pl_pass_type
  pp_variables :: "pl_var list"
  pp_descriptors :: "pl_desc list"
  pp_num_descriptors :: nat
  pp_push_constants_size :: nat
  pp_blend_params :: "pl_blend_params option"
  pp_target_dummy :: pl_tex
  pp_vertex_attribs :: "pl_vertex_attrib list"
  pp_vertex_stride :: nat

record pl_pass =
  pass_params :: pl_pass_params

record pl_var_update =
  vu_index :: nat
  vu_data :: "scalar list"

record pl_pass_run_params =
  rp_pass :: "pl_pass option"
  rp_target :: "pl_tex option"
  rp_desc_bindings :: "pl_object list"
  rp_var_updates :: "pl_var_update list"
  rp_push_constants :: "(nat \<rightharpoonup> scalar list) option"
  rp_vertex_count :: nat
  rp_vertex_data :: "(nat \<rightharpoonup> scalar list) option"
  rp_compute_groups :: "int list"
  rp_scissors :: pl_rect2d

datatype pass_var_type = PASS_VAR_NONE | PASS_VAR_GLOBAL | PASS_VAR_UBO | PASS_VAR_PUSHC

record pass_var =
  pv_index :: nat
  pv_type :: pass_var_type
  pv_layout :: pl_var_layout
  pv_cached_data :: "scalar list option"

record pass =
  p_signature :: "64 word"
  p_pass :: "pl_pass option"
  p_failed :: bool
  p_vars :: "pass_var list"
  p_ubo :: "pl_buf option"
  p_ubo_desc :: pl_shader_desc
  p_run_params :: pl_pass_run_params

record pl_gpu =
  glsl_version :: nat
  glsl_vulkan :: bool
  cap_input_variables :: bool
  max_pushc_size :: nat
  max_ubo_size :: nat

record pl_dispatch =
  gpu :: pl_gpu
  current_ident :: "8 word"
  current_index :: "8 word"
  shaders :: "pl_shader list"
  passes :: "pass list"

datatype gpu_call =
    Buf_create nat
  | Pass_create pl_pass_params
  | Buf_write nat nat nat
  | Pass_run pl_pass_run_params

type_synonym world = "gpu_call list"


subsection \<open>The code outside the files at hand\<close>

text \<open>
  The functions below are called by the dispatcher and defined elsewhere (gpu layer,
  shader-fragment primitives). They are parameters of the model, collected in one
  record. \<open>pl_buf_create_ok\<close> and \<open>pl_pass_create_ok\<close> say whether the creation
  succeeds, given the calls made so far; \<open>sh_attr_vec2\<close> returns the identifier and the
  attribute it registers, or \<open>None\<close> when it fails.
\<close>

record env =
  pl_shader_signature :: "pl_shader \<Rightarrow> 64 word"
  pl_std430_layout :: "nat \<Rightarrow> pl_var \<Rightarrow> pl_var_layout"
  pl_var_host_layout :: "nat \<Rightarrow> pl_var \<Rightarrow> pl_var_layout"
  sh_buf_desc_append ::
    "pl_gpu \<Rightarrow> pl_shader_desc \<Rightarrow> pl_var \<Rightarrow> (pl_shader_desc \<times> pl_var_layout) option"
  sh_buf_desc_size :: "pl_shader_desc \<Rightarrow> nat"
  pl_desc_namespace :: "pl_gpu \<Rightarrow> pl_desc_type \<Rightarrow> nat"
  pl_var_from_fmt :: "pl_fmt \<Rightarrow> string \<Rightarrow> pl_var"
  pl_rect2d_normalize :: "pl_rect2d \<Rightarrow> pl_rect2d"
  sh_attr_vec2 :: "pl_shader \<Rightarrow> string \<Rightarrow> pl_rect2df \<Rightarrow> (string \<times> pl_shader_va) option"
  pl_buf_create_ok :: "world \<Rightarrow> nat \<Rightarrow> bool"
  pl_pass_create_ok :: "world \<Rightarrow> pl_pass_params \<Rightarrow> bool"

text \<open>
  Modelled from the spec: \<open>sh_var\<close> (shader-fragment primitive, not in the files at
  hand), "declare a typed variable bound to a host data pointer": the variable is
  appended to the shader's ordered list. Its identifier is the name it was given.
\<close>

definition sh_var :: "pl_shader \<Rightarrow> pl_shader_var \<Rightarrow> pl_shader" where
  "sh_var sh sv = sh\<lparr>res_variables := res_variables sh @ [sv]\<rparr>"

text \<open>
  Modelled from the spec: \<open>sh_desc\<close> (shader-fragment primitive, not in the files at
  hand), "declare a descriptor (texture/buffer) binding": appended likewise.
\<close>

definition sh_desc :: "pl_shader \<Rightarrow> pl_shader_desc \<Rightarrow> pl_shader" where
  "sh_desc sh sd = sh\<lparr>res_descriptors := res_descriptors sh @ [sd]\<rparr>"

text \<open>
  Modelled from the spec: the inline helpers \<open>pl_rect_w\<close>, \<open>pl_rect_h\<close> (the extent of
  a rectangle, which may be flipped), \<open>pl_tex_params_dimension\<close> ("target texture must
  be 2D"), \<open>pl_shader_output_size\<close> (the "optional fixed output size"), \<open>pl_var_vec2\<close>
  and the macro \<open>PL_ALIGN2\<close> (rounding up to a multiple of a power of two), none of them
  in the files at hand.
\<close>

definition pl_rect_w :: "pl_rect2d \<Rightarrow> int" where
  "pl_rect_w rc = rc_x1 rc - rc_x0 rc"

definition pl_rect_h :: "pl_rect2d \<Rightarrow> int" where
  "pl_rect_h rc = rc_y1 rc - rc_y0 rc"

definition pl_tex_params_dimension :: "pl_tex_params \<Rightarrow> nat" where
  "pl_tex_params_dimension p = (if tex_d p \<noteq> 0 then 3 else if tex_h p \<noteq> 0 then 2 else 1)"

definition pl_shader_output_size :: "pl_shader \<Rightarrow> (int \<times> int) option" where
  "pl_shader_output_size sh =
     (if sh_output_w sh = 0 \<or> sh_output_h sh = 0 then None
      else Some (sh_output_w sh, sh_output_h sh))"

definition pl_var_vec2 :: "string \<Rightarrow> pl_var" where
  "pl_var_vec2 n = \<lparr>var_name = n, var_type = PL_VAR_FLOAT, dim_v = 2, dim_m = 1, dim_a = 1\<rparr>"

definition PL_ALIGN2 :: "nat \<Rightarrow> nat \<Rightarrow> nat" where
  "PL_ALIGN2 x a = ((x + a - 1) div a) * a"

subsection \<open>Zero-initialised structures\<close>

definition zero_layout :: pl_var_layout where
  "zero_layout = \<lparr>layout_offset = 0, layout_stride = 0, layout_size = 0\<rparr>"

definition zero_pass_var :: pass_var where
  "zero_pass_var = \<lparr>pv_index = 0, pv_type = PASS_VAR_NONE, pv_layout = zero_layout,
                     pv_cached_data = None\<rparr>"

definition zero_desc :: pl_desc where
  "zero_desc = \<lparr>desc_name = [], desc_type = PL_DESC_INVALID, desc_binding = 0,
                 desc_access = PL_DESC_ACCESS_READWRITE\<rparr>"

definition zero_shader_desc :: pl_shader_desc where
  "zero_shader_desc = \<lparr>sd_desc = zero_desc, sd_object = NullObj, sd_buffer_vars = []\<rparr>"

definition zero_tex :: pl_tex where
  "zero_tex = \<lparr>tex_params = \<lparr>tex_w = 0, tex_h = 0, tex_d = 0, tex_format = None,
                               renderable = False, storable = False\<rparr>\<rparr>"

definition zero_rect :: pl_rect2d where
  "zero_rect = \<lparr>rc_x0 = 0, rc_y0 = 0, rc_x1 = 0, rc_y1 = 0\<rparr>"

definition zero_run_params :: pl_pass_run_params where
  "zero_run_params = \<lparr>rp_pass = None, rp_target = None, rp_desc_bindings = [],
     rp_var_updates = [], rp_push_constants = None, rp_vertex_count = 0,
     rp_vertex_data = None, rp_compute_groups = [0, 0, 0], rp_scissors = zero_rect\<rparr>"

subsection \<open>Variable placement\<close>

text \<open>
  \<open>add_pass_var\<close> works on \<open>pass\<close> (its \<open>ubo_desc\<close>), on \<open>params\<close> and on the slot
  \<open>*pv\<close>; the model returns its result and the three of them. The layout written into
  \<open>pv->layout\<close> by a push-constant attempt stays there when the attempt does not fit.
\<close>

definition add_pass_var ::
    "env \<Rightarrow> pl_gpu \<Rightarrow> pass \<Rightarrow> pl_pass_params \<Rightarrow> pl_shader_var \<Rightarrow> pass_var \<Rightarrow> bool
       \<Rightarrow> bool \<times> pass \<times> pl_pass_params \<times> pass_var" where
  "add_pass_var E g pass params sv pv greedy =
     (if pv_type pv \<noteq> PASS_VAR_NONE then (True, pass, params, pv)
      else
        let try_pushc = (greedy \<or> (dim_m (sv_var sv) = 1 \<and> dim_a (sv_var sv) = 1)
                           \<or> sv_dynamic sv);
            attempt = (try_pushc \<and> glsl_vulkan g \<and> max_pushc_size g \<noteq> 0);
            pv1 = (if attempt
                   then pv\<lparr>pv_layout :=
                            pl_std430_layout E (pp_push_constants_size params) (sv_var sv)\<rparr>
                   else pv);
            new_size = layout_offset (pv_layout pv1) + layout_size (pv_layout pv1)
        in if attempt \<and> new_size \<le> max_pushc_size g
           then (True, pass, params\<lparr>pp_push_constants_size := new_size\<rparr>,
                 pv1\<lparr>pv_type := PASS_VAR_PUSHC\<rparr>)
           else if \<not> greedy then (True, pass, params, pv1)
           else
             let try_ubo = (\<not> cap_input_variables g \<or> \<not> sv_dynamic sv);
                 appended = (if try_ubo \<and> 440 \<le> glsl_version g \<and> max_ubo_size g \<noteq> 0
                             then sh_buf_desc_append E g (p_ubo_desc pass) (sv_var sv)
                             else None)
             in case appended of
                  Some (ubo_desc1, lay) \<Rightarrow>
                    (True, pass\<lparr>p_ubo_desc := ubo_desc1\<rparr>, params,
                     pv1\<lparr>pv_layout := lay, pv_type := PASS_VAR_UBO\<rparr>)
                | None \<Rightarrow>
                    if cap_input_variables g
                    then (True, pass,
                          params\<lparr>pp_variables := pp_variables params @ [sv_var sv]\<rparr>,
                          pv1\<lparr>pv_type := PASS_VAR_GLOBAL,
                              pv_index := length (pp_variables params),
                              pv_layout := pl_var_host_layout E 0 (sv_var sv)\<rparr>)
                    else (False, pass, params, pv1))"

text \<open>
  One placement loop of \<open>find_pass\<close>: \<open>res->variables[i]\<close> and \<open>pass->vars[i]\<close> are walked
  in step, and the first failure leaves the loop (\<open>goto error\<close>).
\<close>

fun add_pass_vars ::
    "env \<Rightarrow> pl_gpu \<Rightarrow> bool \<Rightarrow> pl_shader_var list \<Rightarrow> pass_var list \<Rightarrow> pass \<Rightarrow> pl_pass_params
       \<Rightarrow> bool \<times> pass_var list \<times> pass \<times> pl_pass_params" where
  "add_pass_vars E g greedy (sv # svs) (pv # pvs) pass params =
     (case add_pass_var E g pass params sv pv greedy of
        (ok, pass1, params1, pv1) \<Rightarrow>
          if \<not> ok then (False, pv1 # pvs, pass1, params1)
          else (case add_pass_vars E g greedy svs pvs pass1 params1 of
                  (ok2, pvs2, pass2, params2) \<Rightarrow> (ok2, pv1 # pvs2, pass2, params2)))"
| "add_pass_vars E g greedy svs pvs pass params = (True, pvs, pass, params)"

text \<open>The two loops one after the other, as \<open>find_pass\<close> runs them.\<close>

definition place_variables ::
    "env \<Rightarrow> pl_gpu \<Rightarrow> pl_shader_var list \<Rightarrow> pass \<Rightarrow> pl_pass_params
       \<Rightarrow> bool \<times> pass \<times> pl_pass_params" where
  "place_variables E g svs pass params =
     (case add_pass_vars E g False svs (replicate (length svs) zero_pass_var) pass params of
        (ok1, pvs1, pass1, params1) \<Rightarrow>
          if \<not> ok1 then (False, pass1\<lparr>p_vars := pvs1\<rparr>, params1)
          else (case add_pass_vars E g True svs pvs1 pass1 params1 of
                  (ok2, pvs2, pass2, params2) \<Rightarrow> (ok2, pass2\<lparr>p_vars := pvs2\<rparr>, params2)))"

subsection \<open>The pass cache\<close>

definition blend_equal :: "pl_blend_params option \<Rightarrow> pl_blend_params option \<Rightarrow> bool" where
  "blend_equal a b =
     (case (a, b) of
        (None, None) \<Rightarrow> True
      | (None, Some y) \<Rightarrow> False
      | (Some x, None) \<Rightarrow> False
      | (Some x, Some y) \<Rightarrow>
          src_rgb x = src_rgb y \<and> dst_rgb x = dst_rgb y \<and>
          src_alpha x = src_alpha y \<and> dst_alpha x = dst_alpha y)"

text \<open>
  The scan at the head of \<open>find_pass\<close>, over \<open>dp->passes\<close> from index \<open>i\<close> on. It returns
  the index of the pass it selects, or \<open>None\<close> when it runs off the end. For a raster
  shader it reads \<open>p->pass->params\<close> of every pass with the signature sought: where
  \<open>p->pass\<close> is \<open>NULL\<close> that is a null dereference.
\<close>

fun find_cached ::
    "64 word \<Rightarrow> bool \<Rightarrow> pl_tex option \<Rightarrow> pl_blend_params option \<Rightarrow> pass list \<Rightarrow> nat
       \<Rightarrow> crash + nat option" where
  "find_cached sig compute target blend [] i = Inr None"
| "find_cached sig compute target blend (p # ps) i =
     (if p_signature p \<noteq> sig then find_cached sig compute target blend ps (Suc i)
      else if compute then Inr (Some i)
      else
        case target of
          None \<Rightarrow> Inl AssertFail
        | Some t \<Rightarrow>
            (case p_pass p of
               None \<Rightarrow> Inl NullDeref
             | Some pp \<Rightarrow>
                 let tfmt = tex_format (tex_params (pp_target_dummy (pass_params pp)));
                     raster_ok = (fmt_ptr_eq (tex_format (tex_params t)) tfmt
                                   \<and> blend_equal (pp_blend_params (pass_params pp)) blend)
                 in if raster_ok then Inr (Some i)
                    else find_cached sig compute target blend ps (Suc i)))"

text \<open>The vertex attribute loop of a raster pass: offsets, locations and the stride.\<close>

fun place_vertex_attribs ::
    "pl_shader_va list \<Rightarrow> nat \<Rightarrow> nat \<Rightarrow> pl_vertex_attrib list \<times> nat" where
  "place_vertex_attribs [] stride va_loc = ([], stride)"
| "place_vertex_attribs (sva # rest) stride va_loc =
     (let va = (sva_attr sva)\<lparr>va_name := ''vert'' @ va_name (sva_attr sva),
                               va_offset := stride, va_location := va_loc\<rparr>
      in case place_vertex_attribs rest (stride + texel_size (va_fmt va))
                (va_loc + (texel_size (va_fmt va) + 16 - 1) div 16) of
           (vas, stride1) \<Rightarrow> (va # vas, stride1))"

text \<open>The descriptor loop: one running binding counter per namespace.\<close>

fun place_descriptors ::
    "(pl_desc_type \<Rightarrow> nat) \<Rightarrow> (nat \<Rightarrow> nat) \<Rightarrow> pl_shader_desc list \<Rightarrow> pl_desc list" where
  "place_descriptors ns binding [] = []"
| "place_descriptors ns binding (sd # sds) =
     (let k = ns (desc_type (sd_desc sd))
      in (sd_desc sd)\<lparr>desc_binding := binding k\<rparr>
           # place_descriptors ns (binding(k := Suc (binding k))) sds)"

text \<open>
  \<open>generate_shaders\<close>, reduced to the places where it can stop the program: the
  assertions, the \<open>default: abort()\<close> arms and the objects it reads through. \<open>None\<close>
  means it ran to its end.
\<close>

fun check_vertex_attribs :: "string \<Rightarrow> pl_shader_va list \<Rightarrow> crash option" where
  "check_vertex_attribs vert_pos [] = None"
| "check_vertex_attribs vert_pos (sva # rest) =
     (if va_name (sva_attr sva) = vert_pos \<and> num_components (va_fmt (sva_attr sva)) \<noteq> 2
      then Some AssertFail
      else check_vertex_attribs vert_pos rest)"

fun check_descriptor :: "pl_shader_desc \<Rightarrow> crash option" where
  "check_descriptor sd =
     (case desc_type (sd_desc sd) of
        PL_DESC_SAMPLED_TEX \<Rightarrow>
          (case sd_object sd of TexObj t \<Rightarrow> None | _ \<Rightarrow> Some NullDeref)
      | PL_DESC_STORAGE_IMG \<Rightarrow>
          (case sd_object sd of
             TexObj t \<Rightarrow>
               (case tex_format (tex_params t) of
                  None \<Rightarrow> Some NullDeref
                | Some f \<Rightarrow> if has_glsl_format f then None else Some AssertFail)
           | _ \<Rightarrow> Some NullDeref)
      | PL_DESC_BUF_UNIFORM \<Rightarrow> None
      | PL_DESC_BUF_STORAGE \<Rightarrow> None
      | PL_DESC_BUF_TEXEL_UNIFORM \<Rightarrow> None
      | PL_DESC_BUF_TEXEL_STORAGE \<Rightarrow>
          (case sd_object sd of
             BufObj b \<Rightarrow> (case buf_format b of None \<Rightarrow> Some NullDeref | Some f \<Rightarrow> None)
           | _ \<Rightarrow> Some NullDeref)
      | PL_DESC_INVALID \<Rightarrow> Some Abort)"

fun check_descriptors :: "pl_shader_desc list \<Rightarrow> crash option" where
  "check_descriptors [] = None"
| "check_descriptors (sd # sds) =
     (case check_descriptor sd of Some e \<Rightarrow> Some e | None \<Rightarrow> check_descriptors sds)"

definition generate_shaders :: "pl_pass_params \<Rightarrow> pl_shader \<Rightarrow> string option \<Rightarrow> crash option" where
  "generate_shaders params sh vert_pos =
     (case (case pp_type params of
              PL_PASS_RASTER \<Rightarrow>
                (case vert_pos of
                   None \<Rightarrow> Some AssertFail
                 | Some vp \<Rightarrow> check_vertex_attribs vp (res_vertex_attribs sh))
            | PL_PASS_COMPUTE \<Rightarrow> None
            | PL_PASS_INVALID \<Rightarrow> Some Abort) of
        Some e \<Rightarrow> Some e
      | None \<Rightarrow>
          (case check_descriptors (res_descriptors sh) of
             Some e \<Rightarrow> Some e
           | None \<Rightarrow>
               if res_input sh \<noteq> PL_SHADER_SIG_NONE then Some AssertFail
               else (case pp_type params of
                       PL_PASS_RASTER \<Rightarrow>
                         if res_output sh \<noteq> PL_SHADER_SIG_COLOR then Some AssertFail else None
                     | PL_PASS_COMPUTE \<Rightarrow>
                         if res_output sh \<noteq> PL_SHADER_SIG_NONE then Some AssertFail else None
                     | PL_PASS_INVALID \<Rightarrow> Some Abort)))"

text \<open>
  The new pass as \<open>find_pass\<close> sets it up (\<open>talloc_zero\<close>, the signature, \<open>failed = true\<close>
  "will be set to false on success", the descriptor of the uniform buffer), and the
  initial \<open>params\<close>.
\<close>

definition new_pass :: "64 word \<Rightarrow> pass" where
  "new_pass sig =
     \<lparr>p_signature = sig, p_pass = None, p_failed = True, p_vars = [], p_ubo = None,
      p_ubo_desc = zero_shader_desc
        \<lparr>sd_desc := zero_desc\<lparr>desc_name := ''UBO'', desc_type := PL_DESC_BUF_UNIFORM\<rparr>\<rparr>,
      p_run_params = zero_run_params\<rparr>"

definition new_pass_params :: "pl_shader \<Rightarrow> pl_blend_params option \<Rightarrow> pl_pass_params" where
  "new_pass_params sh blend =
     \<lparr>pp_type = (if sh_is_compute sh then PL_PASS_COMPUTE else PL_PASS_RASTER),
      pp_variables = [], pp_descriptors = [],
      pp_num_descriptors = length (res_descriptors sh),
      pp_push_constants_size = 0, pp_blend_params = blend,
      pp_target_dummy = zero_tex, pp_vertex_attribs = [], pp_vertex_stride = 0\<rparr>"

text \<open>
  The rest of \<open>find_pass\<close>, from the allocation of the new pass to the label
  \<open>error:\<close>. It returns the world, the shader (which gains the descriptor of the uniform
  buffer) and the new pass as it is when the label is reached: \<open>failed\<close> is still set
  on each \<open>goto error\<close> and cleared only on the path that runs through. Of the two
  creations in the GPU layer, \<open>pl_buf_create\<close> returns a buffer of the size asked for
  and \<open>pl_pass_create\<close> a pass object that records the parameters it was created with
  (the spec's "recorded target pixel format" and blend parameters), or \<open>NULL\<close>.
\<close>

definition create_pass ::
    "env \<Rightarrow> world \<Rightarrow> pl_gpu \<Rightarrow> pl_shader \<Rightarrow> 64 word \<Rightarrow> pl_tex option \<Rightarrow> string option
       \<Rightarrow> pl_blend_params option \<Rightarrow> crash + (world \<times> pl_shader \<times> pass)" where
  "create_pass E w g sh sig target vert_pos blend =
     (let pass0 = new_pass sig;
          params0 = new_pass_params sh blend
      in case (if pp_type params0 = PL_PASS_RASTER
               then (case target of
                       None \<Rightarrow> Inl AssertFail
                     | Some t \<Rightarrow>
                         (case place_vertex_attribs (res_vertex_attribs sh) 0 0 of
                            (vas, stride) \<Rightarrow>
                              Inr (pass0\<lparr>p_run_params := (p_run_params pass0)
                                       \<lparr>rp_vertex_count := 4,
                                        rp_vertex_data := Some Map.empty\<rparr>\<rparr>,
                                   params0\<lparr>pp_target_dummy := t, pp_vertex_attribs := vas,
                                           pp_vertex_stride := stride\<rparr>)))
               else Inr (pass0, params0)) of
           Inl e \<Rightarrow> Inl e
         | Inr (pass1, params1) \<Rightarrow>
        (case place_variables E g (res_variables sh) pass1 params1 of
           (False, pass2, params2) \<Rightarrow> Inr (w, sh, pass2\<lparr>p_ubo_desc := zero_shader_desc\<rparr>)
         | (True, pass2, params2) \<Rightarrow>
        (let ubo_size = sh_buf_desc_size E (p_ubo_desc pass2);
             w1 = (if ubo_size \<noteq> 0 then w @ [Buf_create ubo_size] else w)
         in if ubo_size \<noteq> 0 \<and> \<not> pl_buf_create_ok E w ubo_size
            then Inr (w1, sh, pass2\<lparr>p_ubo_desc := zero_shader_desc\<rparr>)
            else
              let ubo = (if ubo_size \<noteq> 0
                         then Some \<lparr>buf_size = ubo_size, buf_format = None\<rparr> else None);
                  ubo_index = length (res_descriptors sh);
                  pass3 = (case ubo of
                             None \<Rightarrow> pass2
                           | Some b \<Rightarrow> pass2\<lparr>p_ubo := Some b,
                                p_ubo_desc := (p_ubo_desc pass2)\<lparr>sd_object := BufObj b\<rparr>\<rparr>);
                  sh1 = (case ubo of None \<Rightarrow> sh | Some b \<Rightarrow> sh_desc sh (p_ubo_desc pass3));
                  num = length (res_descriptors sh1);
                  descs = place_descriptors (pl_desc_namespace E g) (\<lambda>k. 0) (res_descriptors sh1);
                  bindings0 = replicate num NullObj;
                  bindings = (case ubo of
                                None \<Rightarrow> bindings0
                              | Some b \<Rightarrow> bindings0[ubo_index := BufObj b]);
                  pcs = PL_ALIGN2 (pp_push_constants_size params2) 4;
                  params3 = params2\<lparr>pp_num_descriptors := num, pp_descriptors := descs,
                                    pp_push_constants_size := pcs\<rparr>;
                  pass4 = pass3\<lparr>p_run_params := (p_run_params pass3)
                                  \<lparr>rp_desc_bindings := bindings,
                                   rp_push_constants := Some Map.empty\<rparr>\<rparr>
              in case generate_shaders params3 sh1 vert_pos of
                   Some e \<Rightarrow> Inl e
                 | None \<Rightarrow>
                     if \<not> pl_pass_create_ok E w1 params3
                     then Inr (w1 @ [Pass_create params3], sh1,
                               pass4\<lparr>p_ubo_desc := zero_shader_desc\<rparr>)
                     else Inr (w1 @ [Pass_create params3], sh1,
                               pass4\<lparr>p_pass := Some \<lparr>pass_params = params3\<rparr>,
                                     p_run_params := (p_run_params pass4)
                                       \<lparr>rp_pass := Some \<lparr>pass_params = params3\<rparr>\<rparr>,
                                     p_failed := False,
                                     p_ubo_desc := zero_shader_desc\<rparr>))))"

text \<open>
  \<open>find_pass\<close>: the scan, and on a miss the new pass, appended to the cache whether it
  failed or not. The result is the index of the pass in \<open>dp->passes\<close>.
\<close>

definition find_pass ::
    "env \<Rightarrow> world \<Rightarrow> pl_dispatch \<Rightarrow> pl_shader \<Rightarrow> pl_tex option \<Rightarrow> string option
       \<Rightarrow> pl_blend_params option \<Rightarrow> crash + (world \<times> pl_dispatch \<times> pl_shader \<times> nat)" where
  "find_pass E w dp sh target vert_pos blend =
     (let sig = pl_shader_signature E sh
      in case find_cached sig (sh_is_compute sh) target blend (passes dp) 0 of
           Inl e \<Rightarrow> Inl e
         | Inr (Some i) \<Rightarrow> Inr (w, dp, sh, i)
         | Inr None \<Rightarrow>
             (case create_pass E w (gpu dp) sh sig target vert_pos blend of
                Inl e \<Rightarrow> Inl e
              | Inr (w1, sh1, pass) \<Rightarrow>
                  Inr (w1, dp\<lparr>passes := passes dp @ [pass]\<rparr>, sh1, length (passes dp))))"

subsection \<open>Updating the bindings of a pass\<close>

text \<open>
  The write loop of a uniform-buffer variable: \<open>src\<close> runs from 0 to the host size in
  steps of the host stride, \<open>dst\<close> in steps of the device stride. With a host stride of
  0 the C loop cannot end; \<open>update_pass_var\<close> reports that case as \<open>Hang\<close>.
\<close>

function ubo_write_loop :: "nat \<Rightarrow> nat \<Rightarrow> nat \<Rightarrow> nat \<Rightarrow> nat \<Rightarrow> (nat \<times> nat) list" where
  "ubo_write_loop src end_src dst hstride dstride =
     (if src < end_src \<and> 0 < hstride
      then (dst, src) # ubo_write_loop (src + hstride) end_src (dst + dstride) hstride dstride
      else [])"
  by pat_completeness auto
termination
  by (relation "measure (\<lambda>(src, end_src, dst, hstride, dstride). end_src - src)") auto

declare ubo_write_loop.simps [simp del]

definition update_pass_var ::
    "env \<Rightarrow> world \<Rightarrow> pass \<Rightarrow> pl_shader_var \<Rightarrow> pass_var \<Rightarrow> crash + (world \<times> pass \<times> pass_var)" where
  "update_pass_var E w pass sv pv =
     (let host_layout = pl_var_host_layout E 0 (sv_var sv);
          rparams = p_run_params pass
      in if layout_size host_layout = 0 then Inl AssertFail
         else if pv_cached_data pv = Some (sv_data sv) then Inr (w, pass, pv)
         else
           let pv1 = pv\<lparr>pv_cached_data := Some (sv_data sv)\<rparr>
           in case pv_type pv of
                PASS_VAR_NONE \<Rightarrow> Inl Abort
              | PASS_VAR_GLOBAL \<Rightarrow>
                  Inr (w, pass\<lparr>p_run_params := rparams
                         \<lparr>rp_var_updates := rp_var_updates rparams
                             @ [\<lparr>vu_index = pv_index pv, vu_data = sv_data sv\<rparr>]\<rparr>\<rparr>, pv1)
              | PASS_VAR_UBO \<Rightarrow>
                  (case p_ubo pass of
                     None \<Rightarrow> Inl AssertFail
                   | Some b \<Rightarrow>
                       if layout_stride host_layout = 0 then Inl Hang
                       else Inr (w @ map (\<lambda>(dst, src). Buf_write dst src (layout_stride host_layout))
                                       (ubo_write_loop 0 (layout_size host_layout)
                                          (layout_offset (pv_layout pv))
                                          (layout_stride host_layout)
                                          (layout_stride (pv_layout pv))),
                                 pass, pv1))
              | PASS_VAR_PUSHC \<Rightarrow>
                  (case rp_push_constants rparams of
                     None \<Rightarrow> Inl AssertFail
                   | Some pc \<Rightarrow>
                       Inr (w, pass\<lparr>p_run_params := rparams
                              \<lparr>rp_push_constants :=
                                 Some (pc(layout_offset (pv_layout pv) \<mapsto> sv_data sv))\<rparr>\<rparr>, pv1)))"

text \<open>
  The loop over \<open>res->variables[i]\<close> and \<open>pass->vars[i]\<close>. A shader with more variables
  than the pass has slots would read past \<open>pass->vars\<close>.
\<close>

fun update_pass_vars ::
    "env \<Rightarrow> world \<Rightarrow> pass \<Rightarrow> pl_shader_var list \<Rightarrow> pass_var list
       \<Rightarrow> crash + (world \<times> pass \<times> pass_var list)" where
  "update_pass_vars E w pass [] pvs = Inr (w, pass, pvs)"
| "update_pass_vars E w pass (sv # svs) [] = Inl OutOfBounds"
| "update_pass_vars E w pass (sv # svs) (pv # pvs) =
     (case update_pass_var E w pass sv pv of
        Inl e \<Rightarrow> Inl e
      | Inr (w1, pass1, pv1) \<Rightarrow>
          (case update_pass_vars E w1 pass1 svs pvs of
             Inl e \<Rightarrow> Inl e
           | Inr (w2, pass2, pvs2) \<Rightarrow> Inr (w2, pass2, pv1 # pvs2)))"

text \<open>
  The descriptor loop \<open>rparams->desc_bindings[i].object = sh->res.descriptors[i].object\<close>;
  the table was sized when the pass was created.
\<close>

definition update_desc_bindings ::
    "pl_shader_desc list \<Rightarrow> pl_object list \<Rightarrow> crash + pl_object list" where
  "update_desc_bindings sds bindings =
     (if length bindings < length sds then Inl OutOfBounds
      else Inr (map sd_object sds @ drop (length sds) bindings))"

text \<open>The vertex data: four corner values per attribute, at the attribute's placed offset.\<close>

fun update_vertex_data ::
    "nat \<Rightarrow> pl_shader_va list \<Rightarrow> pl_vertex_attrib list \<Rightarrow> (nat \<rightharpoonup> scalar list)
       \<Rightarrow> crash + (nat \<rightharpoonup> scalar list)" where
  "update_vertex_data stride [] vas vd = Inr vd"
| "update_vertex_data stride (sva # svas) [] vd = Inl OutOfBounds"
| "update_vertex_data stride (sva # svas) (va # vas) vd =
     update_vertex_data stride svas vas
       (foldl (\<lambda>buf n. buf(va_offset va + n * stride \<mapsto> sva_data sva ! n)) vd [0, 1, 2, 3])"

text \<open>C's integer division, which truncates towards zero.\<close>

definition c_div :: "int \<Rightarrow> int \<Rightarrow> int" where
  "c_div a b = sgn a * sgn b * (\<bar>a\<bar> div \<bar>b\<bar>)"

subsection \<open>The entry points\<close>

definition pl_dispatch_abort ::
    "pl_dispatch \<Rightarrow> pl_shader option \<Rightarrow> pl_dispatch \<times> pl_shader option" where
  "pl_dispatch_abort dp psh =
     (case psh of
        None \<Rightarrow> (dp, None)
      | Some sh \<Rightarrow> (dp\<lparr>shaders := shaders dp @ [sh]\<rparr>, None))"

text \<open>
  \<open>translate_compute_shader\<close>: the variables and the descriptor it registers, its two
  assertions, and the output signature it resets.
\<close>

definition sh_var_from_va ::
    "env \<Rightarrow> pl_shader \<Rightarrow> string \<Rightarrow> pl_vertex_attrib \<Rightarrow> scalar list \<Rightarrow> pl_shader" where
  "sh_var_from_va E sh n va d =
     sh_var sh \<lparr>sv_var = pl_var_from_fmt E (va_fmt va) n, sv_data = d, sv_dynamic = False\<rparr>"

text \<open>The inner loop over the four corner points \<open>p0\<close> to \<open>p3\<close> of one attribute.\<close>

definition add_corner_vars :: "env \<Rightarrow> pl_shader \<Rightarrow> pl_shader_va \<Rightarrow> pl_shader" where
  "add_corner_vars E sh sva =
     foldl (\<lambda>s1 (i, n). sh_var_from_va E s1 n (sva_attr sva) (sva_data sva ! i))
           sh [(0, ''p0''), (1, ''p1''), (2, ''p2''), (3, ''p3'')]"

definition translate_compute_shader ::
    "env \<Rightarrow> pl_shader \<Rightarrow> pl_tex \<Rightarrow> pl_rect2d \<Rightarrow> pl_blend_params option \<Rightarrow> crash + pl_shader" where
  "translate_compute_shader E sh target rc blend =
     (let width = \<bar>pl_rect_w rc\<bar>;
          height = \<bar>pl_rect_h rc\<bar>;
          sh1 = sh_var sh \<lparr>sv_var = pl_var_vec2 ''out_scale'',
                           sv_data = [Float (1 / real_of_int width),
                                      Float (1 / real_of_int height)],
                           sv_dynamic = True\<rparr>;
          sh2 = foldl (add_corner_vars E) sh1 (res_vertex_attribs sh1)
      in if \<not> storable (tex_params target) then Inl AssertFail
         else if res_output sh2 \<noteq> PL_SHADER_SIG_COLOR then Inl AssertFail
         else
           let sh3 = sh_desc sh2
                 \<lparr>sd_desc = \<lparr>desc_name = ''out_image'', desc_type = PL_DESC_STORAGE_IMG,
                              desc_binding = 0,
                              desc_access = (if blend \<noteq> None then PL_DESC_ACCESS_READWRITE
                                             else PL_DESC_ACCESS_WRITEONLY)\<rparr>,
                  sd_object = TexObj target, sd_buffer_vars = []\<rparr>;
               sh4 = sh_var sh3
                 \<lparr>sv_var = \<lparr>var_name = ''base'', var_type = PL_VAR_SINT,
                             dim_v = 2, dim_m = 1, dim_a = 1\<rparr>,
                  sv_data = [Sint (rc_x0 rc), Sint (rc_y0 rc)], sv_dynamic = True\<rparr>
           in Inr (sh4\<lparr>res_output := PL_SHADER_SIG_NONE\<rparr>))"

text \<open>
  The part of both entry points between \<open>find_pass\<close> and the label \<open>error:\<close>, for a pass
  that has not failed: descriptor bindings, variables, then what \<open>tail\<close> adds
  (vertex data and scissors, or the group counts), and the call of \<open>pl_pass_run\<close>.
\<close>

definition bind_and_run ::
    "env \<Rightarrow> world \<Rightarrow> pl_dispatch \<Rightarrow> pl_shader \<Rightarrow> nat
       \<Rightarrow> (pl_pass_run_params \<Rightarrow> crash + pl_pass_run_params)
       \<Rightarrow> crash + (bool \<times> world \<times> pl_dispatch \<times> pl_shader)" where
  "bind_and_run E w dp sh i tail =
     (let pass = passes dp ! i
      in case update_desc_bindings (res_descriptors sh) (rp_desc_bindings (p_run_params pass)) of
           Inl e \<Rightarrow> Inl e
         | Inr bindings \<Rightarrow>
        (let pass1 = pass\<lparr>p_run_params := (p_run_params pass)
                            \<lparr>rp_desc_bindings := bindings, rp_var_updates := []\<rparr>\<rparr>
         in case update_pass_vars E w pass1 (res_variables sh) (p_vars pass1) of
              Inl e \<Rightarrow> Inl e
            | Inr (w1, pass2, pvs) \<Rightarrow>
           (case tail (p_run_params pass2) of
              Inl e \<Rightarrow> Inl e
            | Inr rparams \<Rightarrow>
                let pass3 = pass2\<lparr>p_vars := pvs, p_run_params := rparams\<rparr>
                in Inr (True, w1 @ [Pass_run rparams],
                        dp\<lparr>passes := (passes dp)[i := pass3]\<rparr>, sh))))"

definition finish_tail ::
    "env \<Rightarrow> pl_shader \<Rightarrow> pl_tex \<Rightarrow> pl_rect2d \<Rightarrow> pl_pass_run_params \<Rightarrow> crash + pl_pass_run_params" where
  "finish_tail E sh target rc rparams =
     (case (case rp_vertex_data rparams of
              None \<Rightarrow> Inr rparams
            | Some vd \<Rightarrow>
                (case rp_pass rparams of
                   None \<Rightarrow> Inl NullDeref
                 | Some pp \<Rightarrow>
                     (case update_vertex_data (pp_vertex_stride (pass_params pp))
                             (res_vertex_attribs sh) (pp_vertex_attribs (pass_params pp)) vd of
                        Inl e \<Rightarrow> Inl e
                      | Inr vd1 \<Rightarrow> Inr (rparams\<lparr>rp_vertex_data := Some vd1\<rparr>)))) of
        Inl e \<Rightarrow> Inl e
      | Inr rparams1 \<Rightarrow>
          if sh_is_compute sh
          then
            let width = \<bar>pl_rect_w rc\<bar>; height = \<bar>pl_rect_h rc\<bar>;
                block_w = fst (res_compute_group_size sh);
                block_h = snd (res_compute_group_size sh)
            in if block_w = 0 \<or> block_h = 0 then Inl DivByZero
               else Inr (rparams1\<lparr>rp_compute_groups :=
                                    [c_div (width + block_w - 1) block_w,
                                     c_div (height + block_h - 1) block_h, 1],
                                  rp_target := Some target\<rparr>)
          else Inr (rparams1\<lparr>rp_scissors := pl_rect2d_normalize E rc,
                             rp_target := Some target\<rparr>))"

text \<open>
  The step of \<open>pl_dispatch_finish\<close> that completes the shader: a compute shader is
  translated, a raster shader gets the vertex attribute \<open>position\<close>. The result is
  \<open>vert_pos\<close> and the shader. Where \<open>sh_attr_vec2\<close> fails it returns \<open>NULL\<close> and marks
  the shader failed.
\<close>

definition finish_prepare ::
    "env \<Rightarrow> pl_shader \<Rightarrow> pl_tex \<Rightarrow> pl_rect2d \<Rightarrow> pl_blend_params option
       \<Rightarrow> crash + (string option \<times> pl_shader)" where
  "finish_prepare E sh tgt rc blend =
     (if sh_is_compute sh
      then (case translate_compute_shader E sh tgt rc blend of
              Inl e \<Rightarrow> Inl e
            | Inr sh1 \<Rightarrow> Inr (None, sh1))
      else (case sh_attr_vec2 E sh ''position''
                   \<lparr>rcf_x0 = 2 * real_of_int (rc_x0 rc) / real (tex_w (tex_params tgt)) - 1,
                    rcf_y0 = 2 * real_of_int (rc_y0 rc) / real (tex_h (tex_params tgt)) - 1,
                    rcf_x1 = 2 * real_of_int (rc_x1 rc) / real (tex_w (tex_params tgt)) - 1,
                    rcf_y1 = 2 * real_of_int (rc_y1 rc) / real (tex_h (tex_params tgt)) - 1\<rparr> of
              None \<Rightarrow> Inr (None, sh\<lparr>sh_failed := True\<rparr>)
            | Some (ident, sva) \<Rightarrow>
                Inr (Some ident, sh\<lparr>res_vertex_attribs := res_vertex_attribs sh @ [sva]\<rparr>)))"

text \<open>
  From the call of \<open>find_pass\<close> to the label \<open>error:\<close>: a failed pass is a silent
  \<open>goto error\<close>, any other pass is bound and run.
\<close>

definition finish_dispatch ::
    "env \<Rightarrow> world \<Rightarrow> pl_dispatch \<Rightarrow> pl_shader \<Rightarrow> pl_tex \<Rightarrow> pl_rect2d \<Rightarrow> string option
       \<Rightarrow> pl_blend_params option \<Rightarrow> crash + (bool \<times> world \<times> pl_dispatch \<times> pl_shader)" where
  "finish_dispatch E w dp sh tgt rc vert_pos blend =
     (case find_pass E w dp sh (Some tgt) vert_pos blend of
        Inl e \<Rightarrow> Inl e
      | Inr (w1, dp1, sh1, i) \<Rightarrow>
          if p_failed (passes dp1 ! i) then Inr (False, w1, dp1, sh1)
          else bind_and_run E w1 dp1 sh1 i (finish_tail E sh1 tgt rc))"

text \<open>
  \<open>pl_dispatch_finish\<close> up to the label \<open>error:\<close>. Every \<open>goto error\<close> is a result
  \<open>Inr (False, \<dots>)\<close>; the value carries the dispatcher and the shader as they are when
  the label is reached.
\<close>

definition dispatch_finish_body ::
    "env \<Rightarrow> world \<Rightarrow> pl_dispatch \<Rightarrow> pl_shader \<Rightarrow> pl_tex option \<Rightarrow> pl_rect2d option
       \<Rightarrow> pl_blend_params option \<Rightarrow> crash + (bool \<times> world \<times> pl_dispatch \<times> pl_shader)" where
  "dispatch_finish_body E w dp sh target rc_ptr blend =
     (if sh_failed sh then Inr (False, w, dp, sh)
      else if \<not> sh_mutable sh then Inr (False, w, dp, sh)
      else if res_input sh \<noteq> PL_SHADER_SIG_NONE \<or> res_output sh \<noteq> PL_SHADER_SIG_COLOR
      then Inr (False, w, dp, sh)
      else
        case target of
          None \<Rightarrow> Inl NullDeref
        | Some tgt \<Rightarrow>
       (let tpars = tex_params tgt
        in if pl_tex_params_dimension tpars \<noteq> 2 \<or> \<not> renderable tpars
           then Inr (False, w, dp, sh)
           else if sh_is_compute sh \<and> \<not> storable tpars then Inr (False, w, dp, sh)
           else
             let full = \<lparr>rc_x0 = 0, rc_y0 = 0, rc_x1 = int (tex_w tpars),
                         rc_y1 = int (tex_h tpars)\<rparr>;
                 rc = (case rc_ptr of None \<Rightarrow> full | Some r \<Rightarrow> r);
                 tw = \<bar>pl_rect_w rc\<bar>;
                 th = \<bar>pl_rect_h rc\<bar>
             in if (case pl_shader_output_size sh of
                      None \<Rightarrow> False
                    | Some (ow, oh) \<Rightarrow> ow \<noteq> tw \<or> oh \<noteq> th)
                then Inr (False, w, dp, sh)
                else
                  case finish_prepare E sh tgt rc blend of
                    Inl e \<Rightarrow> Inl e
                  | Inr (vert_pos, sh1) \<Rightarrow> finish_dispatch E w dp sh1 tgt rc vert_pos blend))"

text \<open>
  \<open>pl_dispatch_finish\<close>: the body, then the code at the label (the temporary text
  buffers are emptied, which the model does not hold, and \<open>pl_dispatch_abort\<close> is
  called). The result is the return value, the world, the dispatcher and the caller's
  handle \<open>*psh\<close>.
\<close>

definition pl_dispatch_finish ::
    "env \<Rightarrow> world \<Rightarrow> pl_dispatch \<Rightarrow> pl_shader option \<Rightarrow> pl_tex option \<Rightarrow> pl_rect2d option
       \<Rightarrow> pl_blend_params option
       \<Rightarrow> crash + (bool \<times> world \<times> pl_dispatch \<times> pl_shader option)" where
  "pl_dispatch_finish E w dp psh target rc_ptr blend =
     (case psh of
        None \<Rightarrow> Inl NullDeref
      | Some sh \<Rightarrow>
          (case dispatch_finish_body E w dp sh target rc_ptr blend of
             Inl e \<Rightarrow> Inl e
           | Inr (ret, w1, dp1, sh1) \<Rightarrow>
               (case pl_dispatch_abort dp1 (Some sh1) of
                  (dp2, psh2) \<Rightarrow> Inr (ret, w1, dp2, psh2))))"

definition dispatch_compute_body ::
    "env \<Rightarrow> world \<Rightarrow> pl_dispatch \<Rightarrow> pl_shader \<Rightarrow> int list
       \<Rightarrow> crash + (bool \<times> world \<times> pl_dispatch \<times> pl_shader)" where
  "dispatch_compute_body E w dp sh dispatch_size =
     (if sh_failed sh then Inr (False, w, dp, sh)
      else if \<not> sh_mutable sh then Inr (False, w, dp, sh)
      else if res_input sh \<noteq> PL_SHADER_SIG_NONE \<or> res_output sh \<noteq> PL_SHADER_SIG_NONE
      then Inr (False, w, dp, sh)
      else if \<not> sh_is_compute sh then Inr (False, w, dp, sh)
      else if res_vertex_attribs sh \<noteq> [] then Inr (False, w, dp, sh)
      else
        case find_pass E w dp sh None None None of
          Inl e \<Rightarrow> Inl e
        | Inr (w1, dp1, sh2, i) \<Rightarrow>
            if p_failed (passes dp1 ! i) then Inr (False, w1, dp1, sh2)
            else bind_and_run E w1 dp1 sh2 i
                   (\<lambda>rparams. Inr (rparams\<lparr>rp_compute_groups := take 3 dispatch_size\<rparr>)))"

definition pl_dispatch_compute ::
    "env \<Rightarrow> world \<Rightarrow> pl_dispatch \<Rightarrow> pl_shader option \<Rightarrow> int list
       \<Rightarrow> crash + (bool \<times> world \<times> pl_dispatch \<times> pl_shader option)" where
  "pl_dispatch_compute E w dp psh dispatch_size =
     (case psh of
        None \<Rightarrow> Inl NullDeref
      | Some sh \<Rightarrow>
          (case dispatch_compute_body E w dp sh dispatch_size of
             Inl e \<Rightarrow> Inl e
           | Inr (ret, w1, dp1, sh1) \<Rightarrow>
               (case pl_dispatch_abort dp1 (Some sh1) of
                  (dp2, psh2) \<Rightarrow> Inr (ret, w1, dp2, psh2))))"

subsection \<open>The rectangle and the checks of \<open>pl_dispatch_finish\<close>\<close>

text \<open>
  Two parts of \<open>dispatch_finish_body\<close> by name, for the statements about a dispatch
  that reaches \<open>find_pass\<close>: \<open>target_rect\<close> is \<open>rc = PL_DEF(rc, &full)\<close>, and
  \<open>dispatch_valid\<close> holds when none of the checks at the head of \<open>pl_dispatch_finish\<close>
  sends it to the label \<open>error:\<close>. The shader that \<open>find_pass\<close> is then given is
  the one \<open>finish_prepare\<close> returns for \<open>target_rect\<close>.
\<close>

definition target_rect :: "pl_tex \<Rightarrow> pl_rect2d option \<Rightarrow> pl_rect2d" where
  "target_rect tgt rc_ptr =
     (case rc_ptr of
        None \<Rightarrow> \<lparr>rc_x0 = 0, rc_y0 = 0, rc_x1 = int (tex_w (tex_params tgt)),
                 rc_y1 = int (tex_h (tex_params tgt))\<rparr>
      | Some r \<Rightarrow> r)"

definition dispatch_valid :: "pl_shader \<Rightarrow> pl_tex \<Rightarrow> pl_rect2d option \<Rightarrow> bool" where
  "dispatch_valid sh tgt rc_ptr \<longleftrightarrow>
     \<not> sh_failed sh \<and> sh_mutable sh
     \<and> res_input sh = PL_SHADER_SIG_NONE \<and> res_output sh = PL_SHADER_SIG_COLOR
     \<and> pl_tex_params_dimension (tex_params tgt) = 2 \<and> renderable (tex_params tgt)
     \<and> (sh_is_compute sh \<longrightarrow> storable (tex_params tgt))
     \<and> (case pl_shader_output_size sh of
           None \<Rightarrow> True
         | Some (ow, oh) \<Rightarrow> ow = \<bar>pl_rect_w (target_rect tgt rc_ptr)\<bar>
                             \<and> oh = \<bar>pl_rect_h (target_rect tgt rc_ptr)\<bar>)"

subsection \<open>The reuse condition in the words of the specification\<close>

text \<open>
  "A cached pass is reused if its signature equals the shader's signature and, for
  raster shaders, its recorded target pixel format equals the new target's format and
  its blend parameters are equal by value." This predicate follows those words; the
  scan \<open>find_cached\<close> above follows the code, and the two are compared below.
\<close>

definition spec_reusable ::
    "64 word \<Rightarrow> bool \<Rightarrow> pl_tex option \<Rightarrow> pl_blend_params option \<Rightarrow> pass \<Rightarrow> bool" where
  "spec_reusable sig compute target blend p =
     (p_signature p = sig \<and>
      (compute \<or>
       (case (target, p_pass p) of
          (Some t, Some pp) \<Rightarrow>
            fmt_ptr_eq (tex_format (tex_params t))
                       (tex_format (tex_params (pp_target_dummy (pass_params pp))))
            \<and> pp_blend_params (pass_params pp) = blend
        | _ \<Rightarrow> False)))"

text \<open>The creations among the calls of a world: buffers and passes.\<close>

fun is_creation :: "gpu_call \<Rightarrow> bool" where
  "is_creation (Buf_create n) = True"
| "is_creation (Pass_create p) = True"
| "is_creation (Buf_write dst src n) = False"
| "is_creation (Pass_run r) = False"

definition creations :: "world \<Rightarrow> gpu_call list" where
  "creations w = filter is_creation w"

text \<open>
  The pass creations among them: each is one call of \<open>pl_pass_create\<close>, one compiled
  pass.
\<close>

fun is_pass_create :: "gpu_call \<Rightarrow> bool" where
  "is_pass_create (Pass_create p) = True"
| "is_pass_create (Buf_create n) = False"
| "is_pass_create (Buf_write dst src n) = False"
| "is_pass_create (Pass_run r) = False"

definition pass_creations :: "world \<Rightarrow> gpu_call list" where
  "pass_creations w = filter is_pass_create w"

subsection \<open>A concrete device and two shaders\<close>

text \<open>
  Inputs on which the functions above are evaluated in examples. \<open>std_env\<close> is an
  instance of the parameters: every component has four bytes, push constants are laid
  out tightly (std430), a uniform buffer takes a new variable at its end in rows of
  sixteen bytes as long as the size limit allows, and every creation succeeds;
  \<open>failing_env\<close> differs in that no pass can be created. \<open>gpu_vk\<close> has push constants
  for four bytes and uniform buffers; \<open>gpu_pushc_only\<close> has the same push constants, no
  uniform buffers and no global input variables. \<open>sh0\<close> is a raster shader with a
  dynamic scalar and a static 4x4 matrix, \<open>shc0\<close> a compute shader without a target.
\<close>

definition std_env :: env where
  "std_env =
     \<lparr>pl_shader_signature = (\<lambda>sh. of_nat (length (res_variables sh))),
      pl_std430_layout = (\<lambda>off v.
         let stride = 4 * dim_v v;
             align = (if dim_v v = 3 then stride + 4 else stride);
             stride1 = (if 1 < dim_m v * dim_a v then align else stride)
         in \<lparr>layout_offset = PL_ALIGN2 off align, layout_stride = stride1,
             layout_size = stride1 * dim_m v * dim_a v\<rparr>),
      pl_var_host_layout = (\<lambda>off v.
         \<lparr>layout_offset = off, layout_stride = 4 * dim_v v,
          layout_size = 4 * dim_v v * dim_m v * dim_a v\<rparr>),
      sh_buf_desc_append = (\<lambda>g sd v.
         let cur = (case sd_buffer_vars sd of
                      [] \<Rightarrow> 0
                    | bv # bvs \<Rightarrow> layout_offset (bv_layout (last (bv # bvs)))
                                 + layout_size (bv_layout (last (bv # bvs))));
             lay = \<lparr>layout_offset = PL_ALIGN2 cur 16, layout_stride = 16,
                    layout_size = 16 * dim_m v * dim_a v\<rparr>
         in if max_ubo_size g < layout_offset lay + layout_size lay then None
            else Some (sd\<lparr>sd_buffer_vars :=
                           sd_buffer_vars sd @ [\<lparr>bv_var = v, bv_layout = lay\<rparr>]\<rparr>, lay)),
      sh_buf_desc_size = (\<lambda>sd.
         case sd_buffer_vars sd of
           [] \<Rightarrow> 0
         | bv # bvs \<Rightarrow> layout_offset (bv_layout (last (bv # bvs)))
                      + layout_size (bv_layout (last (bv # bvs)))),
      pl_desc_namespace = (\<lambda>g t. 0),
      pl_var_from_fmt = (\<lambda>f n.
         \<lparr>var_name = n, var_type = PL_VAR_FLOAT, dim_v = num_components f,
          dim_m = 1, dim_a = 1\<rparr>),
      pl_rect2d_normalize = (\<lambda>rc.
         \<lparr>rc_x0 = min (rc_x0 rc) (rc_x1 rc), rc_y0 = min (rc_y0 rc) (rc_y1 rc),
          rc_x1 = max (rc_x0 rc) (rc_x1 rc), rc_y1 = max (rc_y0 rc) (rc_y1 rc)\<rparr>),
      sh_attr_vec2 = (\<lambda>sh n rc. Some (n,
         \<lparr>sva_attr = \<lparr>va_name = n,
                       va_fmt = \<lparr>fmt_addr = 1, texel_size = 8, num_components = 2,
                                 has_glsl_format = False\<rparr>,
                       va_offset = 0, va_location = 0\<rparr>,
          sva_data = [[Float (rcf_x0 rc), Float (rcf_y0 rc)],
                      [Float (rcf_x1 rc), Float (rcf_y0 rc)],
                      [Float (rcf_x0 rc), Float (rcf_y1 rc)],
                      [Float (rcf_x1 rc), Float (rcf_y1 rc)]]\<rparr>)),
      pl_buf_create_ok = (\<lambda>w n. True),
      pl_pass_create_ok = (\<lambda>w p. True)\<rparr>"

definition failing_env :: env where
  "failing_env = std_env\<lparr>pl_pass_create_ok := (\<lambda>w p. False)\<rparr>"

definition scalar_var :: pl_shader_var where
  "scalar_var =
     \<lparr>sv_var = \<lparr>var_name = ''s'', var_type = PL_VAR_FLOAT, dim_v = 1, dim_m = 1, dim_a = 1\<rparr>,
      sv_data = [Float 1], sv_dynamic = True\<rparr>"

definition matrix_var :: pl_shader_var where
  "matrix_var =
     \<lparr>sv_var = \<lparr>var_name = ''m'', var_type = PL_VAR_FLOAT, dim_v = 4, dim_m = 4, dim_a = 1\<rparr>,
      sv_data = map Float [1, 0, 0, 0, 0, 1, 0, 0, 0, 0, 1, 0, 0, 0, 0, 1],
      sv_dynamic = False\<rparr>"

definition gpu_vk :: pl_gpu where
  "gpu_vk = \<lparr>glsl_version = 450, glsl_vulkan = True, cap_input_variables = False,
             max_pushc_size = 4, max_ubo_size = 65536\<rparr>"

definition gpu_pushc_only :: pl_gpu where
  "gpu_pushc_only = \<lparr>glsl_version = 450, glsl_vulkan = True, cap_input_variables = False,
                     max_pushc_size = 4, max_ubo_size = 0\<rparr>"

definition fmt_rgba8 :: pl_fmt where
  "fmt_rgba8 = \<lparr>fmt_addr = 16, texel_size = 4, num_components = 4, has_glsl_format = True\<rparr>"

definition tex0 :: pl_tex where
  "tex0 = \<lparr>tex_params = \<lparr>tex_w = 64, tex_h = 64, tex_d = 0, tex_format = Some fmt_rgba8,
                           renderable = True, storable = True\<rparr>\<rparr>"

definition sh0 :: pl_shader where
  "sh0 = \<lparr>sh_addr = 4096, sh_failed = False, sh_mutable = True, sh_is_compute = False,
          sh_output_w = 0, sh_output_h = 0, res_input = PL_SHADER_SIG_NONE,
          res_output = PL_SHADER_SIG_COLOR, res_variables = [scalar_var, matrix_var],
          res_descriptors = [], res_vertex_attribs = [], res_compute_group_size = (0, 0)\<rparr>"

definition shc0 :: pl_shader where
  "shc0 = \<lparr>sh_addr = 8192, sh_failed = False, sh_mutable = True, sh_is_compute = True,
           sh_output_w = 0, sh_output_h = 0, res_input = PL_SHADER_SIG_NONE,
           res_output = PL_SHADER_SIG_NONE, res_variables = [scalar_var],
           res_descriptors = [], res_vertex_attribs = [], res_compute_group_size = (8, 8)\<rparr>"

definition dp0 :: pl_dispatch where
  "dp0 = \<lparr>gpu = gpu_vk, current_ident = 0, current_index = 0, shaders = [], passes = []\<rparr>"

text \<open>
  Further inputs. \<open>tex_r16\<close> is a target of another format and \<open>tex_wide\<close> a target of
  another size with the format of \<open>tex0\<close>; \<open>sh0_again\<close> is a second shader object with
  the content of \<open>sh0\<close>. \<open>cached_pass\<close> is a pass as \<open>find_pass\<close> leaves it in the
  cache, with the signature of \<open>sh0\<close>, as far as the scan reads it, and \<open>dp_three\<close> a
  dispatcher with three of them, which differ in target format and blend parameters.
  \<open>gpu_small_ubo\<close> has uniform buffers of 64 bytes, the size of one 4x4 matrix, and
  \<open>shc_color\<close> is \<open>sh0\<close> as a compute shader.
\<close>

definition fmt_r16 :: pl_fmt where
  "fmt_r16 = \<lparr>fmt_addr = 32, texel_size = 2, num_components = 1, has_glsl_format = True\<rparr>"

definition tex_r16 :: pl_tex where
  "tex_r16 = \<lparr>tex_params = \<lparr>tex_w = 64, tex_h = 64, tex_d = 0, tex_format = Some fmt_r16,
                           renderable = True, storable = True\<rparr>\<rparr>"

definition tex_wide :: pl_tex where
  "tex_wide = \<lparr>tex_params = \<lparr>tex_w = 128, tex_h = 32, tex_d = 0, tex_format = Some fmt_rgba8,
                           renderable = True, storable = False\<rparr>\<rparr>"

definition blend_over :: pl_blend_params where
  "blend_over = \<lparr>src_rgb = PL_BLEND_SRC_ALPHA, dst_rgb = PL_BLEND_ONE_MINUS_SRC_ALPHA,
                  src_alpha = PL_BLEND_ONE, dst_alpha = PL_BLEND_ONE_MINUS_SRC_ALPHA\<rparr>"

definition cached_pass :: "pl_tex \<Rightarrow> pl_blend_params option \<Rightarrow> pass" where
  "cached_pass t bl =
     (new_pass 2)\<lparr>p_pass := Some \<lparr>pass_params = (new_pass_params sh0 bl)\<lparr>pp_target_dummy := t\<rparr>\<rparr>,
                  p_failed := False\<rparr>"

definition dp_three :: pl_dispatch where
  "dp_three = dp0\<lparr>passes := [cached_pass tex_r16 None, cached_pass tex0 (Some blend_over),
                         cached_pass tex0 None]\<rparr>"

definition sh0_again :: pl_shader where
  "sh0_again = sh0\<lparr>sh_addr := 12288\<rparr>"

definition gpu_small_ubo :: pl_gpu where
  "gpu_small_ubo = \<lparr>glsl_version = 450, glsl_vulkan = True, cap_input_variables = False,
                    max_pushc_size = 4, max_ubo_size = 64\<rparr>"

definition shc_color :: pl_shader where
  "shc_color = sh0\<lparr>sh_addr := 16384, sh_is_compute := True, res_compute_group_size := (8, 8)\<rparr>"

section \<open>Properties of the colorspace engine\<close>

lemmas decode_defs = pl_color_repr_decode_def luma_coeffs_def guess_levels_def
  pl_color_repr_normalize_def PL_DEF_def pl_color_adjustment_neutral_def
  pl_matrix3x3_identity_def pl_matrix3x3_scale_def pl_transform3x3_apply_def
  pl_matrix3x3_apply_def

lemmas pixel_defs = tv_repr_of_def white_ycbcr_def black_ycbcr_def white_other_def
  black_other_def nominal_white_def nominal_black_def

text \<open>
  In exact arithmetic the decoded nominal white is exactly \<open>(1, 1, 1)\<close> and the decoded
  nominal black exactly \<open>(0, 0, 0)\<close>, for each of the seven linear systems.
\<close>

lemma decode_tv_exact:
  assumes "pl_color_system_is_linear s = Some True"
  shows "\<exists>t r. pl_color_repr_decode (tv_repr_of s) (Some pl_color_adjustment_neutral) = Some (t, r)
           \<and> pl_transform3x3_apply t (nominal_white s) = [1, 1, 1]
           \<and> pl_transform3x3_apply t (nominal_black s) = [0, 0, 0]"
  using assms
  by (cases s) (simp_all add: decode_defs pixel_defs Let_def)

text \<open>
  C1. For every color system \<open>s\<close> with \<open>pl_color_system_is_linear s\<close>, decoding the repr
  with system \<open>s\<close>, TV levels, unset bit encoding and the neutral adjustment returns a
  transform that maps the nominal TV-range white pixel (235/255 in every channel, or
  luma 235/255 with chroma 128/255 for the YCbCr-like systems) to within 1e-5 of 1 in
  every component, and the nominal black pixel (16/255, chroma 128/255) to within 1e-5
  of 0 in every component.
\<close>

theorem decode_tv_white_black:
  assumes "pl_color_system_is_linear s = Some True"
  shows "\<exists>t r. pl_color_repr_decode (tv_repr_of s) (Some pl_color_adjustment_neutral) = Some (t, r)
           \<and> list_all (\<lambda>v. \<bar>v - 1\<bar> < 1 / 10 ^ 5) (pl_transform3x3_apply t (nominal_white s))
           \<and> list_all (\<lambda>v. \<bar>v - 0\<bar> < 1 / 10 ^ 5) (pl_transform3x3_apply t (nominal_black s))"
proof -
  from decode_tv_exact [OF assms] obtain t r where
    d: "pl_color_repr_decode (tv_repr_of s) (Some pl_color_adjustment_neutral) = Some (t, r)"
    and w: "pl_transform3x3_apply t (nominal_white s) = [1, 1, 1]"
    and b: "pl_transform3x3_apply t (nominal_black s) = [0, 0, 0]"
    by blast
  have "list_all (\<lambda>v. \<bar>v - 1\<bar> < 1 / 10 ^ 5) (pl_transform3x3_apply t (nominal_white s))"
    unfolding w by simp
  moreover have "list_all (\<lambda>v. \<bar>v - 0\<bar> < 1 / 10 ^ 5) (pl_transform3x3_apply t (nominal_black s))"
    unfolding b by simp
  ultimately show ?thesis using d by blast
qed

theorem decode_tv_white_black_witness:
  "pl_color_system_is_linear PL_COLOR_SYSTEM_BT_709 = Some True
   \<and> (\<exists>t r. pl_color_repr_decode (tv_repr_of PL_COLOR_SYSTEM_BT_709)
                (Some pl_color_adjustment_neutral) = Some (t, r)
           \<and> list_all (\<lambda>v. \<bar>v - 1\<bar> < 1 / 10 ^ 5) (pl_transform3x3_apply t white_ycbcr)
           \<and> list_all (\<lambda>v. \<bar>v - 0\<bar> < 1 / 10 ^ 5) (pl_transform3x3_apply t black_ycbcr))"
  using decode_tv_white_black [of PL_COLOR_SYSTEM_BT_709]
  by (simp add: nominal_white_def nominal_black_def)

text \<open>
  C6. Every call of \<open>pl_color_repr_decode\<close> that returns (the system and the levels are
  values of their enums, so that no \<open>abort()\<close> is reached) does return, and leaves the
  repr with \<open>sys = PL_COLOR_SYSTEM_RGB\<close>, \<open>levels = PL_COLOR_LEVELS_PC\<close>,
  \<open>bits.sample_depth = bits.color_depth\<close>, \<open>bits.bit_shift = 0\<close> and every other
  member (the alpha mode, \<open>bits.color_depth\<close>) as it was.
\<close>

theorem decode_normalizes_repr:
  assumes "sys repr \<noteq> PL_COLOR_SYSTEM_COUNT" and "levels repr \<noteq> PL_COLOR_LEVELS_COUNT"
  shows "\<exists>t. pl_color_repr_decode repr params =
           Some (t, repr\<lparr>sys := PL_COLOR_SYSTEM_RGB, levels := PL_COLOR_LEVELS_PC,
                        bits := (bits repr)\<lparr>sample_depth := color_depth (bits repr),
                                            bit_shift := 0\<rparr>\<rparr>)"
  using assms
  by (cases "sys repr"; cases "levels repr")
     (simp_all add: pl_color_repr_decode_def luma_coeffs_def guess_levels_def
        pl_color_repr_normalize_def pl_raw_primaries_get_def Let_def)

theorem decode_normalizes_repr_witness:
  "sys \<lparr>sys = PL_COLOR_SYSTEM_XYZ, levels = PL_COLOR_LEVELS_UNKNOWN,
        alpha = PL_ALPHA_PREMULTIPLIED,
        bits = \<lparr>sample_depth = 16, color_depth = 12, bit_shift = 4\<rparr>\<rparr> \<noteq> PL_COLOR_SYSTEM_COUNT
   \<and> levels \<lparr>sys = PL_COLOR_SYSTEM_XYZ, levels = PL_COLOR_LEVELS_UNKNOWN,
        alpha = PL_ALPHA_PREMULTIPLIED,
        bits = \<lparr>sample_depth = 16, color_depth = 12, bit_shift = 4\<rparr>\<rparr> \<noteq> PL_COLOR_LEVELS_COUNT
   \<and> (\<exists>t. pl_color_repr_decode
              \<lparr>sys = PL_COLOR_SYSTEM_XYZ, levels = PL_COLOR_LEVELS_UNKNOWN,
               alpha = PL_ALPHA_PREMULTIPLIED,
               bits = \<lparr>sample_depth = 16, color_depth = 12, bit_shift = 4\<rparr>\<rparr> None =
            Some (t, \<lparr>sys = PL_COLOR_SYSTEM_RGB, levels = PL_COLOR_LEVELS_PC,
                      alpha = PL_ALPHA_PREMULTIPLIED,
                      bits = \<lparr>sample_depth = 12, color_depth = 12, bit_shift = 0\<rparr>\<rparr>))"
  using decode_normalizes_repr
    [of "\<lparr>sys = PL_COLOR_SYSTEM_XYZ, levels = PL_COLOR_LEVELS_UNKNOWN,
          alpha = PL_ALPHA_PREMULTIPLIED,
          bits = \<lparr>sample_depth = 16, color_depth = 12, bit_shift = 4\<rparr>\<rparr>" None]
  by simp

lemma two_power_minus_one_nonzero:
  fixes n :: nat
  assumes "1 \<le> n"
  shows "(2 :: real) ^ n - 1 \<noteq> 0"
proof -
  have "(1 :: real) < 2 ^ n" using assms by (intro one_less_power) simp_all
  then show ?thesis by simp
qed

text \<open>
  C7, as the code has it. \<open>pl_color_repr_normalize\<close> returns 1 and leaves the repr (its
  \<open>bits\<close> included) unchanged whenever \<open>bits.sample_depth = bits.color_depth\<close> and
  \<open>bits.bit_shift = 0\<close>, for TV and for PC levels and every depth from 1 to 16.
\<close>

theorem normalize_noop:
  assumes "levels repr = PL_COLOR_LEVELS_TV \<or> levels repr = PL_COLOR_LEVELS_PC"
      and "bit_shift (bits repr) = 0"
      and "sample_depth (bits repr) = color_depth (bits repr)"
      and "1 \<le> color_depth (bits repr)" and "color_depth (bits repr) \<le> 16"
  shows "pl_color_repr_normalize repr = Some (1, repr)"
proof -
  have nz: "(2 :: real) ^ color_depth (bits repr) - 1 \<noteq> 0"
    using assms(4) by (rule two_power_minus_one_nonzero)
  have b: "(bits repr)\<lparr>sample_depth := color_depth (bits repr)\<rparr> = bits repr"
    using assms(3) by (metis pl_bit_encoding.surjective pl_bit_encoding.update_convs(1))
  show ?thesis
    using assms nz b
    by (auto simp: pl_color_repr_normalize_def guess_levels_def PL_DEF_def Let_def)
qed

theorem normalize_noop_witness:
  "pl_color_repr_normalize
     \<lparr>sys = PL_COLOR_SYSTEM_RGB, levels = PL_COLOR_LEVELS_PC, alpha = PL_ALPHA_UNKNOWN,
      bits = \<lparr>sample_depth = 10, color_depth = 10, bit_shift = 0\<rparr>\<rparr> =
   Some (1, \<lparr>sys = PL_COLOR_SYSTEM_RGB, levels = PL_COLOR_LEVELS_PC, alpha = PL_ALPHA_UNKNOWN,
      bits = \<lparr>sample_depth = 10, color_depth = 10, bit_shift = 0\<rparr>\<rparr>)"
  using normalize_noop
    [of "\<lparr>sys = PL_COLOR_SYSTEM_RGB, levels = PL_COLOR_LEVELS_PC, alpha = PL_ALPHA_UNKNOWN,
          bits = \<lparr>sample_depth = 10, color_depth = 10, bit_shift = 0\<rparr>\<rparr>"]
  by simp

text \<open>
  C7 as stated fails when the shift is set: with \<open>sample_depth = color_depth = 8\<close>, TV
  levels and \<open>bit_shift = 1\<close> the call returns 1/2 and clears the shift.
\<close>

theorem normalize_shift_counterexample:
  "sample_depth \<lparr>sample_depth = 8, color_depth = 8, bit_shift = 1\<rparr>
     = color_depth \<lparr>sample_depth = 8, color_depth = 8, bit_shift = 1\<rparr>
   \<and> pl_color_repr_normalize
        \<lparr>sys = PL_COLOR_SYSTEM_BT_709, levels = PL_COLOR_LEVELS_TV, alpha = PL_ALPHA_UNKNOWN,
         bits = \<lparr>sample_depth = 8, color_depth = 8, bit_shift = 1\<rparr>\<rparr>
      = Some (1 / 2,
        \<lparr>sys = PL_COLOR_SYSTEM_BT_709, levels = PL_COLOR_LEVELS_TV, alpha = PL_ALPHA_UNKNOWN,
         bits = \<lparr>sample_depth = 8, color_depth = 8, bit_shift = 0\<rparr>\<rparr>)
   \<and> pl_color_repr_normalize
        \<lparr>sys = PL_COLOR_SYSTEM_BT_709, levels = PL_COLOR_LEVELS_TV, alpha = PL_ALPHA_UNKNOWN,
         bits = \<lparr>sample_depth = 8, color_depth = 8, bit_shift = 1\<rparr>\<rparr>
      \<noteq> Some (1,
        \<lparr>sys = PL_COLOR_SYSTEM_BT_709, levels = PL_COLOR_LEVELS_TV, alpha = PL_ALPHA_UNKNOWN,
         bits = \<lparr>sample_depth = 8, color_depth = 8, bit_shift = 1\<rparr>\<rparr>)"
  by (simp add: pl_color_repr_normalize_def guess_levels_def PL_DEF_def Let_def)

text \<open>
  C8. \<open>apply_chromatic_adaptation\<close> leaves the matrix unchanged whenever the two white
  points differ by less than 1e-6 in \<open>x\<close> and in \<open>y\<close>; and for two primary sets with the
  same white point, \<open>pl_get_color_mapping_matrix\<close> with relative-colorimetric intent is
  the product of the destination's XYZ-to-RGB matrix with the source's RGB-to-XYZ
  matrix.
\<close>

theorem chromatic_adaptation_skipped:
  "(\<bar>cie_x src - cie_x dest\<bar> < 1 / 10 ^ 6 \<and> \<bar>cie_y src - cie_y dest\<bar> < 1 / 10 ^ 6
      \<longrightarrow> apply_chromatic_adaptation src dest a = a)
   \<and> (white s = white d \<longrightarrow>
        pl_get_color_mapping_matrix s d PL_INTENT_RELATIVE_COLORIMETRIC =
          pl_matrix3x3_mul (pl_get_xyz2rgb_matrix d) (pl_get_rgb2xyz_matrix s))"
  by (simp add: apply_chromatic_adaptation_def pl_get_color_mapping_matrix_def Let_def)

theorem chromatic_adaptation_skipped_witness:
  "(\<bar>cie_x \<lparr>cie_x = 0.31271, cie_y = 0.32902\<rparr>
       - cie_x \<lparr>cie_x = 0.3127105, cie_y = 0.32902\<rparr>\<bar> < 1 / 10 ^ 6
    \<and> \<bar>cie_y \<lparr>cie_x = 0.31271, cie_y = 0.32902\<rparr>
       - cie_y \<lparr>cie_x = 0.3127105, cie_y = 0.32902\<rparr>\<bar> < 1 / 10 ^ 6)
   \<and> apply_chromatic_adaptation \<lparr>cie_x = 0.31271, cie_y = 0.32902\<rparr>
        \<lparr>cie_x = 0.3127105, cie_y = 0.32902\<rparr> pl_matrix3x3_identity
       = pl_matrix3x3_identity
   \<and> white (primaries PL_COLOR_PRIM_BT_709) = white (primaries PL_COLOR_PRIM_BT_2020)
   \<and> pl_get_color_mapping_matrix (primaries PL_COLOR_PRIM_BT_709)
         (primaries PL_COLOR_PRIM_BT_2020) PL_INTENT_RELATIVE_COLORIMETRIC =
       pl_matrix3x3_mul (pl_get_xyz2rgb_matrix (primaries PL_COLOR_PRIM_BT_2020))
         (pl_get_rgb2xyz_matrix (primaries PL_COLOR_PRIM_BT_709))"
  using chromatic_adaptation_skipped
    [of "\<lparr>cie_x = 0.31271, cie_y = 0.32902\<rparr>" "\<lparr>cie_x = 0.3127105, cie_y = 0.32902\<rparr>"
        pl_matrix3x3_identity "primaries PL_COLOR_PRIM_BT_709" "primaries PL_COLOR_PRIM_BT_2020"]
  by simp

text \<open>
  C9. With a \<open>NULL\<close> adjustment \<open>pl_color_repr_decode\<close> returns the same transform and
  leaves the same repr as with \<open>&pl_color_adjustment_neutral\<close>, whose brightness is 0,
  contrast 1, saturation 1 and hue 0.
\<close>

theorem decode_null_params:
  "pl_color_repr_decode repr None = pl_color_repr_decode repr (Some pl_color_adjustment_neutral)
   \<and> brightness pl_color_adjustment_neutral = 0
   \<and> contrast pl_color_adjustment_neutral = 1
   \<and> saturation pl_color_adjustment_neutral = 1
   \<and> hue pl_color_adjustment_neutral = 0"
  by (simp add: pl_color_repr_decode_def pl_color_adjustment_neutral_def)

text \<open>
  C10. \<open>pl_raw_primaries_get(PL_COLOR_PRIM_UNKNOWN)\<close> returns the same table slot as
  \<open>pl_raw_primaries_get(PL_COLOR_PRIM_BT_709)\<close>, the slot of BT.709.
\<close>

theorem raw_primaries_unknown:
  "pl_raw_primaries_get PL_COLOR_PRIM_UNKNOWN = pl_raw_primaries_get PL_COLOR_PRIM_BT_709
   \<and> pl_raw_primaries_get PL_COLOR_PRIM_UNKNOWN = Some PL_COLOR_PRIM_BT_709"
  by (simp add: pl_raw_primaries_get_def)

section \<open>Properties of the dispatcher\<close>

lemmas scen_defs = std_env_def failing_env_def scalar_var_def matrix_var_def gpu_vk_def
  gpu_pushc_only_def fmt_rgba8_def tex0_def sh0_def shc0_def dp0_def

lemmas disp_defs = pl_dispatch_finish_def dispatch_finish_body_def finish_prepare_def
  finish_dispatch_def pl_dispatch_abort_def find_pass_def create_pass_def new_pass_def
  new_pass_params_def place_variables_def add_pass_var_def generate_shaders_def
  bind_and_run_def finish_tail_def update_pass_var_def update_desc_bindings_def
  pl_tex_params_dimension_def pl_shader_output_size_def pl_rect_w_def pl_rect_h_def
  zero_pass_var_def zero_layout_def zero_run_params_def zero_shader_desc_def zero_desc_def
  zero_tex_def zero_rect_def PL_ALIGN2_def sh_desc_def sh_var_def fmt_ptr_eq_def
  blend_equal_def

lemmas compute_defs = pl_dispatch_compute_def dispatch_compute_body_def

lemmas scen2_defs = fmt_r16_def tex_r16_def tex_wide_def blend_over_def cached_pass_def
  dp_three_def sh0_again_def gpu_small_ubo_def shc_color_def

lemma sh_var_addr [simp]: "sh_addr (sh_var sh sv) = sh_addr sh"
  by (simp add: sh_var_def)

lemma sh_desc_addr [simp]: "sh_addr (sh_desc sh sd) = sh_addr sh"
  by (simp add: sh_desc_def)

lemma foldl_addr:
  assumes "\<And>s x. sh_addr (f s x) = sh_addr s"
  shows "sh_addr (foldl f s xs) = sh_addr s"
  using assms by (induction xs arbitrary: s) simp_all

lemma add_corner_vars_addr [simp]: "sh_addr (add_corner_vars E sh sva) = sh_addr sh"
  by (simp add: add_corner_vars_def sh_var_from_va_def)

lemma translate_compute_shader_addr:
  assumes "translate_compute_shader E sh t rc b = Inr sh1"
  shows "sh_addr sh1 = sh_addr sh"
  using assms
  by (auto simp: translate_compute_shader_def Let_def foldl_addr split: if_splits)

lemma create_pass_addr:
  assumes "create_pass E w g sh sig t vp b = Inr (w1, sh1, pass)"
  shows "sh_addr sh1 = sh_addr sh"
  using assms
  by (auto simp: create_pass_def new_pass_def new_pass_params_def Let_def split: if_splits sum.splits prod.splits option.splits bool.splits)

lemma find_pass_frame:
  assumes "find_pass E w dp sh t vp b = Inr (w1, dp1, sh1, i)"
  shows "shaders dp1 = shaders dp \<and> sh_addr sh1 = sh_addr sh \<and> gpu dp1 = gpu dp"
  using assms
  by (auto simp: find_pass_def Let_def dest: create_pass_addr split: sum.splits option.splits)

lemma bind_and_run_frame:
  assumes "bind_and_run E w dp sh i tail = Inr (ret, w1, dp1, sh1)"
  shows "shaders dp1 = shaders dp \<and> sh1 = sh \<and> ret \<and> length (passes dp1) = length (passes dp)"
  using assms
  by (auto simp: bind_and_run_def Let_def split: sum.splits)

lemma dispatch_finish_body_frame:
  assumes "dispatch_finish_body E w dp sh t rc b = Inr (ret, w1, dp1, sh1)"
  shows "shaders dp1 = shaders dp \<and> sh_addr sh1 = sh_addr sh"
  using assms
  by (auto simp: dispatch_finish_body_def finish_prepare_def finish_dispatch_def Let_def
           dest!: find_pass_frame bind_and_run_frame translate_compute_shader_addr
           split: if_splits sum.splits option.splits prod.splits)

lemma dispatch_compute_body_frame:
  assumes "dispatch_compute_body E w dp sh ds = Inr (ret, w1, dp1, sh1)"
  shows "shaders dp1 = shaders dp \<and> sh_addr sh1 = sh_addr sh"
  using assms
  by (auto simp: dispatch_compute_body_def Let_def
           dest!: find_pass_frame bind_and_run_frame
           split: if_splits sum.splits option.splits prod.splits)

lemma blend_equal_iff: "blend_equal a b \<longleftrightarrow> a = b"
  by (cases a; cases b) (auto simp: blend_equal_def)

lemma find_cached_step:
  "find_cached sig cm t b (p # ps) k =
     (if spec_reusable sig cm t b p then Inr (Some k)
      else if p_signature p = sig \<and> t = None then Inl AssertFail
      else if p_signature p = sig \<and> p_pass p = None then Inl NullDeref
      else find_cached sig cm t b ps (Suc k))"
  by (auto simp: spec_reusable_def blend_equal_iff Let_def split: option.splits)

lemma find_cached_hit:
  assumes "find_cached sig cm t b ps k = Inr (Some i)"
  shows "k \<le> i \<and> i < k + length ps \<and> spec_reusable sig cm t b (ps ! (i - k))
         \<and> (\<forall>j. j < i - k \<longrightarrow> \<not> spec_reusable sig cm t b (ps ! j))"
  using assms
proof (induction ps arbitrary: k)
  case Nil
  then show ?case by simp
next
  case (Cons p ps)
  show ?case
  proof (cases "spec_reusable sig cm t b p")
    case True
    with Cons.prems have "i = k" by (simp add: find_cached_step del: find_cached.simps)
    with True show ?thesis by simp
  next
    case False
    with Cons.prems have rec: "find_cached sig cm t b ps (Suc k) = Inr (Some i)"
      by (simp add: find_cached_step del: find_cached.simps split: if_splits)
    from Cons.IH [OF rec] have ih: "Suc k \<le> i" "i < Suc k + length ps"
      "spec_reusable sig cm t b (ps ! (i - Suc k))"
      "\<forall>j. j < i - Suc k \<longrightarrow> \<not> spec_reusable sig cm t b (ps ! j)" by auto
    have idx: "i - k = Suc (i - Suc k)" using ih(1) by simp
    have "\<forall>j. j < i - k \<longrightarrow> \<not> spec_reusable sig cm t b ((p # ps) ! j)"
    proof (intro allI impI)
      fix j assume "j < i - k"
      then show "\<not> spec_reusable sig cm t b ((p # ps) ! j)"
        using False ih(4) idx by (cases j) auto
    qed
    then show ?thesis using ih idx by simp
  qed
qed

lemma find_cached_miss:
  assumes "find_cached sig cm t b ps k = Inr None"
  shows "\<forall>p \<in> set ps. \<not> spec_reusable sig cm t b p"
  using assms
proof (induction ps arbitrary: k)
  case Nil
  then show ?case by simp
next
  case (Cons p ps)
  from Cons.prems have np: "\<not> spec_reusable sig cm t b p"
    and rec: "find_cached sig cm t b ps (Suc k) = Inr None"
    by (simp_all add: find_cached_step del: find_cached.simps split: if_splits)
  from Cons.IH [OF rec] np show ?case by simp
qed

lemma find_cached_append:
  "find_cached sig cm t b (ps @ qs) k =
     (case find_cached sig cm t b ps k of
        Inr None \<Rightarrow> find_cached sig cm t b qs (k + length ps)
      | Inr (Some i) \<Rightarrow> Inr (Some i)
      | Inl e \<Rightarrow> Inl e)"
proof (induction ps arbitrary: k)
  case Nil
  then show ?case by simp
next
  case (Cons p ps)
  have shift: "Suc k + length ps = k + length (p # ps)" by simp
  have "find_cached sig cm t b ((p # ps) @ qs) k = find_cached sig cm t b (p # (ps @ qs)) k"
    by simp
  also have "\<dots> = (case find_cached sig cm t b (p # ps) k of
        Inr None \<Rightarrow> find_cached sig cm t b qs (k + length (p # ps))
      | Inr (Some i) \<Rightarrow> Inr (Some i)
      | Inl e \<Rightarrow> Inl e)"
    unfolding find_cached_step [of sig cm t b p] Cons.IH [of "Suc k"] shift
    by auto
  finally show ?case .
qed

lemma find_cached_compute:
  "find_cached sig True t b ps k = find_cached sig True t' b ps k"
  by (induction ps arbitrary: k) simp_all

lemma find_cached_raster:
  assumes "fmt_ptr_eq (tex_format (tex_params x)) (tex_format (tex_params y))"
  shows "find_cached sig False (Some x) b ps k = find_cached sig False (Some y) b ps k"
  using assms
  by (induction ps arbitrary: k) (simp_all add: fmt_ptr_eq_def Let_def split: option.splits)

lemma find_cached_target:
  assumes "cm \<or> (\<exists>x y. t = Some x \<and> t' = Some y
                   \<and> fmt_ptr_eq (tex_format (tex_params x)) (tex_format (tex_params y)))"
  shows "find_cached sig cm t b ps k = find_cached sig cm t' b ps k"
proof (cases cm)
  case True
  then show ?thesis using find_cached_compute by simp
next
  case False
  with assms obtain x y where "t = Some x" "t' = Some y"
    "fmt_ptr_eq (tex_format (tex_params x)) (tex_format (tex_params y))" by auto
  then show ?thesis using False find_cached_raster [of x y sig b ps k] by simp
qed

lemma add_pass_var_frame:
  assumes "add_pass_var E g pass params sv pv greedy = (ok, pass1, params1, pv1)"
  shows "p_signature pass1 = p_signature pass \<and> p_pass pass1 = p_pass pass
         \<and> p_failed pass1 = p_failed pass \<and> p_ubo pass1 = p_ubo pass
         \<and> p_run_params pass1 = p_run_params pass
         \<and> pp_type params1 = pp_type params
         \<and> pp_blend_params params1 = pp_blend_params params
         \<and> pp_target_dummy params1 = pp_target_dummy params"
  using assms
  by (auto simp: add_pass_var_def Let_def split: if_splits option.splits)

lemma add_pass_vars_frame:
  assumes "add_pass_vars E g greedy svs pvs pass params = (ok, pvs1, pass1, params1)"
  shows "p_signature pass1 = p_signature pass \<and> p_pass pass1 = p_pass pass
         \<and> p_failed pass1 = p_failed pass \<and> p_ubo pass1 = p_ubo pass
         \<and> p_run_params pass1 = p_run_params pass
         \<and> pp_type params1 = pp_type params
         \<and> pp_blend_params params1 = pp_blend_params params
         \<and> pp_target_dummy params1 = pp_target_dummy params"
  using assms
proof (induction E g greedy svs pvs pass params arbitrary: ok pvs1 pass1 params1
       rule: add_pass_vars.induct)
  case (1 E g greedy sv svs pv pvs pass params)
  obtain ok0 pass0 params0 pv0 where
    step: "add_pass_var E g pass params sv pv greedy = (ok0, pass0, params0, pv0)"
    by (metis prod_cases4)
  note fr = add_pass_var_frame [OF step]
  show ?case
  proof (cases ok0)
    case False
    with "1.prems" step have "pass1 = pass0" "params1 = params0" by simp_all
    with fr show ?thesis by simp
  next
    case True
    obtain ok2 pvs2 pass2 params2 where
      rec: "add_pass_vars E g greedy svs pvs pass0 params0 = (ok2, pvs2, pass2, params2)"
      by (metis prod_cases4)
    with "1.prems" step True have "pass1 = pass2" "params1 = params2" by simp_all
    moreover have "p_signature pass2 = p_signature pass0 \<and> p_pass pass2 = p_pass pass0
         \<and> p_failed pass2 = p_failed pass0 \<and> p_ubo pass2 = p_ubo pass0
         \<and> p_run_params pass2 = p_run_params pass0
         \<and> pp_type params2 = pp_type params0
         \<and> pp_blend_params params2 = pp_blend_params params0
         \<and> pp_target_dummy params2 = pp_target_dummy params0"
      using "1.IH" [OF step [symmetric] refl refl _ rec] True by simp
    ultimately show ?thesis using fr by simp
  qed
qed simp_all

lemma place_variables_frame:
  assumes "place_variables E g svs pass params = (ok, pass1, params1)"
  shows "p_signature pass1 = p_signature pass \<and> p_pass pass1 = p_pass pass
         \<and> p_failed pass1 = p_failed pass \<and> p_ubo pass1 = p_ubo pass
         \<and> p_run_params pass1 = p_run_params pass
         \<and> pp_type params1 = pp_type params
         \<and> pp_blend_params params1 = pp_blend_params params
         \<and> pp_target_dummy params1 = pp_target_dummy params"
proof -
  obtain ok1 pvs1 pa1 pr1 where
    l1: "add_pass_vars E g False svs (replicate (length svs) zero_pass_var) pass params
           = (ok1, pvs1, pa1, pr1)"
    by (metis prod_cases4)
  note f1 = add_pass_vars_frame [OF l1]
  show ?thesis
  proof (cases ok1)
    case False
    with assms l1 have "pass1 = pa1\<lparr>p_vars := pvs1\<rparr>" "params1 = pr1"
      by (simp_all add: place_variables_def)
    with f1 show ?thesis by simp
  next
    case True
    obtain ok2 pvs2 pa2 pr2 where
      l2: "add_pass_vars E g True svs pvs1 pa1 pr1 = (ok2, pvs2, pa2, pr2)"
      by (metis prod_cases4)
    note f2 = add_pass_vars_frame [OF l2]
    from assms l1 l2 True have "pass1 = pa2\<lparr>p_vars := pvs2\<rparr>" "params1 = pr2"
      by (simp_all add: place_variables_def)
    with f1 f2 show ?thesis by simp
  qed
qed

lemma create_pass_result:
  assumes "create_pass E w g sh sig t vp b = Inr (w1, sh1, pass)"
  shows "p_signature pass = sig
         \<and> (p_failed pass \<longleftrightarrow> p_pass pass = None)
         \<and> (\<forall>pp. p_pass pass = Some pp \<longrightarrow>
              pp_blend_params (pass_params pp) = b
              \<and> (\<not> sh_is_compute sh \<longrightarrow> t = Some (pp_target_dummy (pass_params pp))))"
  using assms
  by (auto simp: create_pass_def new_pass_def new_pass_params_def Let_def zero_run_params_def dest!: place_variables_frame
           split: if_splits sum.splits prod.splits option.splits bool.splits)

lemma find_pass_lookup:
  assumes "find_pass E w dp sh t vp b = Inr (w1, dp1, sh1, i)"
  shows "(i < length (passes dp) \<longleftrightarrow>
            (\<exists>p \<in> set (passes dp).
               spec_reusable (pl_shader_signature E sh) (sh_is_compute sh) t b p))
         \<and> (i < length (passes dp) \<longrightarrow>
              w1 = w \<and> dp1 = dp \<and> sh1 = sh
              \<and> spec_reusable (pl_shader_signature E sh) (sh_is_compute sh) t b (passes dp ! i)
              \<and> (\<forall>j. j < i \<longrightarrow>
                    \<not> spec_reusable (pl_shader_signature E sh) (sh_is_compute sh) t b
                         (passes dp ! j)))
         \<and> (\<not> i < length (passes dp) \<longrightarrow>
              i = length (passes dp) \<and> (\<exists>p. passes dp1 = passes dp @ [p]))"
proof (cases "find_cached (pl_shader_signature E sh) (sh_is_compute sh) t b (passes dp) 0")
  case (Inl e)
  with assms show ?thesis by (simp add: find_pass_def)
next
  case (Inr r)
  show ?thesis
  proof (cases r)
    case None
    with Inr have miss: "find_cached (pl_shader_signature E sh) (sh_is_compute sh) t b (passes dp) 0
                          = Inr None" by simp
    from find_cached_miss [OF miss] have none:
      "\<forall>p \<in> set (passes dp). \<not> spec_reusable (pl_shader_signature E sh) (sh_is_compute sh) t b p" .
    from assms miss have "i = length (passes dp) \<and> (\<exists>p. passes dp1 = passes dp @ [p])"
      by (auto simp: find_pass_def split: sum.splits)
    with none show ?thesis by auto
  next
    case (Some i0)
    with Inr have hit: "find_cached (pl_shader_signature E sh) (sh_is_compute sh) t b (passes dp) 0
                          = Inr (Some i0)" by simp
    from assms hit have eq: "i = i0" "w1 = w" "dp1 = dp" "sh1 = sh"
      by (simp_all add: find_pass_def)
    from find_cached_hit [OF hit] eq show ?thesis by auto
  qed
qed

lemma find_cached_after:
  assumes first: "find_pass E w dp sh t vp b = Inr (w1, dp1, sh1, i)"
      and usable: "sh_is_compute sh \<or> \<not> p_failed (passes dp1 ! i)"
      and tgt: "sh_is_compute sh \<or> (\<exists>x y. t = Some x \<and> t' = Some y
                   \<and> fmt_ptr_eq (tex_format (tex_params x)) (tex_format (tex_params y)))"
      and bl: "blend_equal b b'"
  shows "find_cached (pl_shader_signature E sh) (sh_is_compute sh) t' b' (passes dp1) 0
           = Inr (Some i)
         \<and> length (passes dp1) \<le> Suc (length (passes dp))"
proof -
  let ?sig = "pl_shader_signature E sh" and ?cm = "sh_is_compute sh"
  from bl have b': "b' = b" by (simp add: blend_equal_iff)
  have same: "\<And>ps k. find_cached ?sig ?cm t' b ps k = find_cached ?sig ?cm t b ps k"
    using find_cached_target [OF tgt] by simp
  show ?thesis
  proof (cases "find_cached ?sig ?cm t b (passes dp) 0")
    case (Inl e)
    with first show ?thesis by (simp add: find_pass_def)
  next
    case (Inr r)
    show ?thesis
    proof (cases r)
      case (Some i0)
      with Inr first have "i = i0" "w1 = w" "dp1 = dp" by (simp_all add: find_pass_def)
      with Inr Some show ?thesis by (simp add: b' same)
    next
      case None
      with Inr have miss: "find_cached ?sig ?cm t b (passes dp) 0 = Inr None" by simp
      from first miss obtain pass where
        cr: "create_pass E w (gpu dp) sh ?sig t vp b = Inr (w1, sh1, pass)"
        and dp1: "dp1 = dp\<lparr>passes := passes dp @ [pass]\<rparr>" and i: "i = length (passes dp)"
        by (auto simp: find_pass_def split: sum.splits)
      note res = create_pass_result [OF cr]
      from usable dp1 i have ok: "?cm \<or> \<not> p_failed pass" by simp
      have one: "find_cached ?sig ?cm t b [pass] (length (passes dp)) = Inr (Some (length (passes dp)))"
      proof (cases ?cm)
        case True
        with res show ?thesis by simp
      next
        case False
        with ok res obtain pp where pp: "p_pass pass = Some pp"
          "pp_blend_params (pass_params pp) = b" "t = Some (pp_target_dummy (pass_params pp))"
          by auto
        with False res show ?thesis
          by (simp add: fmt_ptr_eq_def blend_equal_iff)
      qed
      have "find_cached ?sig ?cm t b (passes dp @ [pass]) 0 = Inr (Some (length (passes dp)))"
        using miss one by (simp add: find_cached_append)
      with dp1 i show ?thesis by (simp add: b' same)
    qed
  qed
qed

lemma find_pass_again:
  assumes first: "find_pass E w dp sh t vp b = Inr (w1, dp1, sh1, i)"
      and usable: "sh_is_compute sh \<or> \<not> p_failed (passes dp1 ! i)"
      and sig: "pl_shader_signature E sh' = pl_shader_signature E sh"
      and cm: "sh_is_compute sh' = sh_is_compute sh"
      and tgt: "sh_is_compute sh \<or> (\<exists>x y. t = Some x \<and> t' = Some y
                   \<and> fmt_ptr_eq (tex_format (tex_params x)) (tex_format (tex_params y)))"
      and bl: "blend_equal b b'"
  shows "find_pass E w1 dp1 sh' t' vp' b' = Inr (w1, dp1, sh', i)
         \<and> length (passes dp1) \<le> Suc (length (passes dp))"
  using find_cached_after [OF first usable tgt bl]
  by (simp add: find_pass_def sig cm)

lemma find_cached_keys:
  assumes "map p_signature ps = map p_signature qs" and "map p_pass ps = map p_pass qs"
  shows "find_cached sig cm t b ps k = find_cached sig cm t b qs k"
  using assms
proof (induction ps arbitrary: qs k)
  case Nil
  then show ?case by simp
next
  case (Cons p ps)
  then obtain q qs' where q: "qs = q # qs'" "p_signature q = p_signature p" "p_pass q = p_pass p"
    "map p_signature ps = map p_signature qs'" "map p_pass ps = map p_pass qs'"
    by (cases qs) auto
  from Cons.IH [OF q(4,5)] q(1,2,3) show ?case
    by (auto simp: Let_def split: option.splits)
qed

lemma create_pass_raster_target:
  assumes "\<not> sh_is_compute sh"
  shows "create_pass E w g sh sig None vp b = Inl AssertFail"
  using assms by (simp add: create_pass_def new_pass_params_def)

lemma creations_writes [simp]:
  "creations (w @ map (\<lambda>(dst, src). Buf_write dst src n) xs) = creations w"
  by (induction xs) (auto simp: creations_def)

lemma creations_run [simp]: "creations (w @ [Pass_run r]) = creations w"
  by (simp add: creations_def)

lemma update_pass_var_frame:
  assumes "update_pass_var E w pass sv pv = Inr (w1, pass1, pv1)"
  shows "p_signature pass1 = p_signature pass \<and> p_pass pass1 = p_pass pass
         \<and> p_failed pass1 = p_failed pass \<and> creations w1 = creations w"
proof (cases "pv_type pv")
  case PASS_VAR_NONE
  with assms show ?thesis by (auto simp: update_pass_var_def Let_def split: if_splits)
next
  case PASS_VAR_GLOBAL
  with assms show ?thesis by (auto simp: update_pass_var_def Let_def split: if_splits)
next
  case PASS_VAR_UBO
  with assms show ?thesis
    by (auto simp: update_pass_var_def Let_def split: if_splits option.splits)
next
  case PASS_VAR_PUSHC
  with assms show ?thesis
    by (auto simp: update_pass_var_def Let_def split: if_splits option.splits)
qed

lemma update_pass_vars_frame:
  assumes "update_pass_vars E w pass svs pvs = Inr (w1, pass1, pvs1)"
  shows "p_signature pass1 = p_signature pass \<and> p_pass pass1 = p_pass pass
         \<and> p_failed pass1 = p_failed pass \<and> creations w1 = creations w"
  using assms
proof (induction E w pass svs pvs arbitrary: w1 pass1 pvs1 rule: update_pass_vars.induct)
  case (3 E w pass sv svs pv pvs)
  from "3.prems" obtain wa pa pva where
    step: "update_pass_var E w pass sv pv = Inr (wa, pa, pva)"
    by (auto split: sum.splits)
  from "3.prems" step obtain pvs2 where
    rec: "update_pass_vars E wa pa svs pvs = Inr (w1, pass1, pvs2)"
    by (auto split: sum.splits)
  from "3.IH" [OF step refl refl rec] update_pass_var_frame [OF step]
  show ?case by simp
qed simp_all

lemma map_update_same:
  assumes "f x = f (xs ! i)"
  shows "map f (xs[i := x]) = map f xs"
proof (cases "i < length xs")
  case True
  then show ?thesis using assms by (simp add: map_update list_update_same_conv)
next
  case False
  then show ?thesis by (simp add: list_update_beyond)
qed

lemma bind_and_run_keys:
  assumes "bind_and_run E w dp sh i tail = Inr (ret, w1, dp1, sh1)"
  shows "map p_signature (passes dp1) = map p_signature (passes dp)
         \<and> map p_pass (passes dp1) = map p_pass (passes dp)
         \<and> map p_failed (passes dp1) = map p_failed (passes dp)
         \<and> creations w1 = creations w"
proof -
  let ?pass = "passes dp ! i"
  from assms obtain bindings where
    b: "update_desc_bindings (res_descriptors sh) (rp_desc_bindings (p_run_params ?pass)) = Inr bindings"
    by (auto simp: bind_and_run_def Let_def split: sum.splits)
  let ?pass1 = "?pass\<lparr>p_run_params := (p_run_params ?pass)
                            \<lparr>rp_desc_bindings := bindings, rp_var_updates := []\<rparr>\<rparr>"
  from assms b obtain wa pass2 pvs where
    u: "update_pass_vars E w ?pass1 (res_variables sh) (p_vars ?pass1) = Inr (wa, pass2, pvs)"
    by (auto simp: bind_and_run_def Let_def split: sum.splits)
  from assms b u obtain rparams where
    t: "tail (p_run_params pass2) = Inr rparams"
    by (auto simp: bind_and_run_def Let_def split: sum.splits)
  from assms b u t have res: "w1 = wa @ [Pass_run rparams]"
    "dp1 = dp\<lparr>passes := (passes dp)[i := pass2\<lparr>p_vars := pvs, p_run_params := rparams\<rparr>]\<rparr>"
    by (simp_all add: bind_and_run_def Let_def)
  note f = update_pass_vars_frame [OF u]
  from f res show ?thesis by (simp add: map_update_same)
qed

lemma find_cached_defined:
  assumes "cm \<or> (\<forall>p \<in> set ps. p_signature p = sig \<longrightarrow> t \<noteq> None \<and> p_pass p \<noteq> None)"
  shows "\<exists>r. find_cached sig cm t b ps k = Inr r"
  using assms
proof (induction ps arbitrary: k)
  case Nil
  then show ?case by simp
next
  case (Cons p ps)
  then show ?case
    by (cases "spec_reusable sig cm t b p")
       (auto simp add: find_cached_step spec_reusable_def simp del: find_cached.simps)
qed

lemma find_cached_found:
  assumes "cm \<or> (\<forall>p \<in> set ps. p_signature p = sig \<longrightarrow> t \<noteq> None \<and> p_pass p \<noteq> None)"
      and "\<exists>p \<in> set ps. spec_reusable sig cm t b p"
  shows "\<exists>i. find_cached sig cm t b ps k = Inr (Some i)"
proof -
  from find_cached_defined [OF assms(1)] obtain r where
    r: "find_cached sig cm t b ps k = Inr r" by blast
  show ?thesis
  proof (cases r)
    case None
    with r find_cached_miss [of sig cm t b ps k] assms(2) show ?thesis by blast
  next
    case (Some i)
    with r show ?thesis by blast
  qed
qed

lemma find_cached_none:
  assumes "cm \<or> (\<forall>p \<in> set ps. p_signature p = sig \<longrightarrow> t \<noteq> None \<and> p_pass p \<noteq> None)"
      and "\<forall>p \<in> set ps. \<not> spec_reusable sig cm t b p"
  shows "find_cached sig cm t b ps k = Inr None"
proof -
  from find_cached_defined [OF assms(1)] obtain r where
    r: "find_cached sig cm t b ps k = Inr r" by blast
  show ?thesis
  proof (cases r)
    case None
    with r show ?thesis by simp
  next
    case (Some i)
    with r have "find_cached sig cm t b ps k = Inr (Some i)" by simp
    from find_cached_hit [OF this] have "i - k < length ps"
      "spec_reusable sig cm t b (ps ! (i - k))" by auto
    with assms(2) show ?thesis by (metis nth_mem)
  qed
qed

lemma find_pass_reuses:
  assumes "sh_is_compute sh \<or> (\<forall>p \<in> set (passes dp).
             p_signature p = pl_shader_signature E sh \<longrightarrow> t \<noteq> None \<and> p_pass p \<noteq> None)"
      and "\<exists>p \<in> set (passes dp).
             spec_reusable (pl_shader_signature E sh) (sh_is_compute sh) t b p"
  shows "\<exists>i < length (passes dp). find_pass E w dp sh t vp b = Inr (w, dp, sh, i)
           \<and> spec_reusable (pl_shader_signature E sh) (sh_is_compute sh) t b (passes dp ! i)
           \<and> (\<forall>j. j < i \<longrightarrow>
                 \<not> spec_reusable (pl_shader_signature E sh) (sh_is_compute sh) t b
                      (passes dp ! j))"
proof -
  from find_cached_found [OF assms] obtain i where
    hit: "find_cached (pl_shader_signature E sh) (sh_is_compute sh) t b (passes dp) 0
            = Inr (Some i)" by blast
  then have "find_pass E w dp sh t vp b = Inr (w, dp, sh, i)" by (simp add: find_pass_def)
  with find_cached_hit [OF hit] show ?thesis by auto
qed

lemma find_pass_creates:
  assumes "sh_is_compute sh \<or> (\<forall>p \<in> set (passes dp).
             p_signature p = pl_shader_signature E sh \<longrightarrow> t \<noteq> None \<and> p_pass p \<noteq> None)"
      and "\<forall>p \<in> set (passes dp).
             \<not> spec_reusable (pl_shader_signature E sh) (sh_is_compute sh) t b p"
  shows "find_pass E w dp sh t vp b =
           (case create_pass E w (gpu dp) sh (pl_shader_signature E sh) t vp b of
              Inl e \<Rightarrow> Inl e
            | Inr (w1, sh1, pass) \<Rightarrow>
                Inr (w1, dp\<lparr>passes := passes dp @ [pass]\<rparr>, sh1, length (passes dp)))"
  using find_cached_none [OF assms] by (simp add: find_pass_def)

lemma update_pass_var_again:
  assumes "update_pass_var E w pass sv pv = Inr (w1, pass1, pv1)"
  shows "update_pass_var E w' pass' sv pv1 = Inr (w', pass', pv1)
         \<and> pv_type pv1 = pv_type pv
         \<and> rp_desc_bindings (p_run_params pass1) = rp_desc_bindings (p_run_params pass)
         \<and> rp_pass (p_run_params pass1) = rp_pass (p_run_params pass)
         \<and> rp_vertex_data (p_run_params pass1) = rp_vertex_data (p_run_params pass)"
proof (cases "pv_type pv")
  case PASS_VAR_NONE
  with assms show ?thesis by (auto simp: update_pass_var_def Let_def split: if_splits)
next
  case PASS_VAR_GLOBAL
  with assms show ?thesis by (auto simp: update_pass_var_def Let_def split: if_splits)
next
  case PASS_VAR_UBO
  with assms show ?thesis
    by (auto simp: update_pass_var_def Let_def split: if_splits option.splits)
next
  case PASS_VAR_PUSHC
  with assms show ?thesis
    by (auto simp: update_pass_var_def Let_def split: if_splits option.splits)
qed

lemma update_pass_vars_again:
  assumes "update_pass_vars E w pass svs pvs = Inr (w1, pass1, pvs1)"
  shows "update_pass_vars E w' pass' svs pvs1 = Inr (w', pass', pvs1)
         \<and> map pv_type pvs1 = map pv_type pvs
         \<and> rp_desc_bindings (p_run_params pass1) = rp_desc_bindings (p_run_params pass)
         \<and> rp_pass (p_run_params pass1) = rp_pass (p_run_params pass)
         \<and> rp_vertex_data (p_run_params pass1) = rp_vertex_data (p_run_params pass)"
  using assms
proof (induction E w pass svs pvs arbitrary: w1 pass1 pvs1 w' pass'
       rule: update_pass_vars.induct)
  case (1 E w pass pvs)
  then show ?case by simp
next
  case (2 E w pass sv svs)
  then show ?case by simp
next
  case (3 E w pass sv svs pv pvs)
  from "3.prems" obtain wa pa pva where
    step: "update_pass_var E w pass sv pv = Inr (wa, pa, pva)"
    by (auto split: sum.splits)
  from "3.prems" step obtain pvs2 where
    rec: "update_pass_vars E wa pa svs pvs = Inr (w1, pass1, pvs2)" and eq: "pvs1 = pva # pvs2"
    by (auto split: sum.splits)
  note a = update_pass_var_again [OF step, of w' pass']
  note b = "3.IH" [OF step refl refl rec, of w' pass']
  from a b eq show ?case by simp
qed

lemma update_vertex_data_again:
  assumes "update_vertex_data stride svas vas vd = Inr vd1"
  shows "\<exists>vd2. update_vertex_data stride svas vas vd' = Inr vd2"
  using assms
  by (induction stride svas vas vd arbitrary: vd' rule: update_vertex_data.induct) simp_all

lemma finish_tail_again:
  assumes "finish_tail E sh tgt rc rp = Inr r"
      and "res_vertex_attribs sh' = res_vertex_attribs sh"
      and "sh_is_compute sh' = sh_is_compute sh"
      and "res_compute_group_size sh' = res_compute_group_size sh"
  shows "(\<exists>r'. finish_tail E sh' tgt rc (r\<lparr>rp_desc_bindings := x, rp_var_updates := y\<rparr>) = Inr r')
         \<and> rp_desc_bindings r = rp_desc_bindings rp"
proof (cases "rp_vertex_data rp")
  case None
  with assms show ?thesis
    by (auto simp: finish_tail_def Let_def split: if_splits)
next
  case (Some vd)
  with assms obtain pp where pp: "rp_pass rp = Some pp"
    by (cases "rp_pass rp") (auto simp: finish_tail_def)
  from assms Some pp obtain vd1 where
    u: "update_vertex_data (pp_vertex_stride (pass_params pp)) (res_vertex_attribs sh)
          (pp_vertex_attribs (pass_params pp)) vd = Inr vd1"
    by (auto simp: finish_tail_def split: sum.splits)
  from update_vertex_data_again [OF u] obtain vd2 where
    u2: "update_vertex_data (pp_vertex_stride (pass_params pp)) (res_vertex_attribs sh)
          (pp_vertex_attribs (pass_params pp)) vd1 = Inr vd2" by blast
  from assms Some pp u u2 show ?thesis
    by (auto simp: finish_tail_def Let_def split: if_splits)
qed

lemma create_pass_shader:
  assumes "create_pass E w g sh sig t vp b = Inr (w1, sh1, pass)"
  shows "res_variables sh1 = res_variables sh \<and> res_vertex_attribs sh1 = res_vertex_attribs sh
         \<and> sh_is_compute sh1 = sh_is_compute sh
         \<and> res_compute_group_size sh1 = res_compute_group_size sh
         \<and> length (res_descriptors sh) \<le> length (res_descriptors sh1)"
  using assms
  by (auto simp: create_pass_def new_pass_def new_pass_params_def sh_desc_def Let_def
           split: if_splits sum.splits prod.splits option.splits bool.splits)

lemma find_pass_shader:
  assumes "find_pass E w dp sh t vp b = Inr (w1, dp1, sh1, i)"
  shows "res_variables sh1 = res_variables sh \<and> res_vertex_attribs sh1 = res_vertex_attribs sh
         \<and> sh_is_compute sh1 = sh_is_compute sh
         \<and> res_compute_group_size sh1 = res_compute_group_size sh
         \<and> length (res_descriptors sh) \<le> length (res_descriptors sh1)"
  using assms
  by (auto simp: find_pass_def Let_def dest!: create_pass_shader
           split: sum.splits option.splits)

lemma bind_and_run_again:
  assumes run: "bind_and_run E w dp sh i tail = Inr (ret, w1, dp1, sh1)"
      and i: "i < length (passes dp)"
      and same: "passes dp2 = passes dp1"
      and vars: "res_variables sh' = res_variables sh"
      and descs: "length (res_descriptors sh') \<le> length (res_descriptors sh)"
      and tl: "\<And>rp r x y. tail rp = Inr r \<Longrightarrow>
                 (\<exists>r'. tail' (r\<lparr>rp_desc_bindings := x, rp_var_updates := y\<rparr>) = Inr r')
                 \<and> rp_desc_bindings r = rp_desc_bindings rp"
  shows "\<exists>w3 dp3. bind_and_run E w2 dp2 sh' i tail' = Inr (True, w3, dp3, sh')"
proof -
  let ?pass = "passes dp ! i"
  from run obtain bindings where
    b: "update_desc_bindings (res_descriptors sh) (rp_desc_bindings (p_run_params ?pass)) = Inr bindings"
    by (auto simp: bind_and_run_def Let_def split: sum.splits)
  let ?pass1 = "?pass\<lparr>p_run_params := (p_run_params ?pass)
                            \<lparr>rp_desc_bindings := bindings, rp_var_updates := []\<rparr>\<rparr>"
  from run b obtain wa pass2 pvs where
    u: "update_pass_vars E w ?pass1 (res_variables sh) (p_vars ?pass1) = Inr (wa, pass2, pvs)"
    by (auto simp: bind_and_run_def Let_def split: sum.splits)
  from run b u obtain rparams where
    t: "tail (p_run_params pass2) = Inr rparams"
    by (auto simp: bind_and_run_def Let_def split: sum.splits)
  let ?pass3 = "pass2\<lparr>p_vars := pvs, p_run_params := rparams\<rparr>"
  from run b u t have "dp1 = dp\<lparr>passes := (passes dp)[i := ?pass3]\<rparr>"
    by (simp add: bind_and_run_def Let_def)
  then have dp1: "passes dp1 = (passes dp)[i := ?pass3]" by simp
  with same i have p2: "passes dp2 ! i = ?pass3" by simp
  from b have lb: "length bindings = length (rp_desc_bindings (p_run_params ?pass))"
    "length (res_descriptors sh) \<le> length bindings"
    by (auto simp: update_desc_bindings_def split: if_splits)
  from update_pass_vars_again [OF u] have
    keep: "rp_desc_bindings (p_run_params pass2) = bindings" by simp
  from tl [OF t] have keep2: "rp_desc_bindings rparams = rp_desc_bindings (p_run_params pass2)"
    by simp
  from keep keep2 lb descs have len: "length (res_descriptors sh') \<le> length (rp_desc_bindings rparams)"
    by simp
  define bindings' where
    "bindings' = map sd_object (res_descriptors sh')
                   @ drop (length (res_descriptors sh')) (rp_desc_bindings rparams)"
  from len have b2: "update_desc_bindings (res_descriptors sh') (rp_desc_bindings rparams)
                       = Inr bindings'"
    by (simp add: update_desc_bindings_def bindings'_def)
  let ?q1 = "?pass3\<lparr>p_run_params := rparams\<lparr>rp_desc_bindings := bindings', rp_var_updates := []\<rparr>\<rparr>"
  from update_pass_vars_again [OF u, of w2 ?q1] vars have
    u2: "update_pass_vars E w2 ?q1 (res_variables sh') (p_vars ?q1) = Inr (w2, ?q1, pvs)"
    by simp
  from tl [OF t, where x = bindings' and y = "[]"] obtain r' where
    t2: "tail' (p_run_params ?q1) = Inr r'" by auto
  show ?thesis
    using p2 b2 u2 t2 by (simp add: bind_and_run_def Let_def)
qed

lemma pass_creations_creations: "pass_creations w = filter is_pass_create (creations w)"
proof (induction w)
  case Nil
  then show ?case by (simp add: pass_creations_def creations_def)
next
  case (Cons x w)
  then show ?case by (cases x) (simp_all add: pass_creations_def creations_def)
qed

lemma pass_creations_same:
  assumes "creations w1 = creations w"
  shows "pass_creations w1 = pass_creations w"
  using assms by (simp add: pass_creations_creations)

lemma create_pass_world:
  assumes "create_pass E w g sh sig t vp b = Inr (w1, sh1, pass)" and "\<not> p_failed pass"
  shows "pass_creations w1 = pass_creations w @ [Pass_create (pass_params (the (p_pass pass)))]"
  using assms
  by (auto simp: create_pass_def new_pass_def new_pass_params_def Let_def zero_run_params_def
                 pass_creations_def
           dest!: place_variables_frame
           split: if_splits sum.splits prod.splits option.splits bool.splits)

lemma finish_dispatch_lookup:
  assumes first: "finish_dispatch E w dp shp tgt rc vp b = Inr (True, w1, dp1, sh1)"
      and same: "passes dp2 = passes dp1"
      and sig: "pl_shader_signature E shp' = pl_shader_signature E shp"
      and cm: "sh_is_compute shp' = sh_is_compute shp"
      and fmt: "sh_is_compute shp \<or> fmt_ptr_eq (tex_format (tex_params tgt))
                                               (tex_format (tex_params tgt'))"
      and bl: "blend_equal b b'"
  shows "\<exists>wa dpa sha i. find_pass E w dp shp (Some tgt) vp b = Inr (wa, dpa, sha, i)
           \<and> bind_and_run E wa dpa sha i (finish_tail E sha tgt rc) = Inr (True, w1, dp1, sh1)
           \<and> i < length (passes dpa) \<and> length (passes dp2) = length (passes dpa)
           \<and> length (passes dpa) \<le> Suc (length (passes dp))
           \<and> \<not> p_failed (passes dp2 ! i)
           \<and> find_pass E w2 dp2 shp' (Some tgt') vp' b' = Inr (w2, dp2, shp', i)"
proof -
  let ?sig = "pl_shader_signature E shp" and ?cm = "sh_is_compute shp"
  from first obtain wa dpa sha i where
    fp: "find_pass E w dp shp (Some tgt) vp b = Inr (wa, dpa, sha, i)"
    by (auto simp: finish_dispatch_def split: sum.splits)
  from first fp have nf: "\<not> p_failed (passes dpa ! i)"
    and run: "bind_and_run E wa dpa sha i (finish_tail E sha tgt rc) = Inr (True, w1, dp1, sh1)"
    by (auto simp: finish_dispatch_def split: if_splits)
  from fmt have tg: "?cm \<or> (\<exists>x y. Some tgt = Some x \<and> Some tgt' = Some y
                   \<and> fmt_ptr_eq (tex_format (tex_params x)) (tex_format (tex_params y)))"
    by simp
  from nf have us: "?cm \<or> \<not> p_failed (passes dpa ! i)" by simp
  from find_cached_after [OF fp us tg bl] have
    hit: "find_cached ?sig ?cm (Some tgt') b' (passes dpa) 0 = Inr (Some i)"
    and len: "length (passes dpa) \<le> Suc (length (passes dp))" by simp_all
  note k1 = bind_and_run_keys [OF run]
  from find_cached_hit [OF hit] have ilen: "i < length (passes dpa)" by simp
  have "find_cached ?sig ?cm (Some tgt') b' (passes dp2) 0
          = find_cached ?sig ?cm (Some tgt') b' (passes dpa) 0"
    by (rule find_cached_keys) (simp_all add: same k1)
  with hit have fp2: "find_pass E w2 dp2 shp' (Some tgt') vp' b' = Inr (w2, dp2, shp', i)"
    by (simp add: find_pass_def sig cm)
  have l2: "length (passes dp2) = length (passes dpa)"
    using same k1 by (metis length_map)
  with ilen have i2: "i < length (passes dp2)" by simp
  have "p_failed (passes dp2 ! i) = map p_failed (passes dp2) ! i"
    using i2 by simp
  also have "\<dots> = map p_failed (passes dpa) ! i" using same k1 by simp
  also have "\<dots> = p_failed (passes dpa ! i)" using ilen by simp
  finally have nf2: "\<not> p_failed (passes dp2 ! i)" using nf by simp
  from fp run ilen l2 len nf2 fp2 show ?thesis by blast
qed

lemma finish_dispatch_other:
  assumes first: "finish_dispatch E w dp shp tgt rc vp b = Inr (True, w1, dp1, sh1)"
      and same: "passes dp2 = passes dp1"
      and sig: "pl_shader_signature E shp' = pl_shader_signature E shp"
      and cm: "sh_is_compute shp' = sh_is_compute shp"
      and fmt: "sh_is_compute shp \<or> fmt_ptr_eq (tex_format (tex_params tgt))
                                               (tex_format (tex_params tgt'))"
      and bl: "blend_equal b b'"
      and second: "finish_dispatch E w2 dp2 shp' tgt' rc' vp' b' = Inr (ret, w3, dp3, sh3)"
  shows "ret \<and> length (passes dp3) = length (passes dp2) \<and> creations w3 = creations w2"
proof -
  from finish_dispatch_lookup [OF first same sig cm fmt bl, of w2 vp'] obtain i where
    nf2: "\<not> p_failed (passes dp2 ! i)"
    and fp2: "find_pass E w2 dp2 shp' (Some tgt') vp' b' = Inr (w2, dp2, shp', i)" by blast
  from second fp2 nf2 have
    run2: "bind_and_run E w2 dp2 shp' i (finish_tail E shp' tgt' rc') = Inr (ret, w3, dp3, sh3)"
    by (simp add: finish_dispatch_def)
  from bind_and_run_frame [OF run2] bind_and_run_keys [OF run2] show ?thesis by simp
qed

lemma finish_dispatch_again:
  assumes first: "finish_dispatch E w dp shp tgt rc vp b = Inr (True, w1, dp1, sh1)"
      and same: "passes dp2 = passes dp1"
  shows "\<exists>w3 dp3. finish_dispatch E w2 dp2 shp tgt rc vp b = Inr (True, w3, dp3, shp)
           \<and> length (passes dp3) = length (passes dp2) \<and> creations w3 = creations w2
           \<and> length (passes dp1) \<le> Suc (length (passes dp))"
proof -
  have fmt: "sh_is_compute shp \<or> fmt_ptr_eq (tex_format (tex_params tgt))
                                               (tex_format (tex_params tgt))"
    by (simp add: fmt_ptr_eq_def)
  have bl: "blend_equal b b" by (simp add: blend_equal_iff)
  from finish_dispatch_lookup [OF first same refl refl fmt bl, of w2 vp] obtain wa dpa sha i where
    fp: "find_pass E w dp shp (Some tgt) vp b = Inr (wa, dpa, sha, i)"
    and run: "bind_and_run E wa dpa sha i (finish_tail E sha tgt rc) = Inr (True, w1, dp1, sh1)"
    and ilen: "i < length (passes dpa)" and l2: "length (passes dp2) = length (passes dpa)"
    and len: "length (passes dpa) \<le> Suc (length (passes dp))"
    and nf2: "\<not> p_failed (passes dp2 ! i)"
    and fp2: "find_pass E w2 dp2 shp (Some tgt) vp b = Inr (w2, dp2, shp, i)" by blast
  note s = find_pass_shader [OF fp]
  have tl: "\<And>rp r x y. finish_tail E sha tgt rc rp = Inr r \<Longrightarrow>
              (\<exists>r'. finish_tail E shp tgt rc (r\<lparr>rp_desc_bindings := x, rp_var_updates := y\<rparr>) = Inr r')
              \<and> rp_desc_bindings r = rp_desc_bindings rp"
    using finish_tail_again [of E sha tgt rc _ _ shp] s by simp
  from s have vars: "res_variables shp = res_variables sha"
    and descs: "length (res_descriptors shp) \<le> length (res_descriptors sha)" by simp_all
  from bind_and_run_again [OF run ilen same vars descs tl, of w2] obtain w3 dp3 where
    run2: "bind_and_run E w2 dp2 shp i (finish_tail E shp tgt rc) = Inr (True, w3, dp3, shp)"
    by blast
  with fp2 nf2 have second: "finish_dispatch E w2 dp2 shp tgt rc vp b = Inr (True, w3, dp3, shp)"
    by (simp add: finish_dispatch_def)
  note o = finish_dispatch_other [OF first same refl refl fmt bl second]
  have "length (passes dp1) = length (passes dpa)"
    using bind_and_run_keys [OF run] by (metis length_map)
  with second o len show ?thesis by simp
qed

lemma finish_dispatch_creates_one:
  assumes first: "finish_dispatch E w dp shp tgt rc vp b = Inr (True, w1, dp1, sh1)"
      and miss: "\<forall>p \<in> set (passes dp).
                   \<not> spec_reusable (pl_shader_signature E shp) (sh_is_compute shp) (Some tgt) b p"
  shows "length (passes dp1) = Suc (length (passes dp))
         \<and> (\<exists>params. pass_creations w1 = pass_creations w @ [Pass_create params])"
proof -
  from first obtain wa dpa sha i where
    fp: "find_pass E w dp shp (Some tgt) vp b = Inr (wa, dpa, sha, i)"
    by (auto simp: finish_dispatch_def split: sum.splits)
  from first fp have nf: "\<not> p_failed (passes dpa ! i)"
    and run: "bind_and_run E wa dpa sha i (finish_tail E sha tgt rc) = Inr (True, w1, dp1, sh1)"
    by (auto simp: finish_dispatch_def split: if_splits)
  from find_pass_lookup [OF fp] have
    "i < length (passes dp) \<longleftrightarrow>
       (\<exists>p \<in> set (passes dp).
          spec_reusable (pl_shader_signature E shp) (sh_is_compute shp) (Some tgt) b p)"
    by (rule conjunct1)
  with miss have new: "\<not> i < length (passes dp)" by simp
  from fp new obtain pass where
    cr: "create_pass E w (gpu dp) shp (pl_shader_signature E shp) (Some tgt) vp b
           = Inr (wa, sha, pass)"
    and dpa: "dpa = dp\<lparr>passes := passes dp @ [pass]\<rparr>" and i: "i = length (passes dp)"
    by (auto simp: find_pass_def Let_def split: sum.splits option.splits
             dest: find_cached_hit)
  from nf dpa i have "\<not> p_failed pass" by simp
  from create_pass_world [OF cr this] obtain params where
    c: "pass_creations wa = pass_creations w @ [Pass_create params]" by blast
  note k = bind_and_run_keys [OF run]
  from k have "map p_signature (passes dp1) = map p_signature (passes dpa)" by simp
  then have l: "length (passes dp1) = length (passes dpa)" by (rule map_eq_imp_length_eq)
  from k have "creations w1 = creations wa" by simp
  then have "pass_creations w1 = pass_creations wa" by (rule pass_creations_same)
  with c l dpa show ?thesis by simp
qed

lemma finish_dispatch_reuses:
  assumes first: "finish_dispatch E w dp shp tgt rc vp b = Inr (ret, w1, dp1, sh1)"
      and hit: "\<exists>p \<in> set (passes dp).
                   spec_reusable (pl_shader_signature E shp) (sh_is_compute shp) (Some tgt) b p"
  shows "length (passes dp1) = length (passes dp) \<and> creations w1 = creations w"
proof -
  from first obtain wa dpa sha i where
    fp: "find_pass E w dp shp (Some tgt) vp b = Inr (wa, dpa, sha, i)"
    by (auto simp: finish_dispatch_def split: sum.splits)
  note l = find_pass_lookup [OF fp]
  from l have "i < length (passes dp) \<longleftrightarrow>
       (\<exists>p \<in> set (passes dp).
          spec_reusable (pl_shader_signature E shp) (sh_is_compute shp) (Some tgt) b p)"
    by (rule conjunct1)
  with hit have "i < length (passes dp)" by simp
  with l have old: "wa = w" "dpa = dp" by simp_all
  show ?thesis
  proof (cases "p_failed (passes dpa ! i)")
    case True
    with first fp old show ?thesis by (simp add: finish_dispatch_def)
  next
    case False
    with first fp have
      run: "bind_and_run E wa dpa sha i (finish_tail E sha tgt rc) = Inr (ret, w1, dp1, sh1)"
      by (simp add: finish_dispatch_def)
    from bind_and_run_keys [OF run] bind_and_run_frame [OF run] old show ?thesis by simp
  qed
qed

lemma body_valid:
  assumes "dispatch_valid sh tgt rc"
  shows "dispatch_finish_body E w dp sh (Some tgt) rc b =
           (case finish_prepare E sh tgt (target_rect tgt rc) b of
              Inl e \<Rightarrow> Inl e
            | Inr (vp, shp) \<Rightarrow> finish_dispatch E w dp shp tgt (target_rect tgt rc) vp b)"
  using assms
  by (cases rc; cases "pl_shader_output_size sh")
     (auto simp: dispatch_finish_body_def dispatch_valid_def target_rect_def Let_def
           split: sum.splits)

lemma body_invalid:
  assumes "\<not> dispatch_valid sh tgt rc"
  shows "dispatch_finish_body E w dp sh (Some tgt) rc b = Inr (False, w, dp, sh)"
  using assms
  by (cases rc; cases "pl_shader_output_size sh")
     (auto simp: dispatch_finish_body_def dispatch_valid_def target_rect_def Let_def)

lemma finish_as_body:
  "pl_dispatch_finish E w dp (Some sh) t rc b =
     (case dispatch_finish_body E w dp sh t rc b of
        Inl e \<Rightarrow> Inl e
      | Inr (ret, w1, dp1, sh1) \<Rightarrow> Inr (ret, w1, dp1\<lparr>shaders := shaders dp1 @ [sh1]\<rparr>, None))"
  by (simp add: pl_dispatch_finish_def pl_dispatch_abort_def split: sum.splits)

lemma foldl_keeps:
  assumes "\<And>s x. g (f s x) = g s"
  shows "g (foldl f s xs) = g s"
  using assms by (induction xs arbitrary: s) simp_all

lemma add_corner_vars_compute: "sh_is_compute (add_corner_vars E sh sva) = sh_is_compute sh"
  by (simp add: add_corner_vars_def sh_var_from_va_def sh_var_def)

lemma finish_prepare_keeps:
  assumes "finish_prepare E sh tgt rc b = Inr (vp, shp)"
  shows "sh_is_compute shp = sh_is_compute sh
         \<and> (\<not> sh_is_compute sh \<longrightarrow> res_variables shp = res_variables sh
                \<and> res_descriptors shp = res_descriptors sh
                \<and> res_input shp = res_input sh \<and> res_output shp = res_output sh)"
proof (cases "sh_is_compute sh")
  case True
  with assms obtain s1 where "translate_compute_shader E sh tgt rc b = Inr s1" "shp = s1"
    by (auto simp: finish_prepare_def split: sum.splits)
  then show ?thesis using True
    by (auto simp: translate_compute_shader_def Let_def sh_var_def sh_desc_def
                   foldl_keeps [where g = sh_is_compute] add_corner_vars_compute
             split: if_splits)
next
  case False
  with assms show ?thesis by (auto simp: finish_prepare_def split: option.splits)
qed

lemma finish_succeeded:
  assumes "pl_dispatch_finish E w dp (Some sh) t rc b = Inr (True, wa, dpa, psha)"
  shows "\<exists>tgt vp shp dpb shb. t = Some tgt \<and> dispatch_valid sh tgt rc
           \<and> finish_prepare E sh tgt (target_rect tgt rc) b = Inr (vp, shp)
           \<and> finish_dispatch E w dp shp tgt (target_rect tgt rc) vp b = Inr (True, wa, dpb, shb)
           \<and> passes dpa = passes dpb \<and> psha = None"
proof -
  from assms obtain dpb shb where
    b1: "dispatch_finish_body E w dp sh t rc b = Inr (True, wa, dpb, shb)"
    and d1: "passes dpa = passes dpb" "psha = None"
    by (auto simp: finish_as_body split: sum.splits)
  from b1 obtain tgt where t: "t = Some tgt"
    by (cases t) (auto simp: dispatch_finish_body_def split: if_splits)
  have v: "dispatch_valid sh tgt rc"
  proof (rule ccontr)
    assume "\<not> dispatch_valid sh tgt rc"
    from body_invalid [OF this, of E w dp b] b1 t show False by simp
  qed
  from body_valid [OF v, of E w dp b] b1 t obtain vp shp where
    "finish_prepare E sh tgt (target_rect tgt rc) b = Inr (vp, shp)"
    "finish_dispatch E w dp shp tgt (target_rect tgt rc) vp b = Inr (True, wa, dpb, shb)"
    by (cases "finish_prepare E sh tgt (target_rect tgt rc) b") auto
  with t v d1 show ?thesis by blast
qed

lemma dispatch_again:
  assumes first: "pl_dispatch_finish E w dp (Some sh) t rc b = Inr (True, wa, dpa, psha)"
  shows "(\<exists>w2 dp2. pl_dispatch_finish E wa dpa (Some sh) t rc b = Inr (True, w2, dp2, None)
            \<and> length (passes dp2) = length (passes dpa) \<and> creations w2 = creations wa)
         \<and> length (passes dpa) \<le> Suc (length (passes dp))"
proof -
  from finish_succeeded [OF first] obtain tgt vp shp dpb shb where
    t: "t = Some tgt" and v: "dispatch_valid sh tgt rc"
    and p: "finish_prepare E sh tgt (target_rect tgt rc) b = Inr (vp, shp)"
    and f: "finish_dispatch E w dp shp tgt (target_rect tgt rc) vp b = Inr (True, wa, dpb, shb)"
    and d: "passes dpa = passes dpb" by blast
  from finish_dispatch_again [OF f d, of wa] obtain w3 dp3 where
    s: "finish_dispatch E wa dpa shp tgt (target_rect tgt rc) vp b = Inr (True, w3, dp3, shp)"
    and r: "length (passes dp3) = length (passes dpa)" "creations w3 = creations wa"
       "length (passes dpb) \<le> Suc (length (passes dp))" by blast
  from s p have "pl_dispatch_finish E wa dpa (Some sh) t rc b
                   = Inr (True, w3, dp3\<lparr>shaders := shaders dp3 @ [shp]\<rparr>, None)"
    by (simp add: finish_as_body t body_valid [OF v])
  with r d show ?thesis by auto
qed

lemma dispatch_creates_one:
  assumes first: "pl_dispatch_finish E w dp (Some sh) (Some tgt) rc b = Inr (True, wa, dpa, psha)"
      and prep: "finish_prepare E sh tgt (target_rect tgt rc) b = Inr (vp, shp)"
      and miss: "\<forall>p \<in> set (passes dp).
                   \<not> spec_reusable (pl_shader_signature E shp) (sh_is_compute shp) (Some tgt) b p"
  shows "length (passes dpa) = Suc (length (passes dp))
         \<and> (\<exists>params. pass_creations wa = pass_creations w @ [Pass_create params])"
proof -
  from finish_succeeded [OF first] prep obtain dpb shb where
    f: "finish_dispatch E w dp shp tgt (target_rect tgt rc) vp b = Inr (True, wa, dpb, shb)"
    and d: "passes dpa = passes dpb" by auto
  from finish_dispatch_creates_one [OF f miss] d show ?thesis by simp
qed

lemma dispatch_reuses:
  assumes first: "pl_dispatch_finish E w dp (Some sh) (Some tgt) rc b = Inr (True, wa, dpa, psha)"
      and prep: "finish_prepare E sh tgt (target_rect tgt rc) b = Inr (vp, shp)"
      and hit: "\<exists>p \<in> set (passes dp).
                   spec_reusable (pl_shader_signature E shp) (sh_is_compute shp) (Some tgt) b p"
  shows "length (passes dpa) = length (passes dp) \<and> creations wa = creations w"
proof -
  from finish_succeeded [OF first] prep obtain dpb shb where
    f: "finish_dispatch E w dp shp tgt (target_rect tgt rc) vp b = Inr (True, wa, dpb, shb)"
    and d: "passes dpa = passes dpb" by auto
  from finish_dispatch_reuses [OF f hit] d show ?thesis by simp
qed

lemma dispatch_other:
  assumes first: "pl_dispatch_finish E w dp (Some sh) (Some tgt) rc b = Inr (True, wa, dpa, psha)"
      and prep: "finish_prepare E sh tgt (target_rect tgt rc) b = Inr (vp, shp)"
      and prep': "finish_prepare E sh' tgt' (target_rect tgt' rc') b' = Inr (vp', shp')"
      and sig: "pl_shader_signature E shp' = pl_shader_signature E shp"
      and cm: "sh_is_compute sh' = sh_is_compute sh"
      and fmt: "sh_is_compute sh \<or> fmt_ptr_eq (tex_format (tex_params tgt))
                                              (tex_format (tex_params tgt'))"
      and bl: "blend_equal b b'"
  shows "(\<exists>i < length (passes dpa).
            find_pass E wa dpa shp' (Some tgt') vp' b' = Inr (wa, dpa, shp', i)
            \<and> \<not> p_failed (passes dpa ! i))
         \<and> (pl_dispatch_finish E wa dpa (Some sh') (Some tgt') rc' b' = Inr (ret2, w2, dp2, psh2)
              \<longrightarrow> length (passes dp2) = length (passes dpa) \<and> creations w2 = creations wa
                  \<and> (ret2 \<longleftrightarrow> dispatch_valid sh' tgt' rc'))"
proof -
  from finish_succeeded [OF first] prep obtain dpb shb where
    f: "finish_dispatch E w dp shp tgt (target_rect tgt rc) vp b = Inr (True, wa, dpb, shb)"
    and d: "passes dpa = passes dpb" by auto
  from finish_prepare_keeps [OF prep] finish_prepare_keeps [OF prep'] cm have
    cm': "sh_is_compute shp' = sh_is_compute shp" and c: "sh_is_compute shp = sh_is_compute sh"
    by simp_all
  from fmt c have fmt': "sh_is_compute shp \<or> fmt_ptr_eq (tex_format (tex_params tgt))
                                              (tex_format (tex_params tgt'))" by simp
  from finish_dispatch_lookup [OF f d sig cm' fmt' bl, of wa vp'] have
    one: "\<exists>i < length (passes dpa).
            find_pass E wa dpa shp' (Some tgt') vp' b' = Inr (wa, dpa, shp', i)
            \<and> \<not> p_failed (passes dpa ! i)" by auto
  have two: "pl_dispatch_finish E wa dpa (Some sh') (Some tgt') rc' b' = Inr (ret2, w2, dp2, psh2)
              \<longrightarrow> length (passes dp2) = length (passes dpa) \<and> creations w2 = creations wa
                  \<and> (ret2 \<longleftrightarrow> dispatch_valid sh' tgt' rc')"
  proof (cases "dispatch_valid sh' tgt' rc'")
    case False
    from body_invalid [OF False, of E wa dpa b'] show ?thesis
      using False by (auto simp: finish_as_body)
  next
    case True
    show ?thesis
    proof
      assume second: "pl_dispatch_finish E wa dpa (Some sh') (Some tgt') rc' b'
                        = Inr (ret2, w2, dp2, psh2)"
      with prep' obtain dpc shc where
        s: "finish_dispatch E wa dpa shp' tgt' (target_rect tgt' rc') vp' b'
              = Inr (ret2, w2, dpc, shc)" and d2: "passes dp2 = passes dpc"
        by (auto simp: finish_as_body body_valid [OF True] split: sum.splits)
      from finish_dispatch_other [OF f d sig cm' fmt' bl s] d2 True
      show "length (passes dp2) = length (passes dpa) \<and> creations w2 = creations wa
              \<and> (ret2 \<longleftrightarrow> dispatch_valid sh' tgt' rc')" by simp
    qed
  qed
  from one two show ?thesis by (rule conjI)
qed














text \<open>
  Why the statement is about raster shaders. On \<open>gpu_small_ubo\<close> the uniform buffer
  takes the matrix, and \<open>pl_dispatch_finish\<close> of the raster shader \<open>sh0\<close> succeeds. The
  compute shader \<open>shc_color\<close> declares the same two variables; its dispatch adds
  \<open>out_scale\<close> and \<open>base\<close>, for which neither push constants nor the buffer have room,
  and returns failure.
\<close>

lemma compute_dispatch_adds_variables:
  "sh_buf_desc_append std_env gpu_small_ubo (p_ubo_desc (new_pass 0)) (sv_var matrix_var) \<noteq> None
   \<and> res_variables shc_color = [scalar_var, matrix_var]
   \<and> (case pl_dispatch_finish std_env [] (dp0\<lparr>gpu := gpu_small_ubo\<rparr>) (Some shc_color)
             (Some tex0) None None of
         Inl e \<Rightarrow> False
       | Inr (ret, w1, dp1, psh) \<Rightarrow>
           \<not> ret \<and> map (\<lambda>p. map pv_type (p_vars p)) (passes dp1)
                      = [[PASS_VAR_PUSHC, PASS_VAR_UBO, PASS_VAR_NONE, PASS_VAR_NONE]])
   \<and> (case pl_dispatch_finish std_env [] (dp0\<lparr>gpu := gpu_small_ubo\<rparr>) (Some sh0)
             (Some tex0) None None of
         Inl e \<Rightarrow> False
       | Inr (ret, w1, dp1, psh) \<Rightarrow>
           ret \<and> map (\<lambda>p. map pv_type (p_vars p)) (passes dp1)
                    = [[PASS_VAR_PUSHC, PASS_VAR_UBO]])"
  by (simp add: scen_defs scen2_defs disp_defs translate_compute_shader_def add_corner_vars_def
        pl_var_vec2_def Let_def numeral_2_eq_2)

text \<open>
  C2. Let \<open>spec_reusable\<close> be the reuse condition in the words of the specification:
  equal signature and, for a raster shader, equal target format and equal blend
  parameters.
  \<^item> The lookup, for a compute shader or when every cached pass of the signature has a
    pass object (the scan reads it, see C4): if some cached pass is reusable,
    \<open>find_pass\<close> returns the first such pass, passing over the others, and changes
    nothing; if none is, \<open>find_pass\<close> is the creation of a new pass, appended to the
    cache.
  \<^item> Whenever \<open>find_pass\<close> returns, without that proviso: it has returned a pass of the
    old cache exactly when one was reusable, and then the first such.
  \<^item> After a lookup that returned a usable pass, a lookup with the same signature, target
    format and blend parameters returns the same pass and leaves the cache as it is.
  \<^item> When \<open>pl_dispatch_finish\<close> has succeeded, the same dispatch again succeeds as
    well, creates no pass and no buffer and leaves the cache at its length.
  \<^item> If no cached pass was reusable for the first of the two dispatches, they have
    created exactly one pass between them: one call of \<open>pl_pass_create\<close>, made by the
    first, and one more pass in the cache. If one was reusable, the first dispatch
    has created nothing either.
  \<^item> After a dispatch that succeeded, the dispatch of any shader that is looked up under
    the same signature, against any target of the same format and with blend parameters
    of equal value, finds a cached pass that has not failed; if it returns, it has
    created nothing, and it has succeeded unless the shader or the target failed the
    checks.
  \<^item> \<open>blend_equal\<close> is equality of the values, two \<open>NULL\<close>s included.
\<close>

theorem pass_cache_reuse:
  "((sh_is_compute sh \<or> (\<forall>p \<in> set (passes dp).
        p_signature p = pl_shader_signature E sh \<longrightarrow> t \<noteq> None \<and> p_pass p \<noteq> None)) \<longrightarrow>
      ((\<exists>p \<in> set (passes dp).
           spec_reusable (pl_shader_signature E sh) (sh_is_compute sh) t b p) \<longrightarrow>
         (\<exists>i < length (passes dp). find_pass E w dp sh t vp b = Inr (w, dp, sh, i)
            \<and> spec_reusable (pl_shader_signature E sh) (sh_is_compute sh) t b (passes dp ! i)
            \<and> (\<forall>j. j < i \<longrightarrow>
                  \<not> spec_reusable (pl_shader_signature E sh) (sh_is_compute sh) t b
                       (passes dp ! j))))
      \<and> ((\<forall>p \<in> set (passes dp).
            \<not> spec_reusable (pl_shader_signature E sh) (sh_is_compute sh) t b p) \<longrightarrow>
         find_pass E w dp sh t vp b =
           (case create_pass E w (gpu dp) sh (pl_shader_signature E sh) t vp b of
              Inl e \<Rightarrow> Inl e
            | Inr (wn, shn, pass) \<Rightarrow>
                Inr (wn, dp\<lparr>passes := passes dp @ [pass]\<rparr>, shn, length (passes dp)))))
   \<and> (find_pass E w dp sh t vp b = Inr (w1, dp1, sh1, i) \<longrightarrow>
      (i < length (passes dp) \<longleftrightarrow>
         (\<exists>p \<in> set (passes dp).
            spec_reusable (pl_shader_signature E sh) (sh_is_compute sh) t b p))
      \<and> (i < length (passes dp) \<longrightarrow>
           w1 = w \<and> dp1 = dp \<and> sh1 = sh
           \<and> spec_reusable (pl_shader_signature E sh) (sh_is_compute sh) t b (passes dp ! i)
           \<and> (\<forall>j. j < i \<longrightarrow>
                 \<not> spec_reusable (pl_shader_signature E sh) (sh_is_compute sh) t b
                      (passes dp ! j)))
      \<and> (\<not> i < length (passes dp) \<longrightarrow>
           i = length (passes dp) \<and> (\<exists>p. passes dp1 = passes dp @ [p])))
   \<and> (find_pass E w dp sh t vp b = Inr (w1, dp1, sh1, i)
        \<and> (sh_is_compute sh \<or> \<not> p_failed (passes dp1 ! i))
        \<and> pl_shader_signature E sh' = pl_shader_signature E sh
        \<and> sh_is_compute sh' = sh_is_compute sh
        \<and> (sh_is_compute sh \<or> (\<exists>x y. t = Some x \<and> t' = Some y
              \<and> fmt_ptr_eq (tex_format (tex_params x)) (tex_format (tex_params y))))
        \<and> blend_equal b b' \<longrightarrow>
      find_pass E w1 dp1 sh' t' vp' b' = Inr (w1, dp1, sh', i)
      \<and> length (passes dp1) \<le> Suc (length (passes dp)))
   \<and> (pl_dispatch_finish E w dp (Some sh) t rc b = Inr (True, wa, dpa, psha) \<longrightarrow>
      (\<exists>w2 dp2. pl_dispatch_finish E wa dpa (Some sh) t rc b = Inr (True, w2, dp2, None)
          \<and> length (passes dp2) = length (passes dpa) \<and> creations w2 = creations wa)
      \<and> length (passes dpa) \<le> Suc (length (passes dp)))
   \<and> (pl_dispatch_finish E w dp (Some sh) (Some tgt) rc b = Inr (True, wa, dpa, psha)
        \<and> finish_prepare E sh tgt (target_rect tgt rc) b = Inr (vq, shp)
        \<and> (\<forall>p \<in> set (passes dp).
              \<not> spec_reusable (pl_shader_signature E shp) (sh_is_compute shp) (Some tgt) b p)
        \<longrightarrow>
      (\<exists>params w2 dp2.
          pl_dispatch_finish E wa dpa (Some sh) (Some tgt) rc b = Inr (True, w2, dp2, None)
          \<and> pass_creations wa = pass_creations w @ [Pass_create params]
          \<and> pass_creations w2 = pass_creations w @ [Pass_create params]
          \<and> length (passes dpa) = Suc (length (passes dp))
          \<and> length (passes dp2) = Suc (length (passes dp))))
   \<and> (pl_dispatch_finish E w dp (Some sh) (Some tgt) rc b = Inr (True, wa, dpa, psha)
        \<and> finish_prepare E sh tgt (target_rect tgt rc) b = Inr (vq, shp)
        \<and> (\<exists>p \<in> set (passes dp).
              spec_reusable (pl_shader_signature E shp) (sh_is_compute shp) (Some tgt) b p)
        \<longrightarrow>
      length (passes dpa) = length (passes dp) \<and> creations wa = creations w)
   \<and> (pl_dispatch_finish E w dp (Some sh) (Some tgt) rc b = Inr (True, wa, dpa, psha)
        \<and> finish_prepare E sh tgt (target_rect tgt rc) b = Inr (vq, shp)
        \<and> finish_prepare E sh' tgt' (target_rect tgt' rc') b' = Inr (vq', shp')
        \<and> pl_shader_signature E shp' = pl_shader_signature E shp
        \<and> sh_is_compute sh' = sh_is_compute sh
        \<and> (sh_is_compute sh \<or> fmt_ptr_eq (tex_format (tex_params tgt))
                                             (tex_format (tex_params tgt')))
        \<and> blend_equal b b' \<longrightarrow>
      (\<exists>k < length (passes dpa).
          find_pass E wa dpa shp' (Some tgt') vq' b' = Inr (wa, dpa, shp', k)
          \<and> \<not> p_failed (passes dpa ! k))
      \<and> (pl_dispatch_finish E wa dpa (Some sh') (Some tgt') rc' b' = Inr (ret2, w2, dp2, psh2)
           \<longrightarrow> length (passes dp2) = length (passes dpa) \<and> creations w2 = creations wa
               \<and> (ret2 \<longleftrightarrow> dispatch_valid sh' tgt' rc')))
   \<and> (blend_equal bx bz \<longleftrightarrow> bx = bz)"
proof -
  let ?sig = "pl_shader_signature E sh" and ?cm = "sh_is_compute sh"
  have A: "(?cm \<or> (\<forall>p \<in> set (passes dp).
        p_signature p = ?sig \<longrightarrow> t \<noteq> None \<and> p_pass p \<noteq> None)) \<longrightarrow>
      ((\<exists>p \<in> set (passes dp). spec_reusable ?sig ?cm t b p) \<longrightarrow>
         (\<exists>i < length (passes dp). find_pass E w dp sh t vp b = Inr (w, dp, sh, i)
            \<and> spec_reusable ?sig ?cm t b (passes dp ! i)
            \<and> (\<forall>j. j < i \<longrightarrow> \<not> spec_reusable ?sig ?cm t b (passes dp ! j))))
      \<and> ((\<forall>p \<in> set (passes dp). \<not> spec_reusable ?sig ?cm t b p) \<longrightarrow>
         find_pass E w dp sh t vp b =
           (case create_pass E w (gpu dp) sh ?sig t vp b of
              Inl e \<Rightarrow> Inl e
            | Inr (wn, shn, pass) \<Rightarrow>
                Inr (wn, dp\<lparr>passes := passes dp @ [pass]\<rparr>, shn, length (passes dp))))"
    using find_pass_reuses [of sh dp E t b w vp] find_pass_creates [of sh dp E t b w vp]
    by (intro impI conjI) assumption+
  have A2: "find_pass E w dp sh t vp b = Inr (w1, dp1, sh1, i) \<longrightarrow>
      (i < length (passes dp) \<longleftrightarrow> (\<exists>p \<in> set (passes dp). spec_reusable ?sig ?cm t b p))
      \<and> (i < length (passes dp) \<longrightarrow>
           w1 = w \<and> dp1 = dp \<and> sh1 = sh
           \<and> spec_reusable ?sig ?cm t b (passes dp ! i)
           \<and> (\<forall>j. j < i \<longrightarrow> \<not> spec_reusable ?sig ?cm t b (passes dp ! j)))
      \<and> (\<not> i < length (passes dp) \<longrightarrow>
           i = length (passes dp) \<and> (\<exists>p. passes dp1 = passes dp @ [p]))"
    by (rule impI) (rule find_pass_lookup)
  have B: "find_pass E w dp sh t vp b = Inr (w1, dp1, sh1, i)
        \<and> (?cm \<or> \<not> p_failed (passes dp1 ! i))
        \<and> pl_shader_signature E sh' = ?sig
        \<and> sh_is_compute sh' = ?cm
        \<and> (?cm \<or> (\<exists>x y. t = Some x \<and> t' = Some y
              \<and> fmt_ptr_eq (tex_format (tex_params x)) (tex_format (tex_params y))))
        \<and> blend_equal b b' \<longrightarrow>
      find_pass E w1 dp1 sh' t' vp' b' = Inr (w1, dp1, sh', i)
      \<and> length (passes dp1) \<le> Suc (length (passes dp))"
    using find_pass_again [of E w dp sh t vp b w1 dp1 sh1 i sh' t' b' vp'] by blast
  have C: "pl_dispatch_finish E w dp (Some sh) t rc b = Inr (True, wa, dpa, psha) \<longrightarrow>
      (\<exists>w2 dp2. pl_dispatch_finish E wa dpa (Some sh) t rc b = Inr (True, w2, dp2, None)
          \<and> length (passes dp2) = length (passes dpa) \<and> creations w2 = creations wa)
      \<and> length (passes dpa) \<le> Suc (length (passes dp))"
    by (rule impI) (rule dispatch_again)
  have C1: "pl_dispatch_finish E w dp (Some sh) (Some tgt) rc b = Inr (True, wa, dpa, psha)
        \<and> finish_prepare E sh tgt (target_rect tgt rc) b = Inr (vq, shp)
        \<and> (\<forall>p \<in> set (passes dp).
              \<not> spec_reusable (pl_shader_signature E shp) (sh_is_compute shp) (Some tgt) b p)
        \<longrightarrow>
      (\<exists>params w2 dp2.
          pl_dispatch_finish E wa dpa (Some sh) (Some tgt) rc b = Inr (True, w2, dp2, None)
          \<and> pass_creations wa = pass_creations w @ [Pass_create params]
          \<and> pass_creations w2 = pass_creations w @ [Pass_create params]
          \<and> length (passes dpa) = Suc (length (passes dp))
          \<and> length (passes dp2) = Suc (length (passes dp)))"
  proof
    assume h: "pl_dispatch_finish E w dp (Some sh) (Some tgt) rc b = Inr (True, wa, dpa, psha)
        \<and> finish_prepare E sh tgt (target_rect tgt rc) b = Inr (vq, shp)
        \<and> (\<forall>p \<in> set (passes dp).
              \<not> spec_reusable (pl_shader_signature E shp) (sh_is_compute shp) (Some tgt) b p)"
    then have first: "pl_dispatch_finish E w dp (Some sh) (Some tgt) rc b
                        = Inr (True, wa, dpa, psha)"
      and prep: "finish_prepare E sh tgt (target_rect tgt rc) b = Inr (vq, shp)"
      and miss: "\<forall>p \<in> set (passes dp).
              \<not> spec_reusable (pl_shader_signature E shp) (sh_is_compute shp) (Some tgt) b p"
      by simp_all
    from dispatch_creates_one [OF first prep miss] obtain params where
      one: "length (passes dpa) = Suc (length (passes dp))"
           "pass_creations wa = pass_creations w @ [Pass_create params]" by blast
    from dispatch_again [OF first] obtain w2 dp2 where
      two: "pl_dispatch_finish E wa dpa (Some sh) (Some tgt) rc b = Inr (True, w2, dp2, None)"
           "length (passes dp2) = length (passes dpa)" "creations w2 = creations wa" by blast
    from two(3) have "pass_creations w2 = pass_creations wa" by (rule pass_creations_same)
    with one two show "\<exists>params w2 dp2.
          pl_dispatch_finish E wa dpa (Some sh) (Some tgt) rc b = Inr (True, w2, dp2, None)
          \<and> pass_creations wa = pass_creations w @ [Pass_create params]
          \<and> pass_creations w2 = pass_creations w @ [Pass_create params]
          \<and> length (passes dpa) = Suc (length (passes dp))
          \<and> length (passes dp2) = Suc (length (passes dp))" by auto
  qed
  have C2: "pl_dispatch_finish E w dp (Some sh) (Some tgt) rc b = Inr (True, wa, dpa, psha)
        \<and> finish_prepare E sh tgt (target_rect tgt rc) b = Inr (vq, shp)
        \<and> (\<exists>p \<in> set (passes dp).
              spec_reusable (pl_shader_signature E shp) (sh_is_compute shp) (Some tgt) b p)
        \<longrightarrow>
      length (passes dpa) = length (passes dp) \<and> creations wa = creations w"
    using dispatch_reuses [of E w dp sh tgt rc b wa dpa psha vq shp] by blast
  have C3: "pl_dispatch_finish E w dp (Some sh) (Some tgt) rc b = Inr (True, wa, dpa, psha)
        \<and> finish_prepare E sh tgt (target_rect tgt rc) b = Inr (vq, shp)
        \<and> finish_prepare E sh' tgt' (target_rect tgt' rc') b' = Inr (vq', shp')
        \<and> pl_shader_signature E shp' = pl_shader_signature E shp
        \<and> sh_is_compute sh' = sh_is_compute sh
        \<and> (sh_is_compute sh \<or> fmt_ptr_eq (tex_format (tex_params tgt))
                                             (tex_format (tex_params tgt')))
        \<and> blend_equal b b' \<longrightarrow>
      (\<exists>k < length (passes dpa).
          find_pass E wa dpa shp' (Some tgt') vq' b' = Inr (wa, dpa, shp', k)
          \<and> \<not> p_failed (passes dpa ! k))
      \<and> (pl_dispatch_finish E wa dpa (Some sh') (Some tgt') rc' b' = Inr (ret2, w2, dp2, psh2)
           \<longrightarrow> length (passes dp2) = length (passes dpa) \<and> creations w2 = creations wa
               \<and> (ret2 \<longleftrightarrow> dispatch_valid sh' tgt' rc'))"
    using dispatch_other [of E w dp sh tgt rc b wa dpa psha vq shp sh' tgt' rc' b' vq' shp'
                             ret2 w2 dp2 psh2]
    by (intro impI) (elim conjE, assumption)
  have D: "blend_equal bx bz \<longleftrightarrow> bx = bz" by (rule blend_equal_iff)
  show ?thesis
    by (rule conjI [OF A conjI [OF A2 conjI [OF B conjI [OF C conjI [OF C1
          conjI [OF C2 conjI [OF C3 D]]]]]]])
qed

text \<open>
  A scan that passes over a pass of another target format and a pass of other blend
  parameters and stops at the third pass of \<open>dp_three\<close>; the lookup twice for the compute
  shader \<open>shc0\<close>; and, from an empty cache, \<open>pl_dispatch_finish\<close> of the raster shader
  \<open>sh0\<close> twice and then of \<open>sh0_again\<close> against \<open>tex_wide\<close>: one pass is created.
\<close>

theorem pass_cache_reuse_witness:
  "find_pass std_env [] dp_three sh0 (Some tex0) None None = Inr ([], dp_three, sh0, 2)
   \<and> (\<exists>w1 dp1 sh1.
        find_pass std_env [] dp0 shc0 None None None = Inr (w1, dp1, sh1, 0)
        \<and> length (passes dp1) = 1
        \<and> find_pass std_env w1 dp1 shc0 None None None = Inr (w1, dp1, shc0, 0))
   \<and> (\<exists>wa dpa params w2 dp2.
        pl_dispatch_finish std_env [] dp0 (Some sh0) (Some tex0) None None
          = Inr (True, wa, dpa, None)
        \<and> pl_dispatch_finish std_env wa dpa (Some sh0) (Some tex0) None None
          = Inr (True, w2, dp2, None)
        \<and> pass_creations w2 = [Pass_create params]
        \<and> length (passes dp2) = 1
        \<and> (\<exists>vq shp k. finish_prepare std_env sh0_again tex_wide (target_rect tex_wide None) None
                          = Inr (vq, shp)
              \<and> find_pass std_env wa dpa shp (Some tex_wide) vq None = Inr (wa, dpa, shp, k)
              \<and> k < length (passes dpa))
        \<and> (\<exists>w3 dpx. pl_dispatch_finish std_env wa dpa (Some sh0_again) (Some tex_wide) None None
                          = Inr (True, w3, dpx, None)
              \<and> length (passes dpx) = 1 \<and> creations w3 = creations wa))"
proof -
  let ?sig = "pl_shader_signature std_env sh0"
  have t: "sh_is_compute sh0 \<or> (\<forall>p \<in> set (passes dp_three).
             p_signature p = ?sig \<longrightarrow> Some tex0 \<noteq> None \<and> p_pass p \<noteq> None)"
    by (simp add: scen_defs scen2_defs new_pass_def)
  have ex: "\<exists>p \<in> set (passes dp_three). spec_reusable ?sig (sh_is_compute sh0) (Some tex0) None p"
    by (simp add: scen_defs scen2_defs new_pass_def new_pass_params_def spec_reusable_def
          fmt_ptr_eq_def)
  have n: "\<not> spec_reusable ?sig (sh_is_compute sh0) (Some tex0) None (passes dp_three ! 0)"
          "\<not> spec_reusable ?sig (sh_is_compute sh0) (Some tex0) None (passes dp_three ! 1)"
          "length (passes dp_three) = 3"
    by (simp_all add: scen_defs scen2_defs new_pass_def new_pass_params_def spec_reusable_def
          fmt_ptr_eq_def)
  note inst0 = pass_cache_reuse [where E = std_env and w = "[]" and dp = dp_three and sh = sh0
      and t = "Some tex0" and vp = None and b = None]
  from inst0 [THEN conjunct1] t ex obtain i where
    i: "i < length (passes dp_three)"
       "find_pass std_env [] dp_three sh0 (Some tex0) None None = Inr ([], dp_three, sh0, i)"
       "spec_reusable ?sig (sh_is_compute sh0) (Some tex0) None (passes dp_three ! i)"
    by blast
  from i(1) n(3) have "i = 0 \<or> i = 1 \<or> i = 2" by arith
  with i(3) n(1,2) have "i = 2" by auto
  with i(2) have p0: "find_pass std_env [] dp_three sh0 (Some tex0) None None
                        = Inr ([], dp_three, sh0, 2)" by simp
  have e1: "\<exists>w1 dp1 sh1. find_pass std_env [] dp0 shc0 None None None = Inr (w1, dp1, sh1, 0)
              \<and> sh_is_compute shc0 \<and> blend_equal None None \<and> passes dp0 = []"
    by (simp add: scen_defs disp_defs Let_def)
  then obtain w1 dp1 sh1 where
    f1: "find_pass std_env [] dp0 shc0 None None None = Inr (w1, dp1, sh1, 0)"
    and c: "sh_is_compute shc0" and bl: "blend_equal None None" and emp: "passes dp0 = []"
    by blast
  note inst1 = pass_cache_reuse [where E = std_env and w = "[]" and dp = dp0 and sh = shc0
      and t = None and vp = None and b = None and ?w1.0 = w1 and ?dp1.0 = dp1 and ?sh1.0 = sh1
      and i = 0 and sh' = shc0 and t' = None and vp' = None and b' = None]
  from inst1 [THEN conjunct2, THEN conjunct2, THEN conjunct1] f1 c bl have
    a: "find_pass std_env w1 dp1 shc0 None None None = Inr (w1, dp1, shc0, 0)"
    by simp
  from inst1 [THEN conjunct2, THEN conjunct1] f1 emp have "\<exists>p. passes dp1 = [p]" by simp
  then have l: "length (passes dp1) = 1" by auto
  from f1 a l have p1: "\<exists>w1 dp1 sh1.
      find_pass std_env [] dp0 shc0 None None None = Inr (w1, dp1, sh1, 0)
      \<and> length (passes dp1) = 1
      \<and> find_pass std_env w1 dp1 shc0 None None None = Inr (w1, dp1, shc0, 0)" by blast
  have e2: "\<exists>wa dpa. pl_dispatch_finish std_env [] dp0 (Some sh0) (Some tex0) None None
                        = Inr (True, wa, dpa, None)"
    by (simp add: scen_defs disp_defs Let_def)
  then obtain wa dpa where
    d1: "pl_dispatch_finish std_env [] dp0 (Some sh0) (Some tex0) None None
           = Inr (True, wa, dpa, None)" by blast
  have e3: "\<exists>vq shp. finish_prepare std_env sh0 tex0 (target_rect tex0 None) None = Inr (vq, shp)
              \<and> pl_shader_signature std_env shp = 2 \<and> \<not> sh_is_compute sh0"
    by (simp add: scen_defs finish_prepare_def target_rect_def)
  then obtain vq shp where
    pr: "finish_prepare std_env sh0 tex0 (target_rect tex0 None) None = Inr (vq, shp)"
    and sg: "pl_shader_signature std_env shp = 2" and rs: "\<not> sh_is_compute sh0" by blast
  have e4: "\<exists>vq' shp'. finish_prepare std_env sh0_again tex_wide (target_rect tex_wide None) None
                          = Inr (vq', shp')
              \<and> pl_shader_signature std_env shp' = 2
              \<and> sh_is_compute sh0_again = sh_is_compute sh0
              \<and> fmt_ptr_eq (tex_format (tex_params tex0)) (tex_format (tex_params tex_wide))"
    by (simp add: scen_defs scen2_defs finish_prepare_def target_rect_def fmt_ptr_eq_def)
  then obtain vq' shp' where
    pr': "finish_prepare std_env sh0_again tex_wide (target_rect tex_wide None) None
            = Inr (vq', shp')"
    and sg': "pl_shader_signature std_env shp' = 2"
    and cm': "sh_is_compute sh0_again = sh_is_compute sh0"
    and fm: "fmt_ptr_eq (tex_format (tex_params tex0)) (tex_format (tex_params tex_wide))"
    by blast
  note inst2 = pass_cache_reuse [where E = std_env and w = "[]" and dp = dp0 and sh = sh0
      and tgt = tex0 and rc = None and b = None and wa = wa and dpa = dpa and psha = None
      and vq = vq and shp = shp and sh' = sh0_again and tgt' = tex_wide and rc' = None
      and b' = None and vq' = vq' and shp' = shp']
  from inst2 [THEN conjunct2, THEN conjunct2, THEN conjunct2, THEN conjunct2, THEN conjunct1]
    d1 pr emp obtain params w2 dp2 where
    two: "pl_dispatch_finish std_env wa dpa (Some sh0) (Some tex0) None None
            = Inr (True, w2, dp2, None)"
         "pass_creations w2 = pass_creations [] @ [Pass_create params]"
         "length (passes dp2) = Suc (length (passes dp0))"
    by auto
  have h3: "pl_dispatch_finish std_env [] dp0 (Some sh0) (Some tex0) None None
              = Inr (True, wa, dpa, None)
        \<and> finish_prepare std_env sh0 tex0 (target_rect tex0 None) None = Inr (vq, shp)
        \<and> finish_prepare std_env sh0_again tex_wide (target_rect tex_wide None) None
              = Inr (vq', shp')
        \<and> pl_shader_signature std_env shp' = pl_shader_signature std_env shp
        \<and> sh_is_compute sh0_again = sh_is_compute sh0
        \<and> (sh_is_compute sh0 \<or> fmt_ptr_eq (tex_format (tex_params tex0))
                                             (tex_format (tex_params tex_wide)))
        \<and> blend_equal None None"
    using d1 pr pr' sg sg' cm' fm bl by simp
  from inst2 [THEN conjunct2, THEN conjunct2, THEN conjunct2, THEN conjunct2, THEN conjunct2,
               THEN conjunct2, THEN conjunct1, THEN mp, OF h3, THEN conjunct1]
  obtain k where
    k: "k < length (passes dpa)"
       "find_pass std_env wa dpa shp' (Some tex_wide) vq' None = Inr (wa, dpa, shp', k)"
    by blast
  from two emp have two': "pass_creations w2 = [Pass_create params]" "length (passes dp2) = 1"
    by (simp_all add: pass_creations_def)
  have e5: "\<exists>wa dpa w3 dpx.
        pl_dispatch_finish std_env [] dp0 (Some sh0) (Some tex0) None None
          = Inr (True, wa, dpa, None)
        \<and> pl_dispatch_finish std_env wa dpa (Some sh0_again) (Some tex_wide) None None
          = Inr (True, w3, dpx, None) \<and> length (passes dpa) = 1"
    by (simp add: scen_defs scen2_defs disp_defs Let_def)
  with d1 obtain w3 dpx where
    d3: "pl_dispatch_finish std_env wa dpa (Some sh0_again) (Some tex_wide) None None
           = Inr (True, w3, dpx, None)" and la: "length (passes dpa) = 1" by auto
  note inst3 = pass_cache_reuse [where E = std_env and w = "[]" and dp = dp0 and sh = sh0
      and tgt = tex0 and rc = None and b = None and wa = wa and dpa = dpa and psha = None
      and vq = vq and shp = shp and sh' = sh0_again and tgt' = tex_wide and rc' = None
      and b' = None and vq' = vq' and shp' = shp' and ?ret2.0 = True and ?w2.0 = w3
      and ?dp2.0 = dpx and ?psh2.0 = None]
  from inst3 [THEN conjunct2, THEN conjunct2, THEN conjunct2, THEN conjunct2, THEN conjunct2,
               THEN conjunct2, THEN conjunct1, THEN mp, OF h3, THEN conjunct2, THEN mp, OF d3] la
  have three: "length (passes dpx) = 1" "creations w3 = creations wa" by simp_all
  from d1 two(1) two' pr' k d3 three have p2: "\<exists>wa dpa params w2 dp2.
        pl_dispatch_finish std_env [] dp0 (Some sh0) (Some tex0) None None
          = Inr (True, wa, dpa, None)
        \<and> pl_dispatch_finish std_env wa dpa (Some sh0) (Some tex0) None None
          = Inr (True, w2, dp2, None)
        \<and> pass_creations w2 = [Pass_create params]
        \<and> length (passes dp2) = 1
        \<and> (\<exists>vq shp k. finish_prepare std_env sh0_again tex_wide (target_rect tex_wide None) None
                          = Inr (vq, shp)
              \<and> find_pass std_env wa dpa shp (Some tex_wide) vq None = Inr (wa, dpa, shp, k)
              \<and> k < length (passes dpa))
        \<and> (\<exists>w3 dpx. pl_dispatch_finish std_env wa dpa (Some sh0_again) (Some tex_wide) None None
                          = Inr (True, w3, dpx, None)
              \<and> length (passes dpx) = 1 \<and> creations w3 = creations wa)" by blast
  from p0 p1 p2 show ?thesis by (intro conjI)
qed

lemma finish_early_failure:
  assumes "sh_failed sh \<or> \<not> sh_mutable sh \<or> res_input sh \<noteq> PL_SHADER_SIG_NONE
           \<or> res_output sh \<noteq> PL_SHADER_SIG_COLOR"
  shows "pl_dispatch_finish E w dp (Some sh) t rc b =
           Inr (False, w, dp\<lparr>shaders := shaders dp @ [sh]\<rparr>, None)"
  using assms
  by (auto simp: pl_dispatch_finish_def dispatch_finish_body_def pl_dispatch_abort_def)

lemma finish_target_failure:
  assumes "pl_tex_params_dimension (tex_params tgt) \<noteq> 2 \<or> \<not> renderable (tex_params tgt)
           \<or> (sh_is_compute sh \<and> \<not> storable (tex_params tgt))"
  shows "pl_dispatch_finish E w dp (Some sh) (Some tgt) rc b =
           Inr (False, w, dp\<lparr>shaders := shaders dp @ [sh]\<rparr>, None)"
  using assms
  by (auto simp: pl_dispatch_finish_def dispatch_finish_body_def pl_dispatch_abort_def Let_def)

lemma compute_early_failure:
  assumes "sh_failed sh \<or> \<not> sh_mutable sh \<or> res_input sh \<noteq> PL_SHADER_SIG_NONE
           \<or> res_output sh \<noteq> PL_SHADER_SIG_NONE \<or> \<not> sh_is_compute sh
           \<or> res_vertex_attribs sh \<noteq> []"
  shows "pl_dispatch_compute E w dp (Some sh) ds =
           Inr (False, w, dp\<lparr>shaders := shaders dp @ [sh]\<rparr>, None)"
  using assms
  by (auto simp: pl_dispatch_compute_def dispatch_compute_body_def pl_dispatch_abort_def)

lemma reclaimed_finish:
  assumes "pl_dispatch_finish E w dp (Some sh) t rc b = Inr (ret, w1, dp1, psh1)"
  shows "psh1 = None \<and> (\<exists>sh1. shaders dp1 = shaders dp @ [sh1] \<and> sh_addr sh1 = sh_addr sh)"
  using assms
  by (auto simp: pl_dispatch_finish_def pl_dispatch_abort_def
           dest!: dispatch_finish_body_frame split: sum.splits prod.splits)

lemma reclaimed_compute:
  assumes "pl_dispatch_compute E w dp (Some sh) ds = Inr (ret, w1, dp1, psh1)"
  shows "psh1 = None \<and> (\<exists>sh1. shaders dp1 = shaders dp @ [sh1] \<and> sh_addr sh1 = sh_addr sh)"
  using assms
  by (auto simp: pl_dispatch_compute_def pl_dispatch_abort_def
           dest!: dispatch_compute_body_frame split: sum.splits prod.splits)

text \<open>
  C5. Every call of \<open>pl_dispatch_finish\<close> or \<open>pl_dispatch_compute\<close> with a shader handle
  that is not \<open>NULL\<close>, whatever it returns, has appended the shader object to the pool
  \<open>dp->shaders\<close> and set the caller's handle to \<open>NULL\<close>; and on each early validation
  failure (failed or non-mutable shader, wrong signature, unusable target, and for
  \<open>pl_dispatch_compute\<close> a raster shader or vertex attributes) the call does return, with
  failure, the shader in the pool and nothing else changed.
\<close>

theorem shader_always_reclaimed:
  "(pl_dispatch_finish E w dp (Some sh) t rc b = Inr (ret, w1, dp1, psh1) \<longrightarrow>
      psh1 = None \<and> (\<exists>sh1. shaders dp1 = shaders dp @ [sh1] \<and> sh_addr sh1 = sh_addr sh))
   \<and> (pl_dispatch_compute E w dp (Some sh) ds = Inr (ret, w1, dp1, psh1) \<longrightarrow>
      psh1 = None \<and> (\<exists>sh1. shaders dp1 = shaders dp @ [sh1] \<and> sh_addr sh1 = sh_addr sh))
   \<and> (sh_failed sh \<or> \<not> sh_mutable sh \<or> res_input sh \<noteq> PL_SHADER_SIG_NONE
         \<or> res_output sh \<noteq> PL_SHADER_SIG_COLOR \<longrightarrow>
      pl_dispatch_finish E w dp (Some sh) t rc b =
        Inr (False, w, dp\<lparr>shaders := shaders dp @ [sh]\<rparr>, None))
   \<and> (pl_tex_params_dimension (tex_params tgt) \<noteq> 2 \<or> \<not> renderable (tex_params tgt)
         \<or> (sh_is_compute sh \<and> \<not> storable (tex_params tgt)) \<longrightarrow>
      pl_dispatch_finish E w dp (Some sh) (Some tgt) rc b =
        Inr (False, w, dp\<lparr>shaders := shaders dp @ [sh]\<rparr>, None))
   \<and> (sh_failed sh \<or> \<not> sh_mutable sh \<or> res_input sh \<noteq> PL_SHADER_SIG_NONE
         \<or> res_output sh \<noteq> PL_SHADER_SIG_NONE \<or> \<not> sh_is_compute sh
         \<or> res_vertex_attribs sh \<noteq> [] \<longrightarrow>
      pl_dispatch_compute E w dp (Some sh) ds =
        Inr (False, w, dp\<lparr>shaders := shaders dp @ [sh]\<rparr>, None))"
  using reclaimed_finish [of E w dp sh t rc b ret w1 dp1 psh1]
        reclaimed_compute [of E w dp sh ds ret w1 dp1 psh1]
        finish_early_failure [of sh E w dp t rc b]
        finish_target_failure [of tgt sh E w dp rc b]
        compute_early_failure [of sh E w dp ds]
  by blast

text \<open>A successful dispatch of \<open>sh0\<close> and two calls that fail their validation.\<close>

theorem shader_always_reclaimed_witness:
  "(\<exists>w1 dp1 sh1. pl_dispatch_finish std_env [] dp0 (Some sh0) (Some tex0) None None
        = Inr (True, w1, dp1, None)
      \<and> shaders dp1 = shaders dp0 @ [sh1] \<and> sh_addr sh1 = sh_addr sh0)
   \<and> pl_dispatch_compute std_env [] dp0 (Some sh0) [1, 1, 1]
        = Inr (False, [], dp0\<lparr>shaders := shaders dp0 @ [sh0]\<rparr>, None)
   \<and> pl_dispatch_finish std_env [] dp0 (Some (sh0\<lparr>sh_failed := True\<rparr>)) None None None
        = Inr (False, [], dp0\<lparr>shaders := shaders dp0 @ [sh0\<lparr>sh_failed := True\<rparr>]\<rparr>, None)"
proof -
  have e: "\<exists>w1 dp1. pl_dispatch_finish std_env [] dp0 (Some sh0) (Some tex0) None None
        = Inr (True, w1, dp1, None)"
    by (simp add: scen_defs disp_defs Let_def)
  then obtain w1 dp1 where d: "pl_dispatch_finish std_env [] dp0 (Some sh0) (Some tex0) None None
        = Inr (True, w1, dp1, None)" by blast
  from shader_always_reclaimed [where E = std_env and w = "[]" and dp = dp0 and sh = sh0
      and t = "Some tex0" and rc = None and b = None and ret = True and ?w1.0 = w1
      and ?dp1.0 = dp1 and ?psh1.0 = None] d
  have p1: "\<exists>w1 dp1 sh1. pl_dispatch_finish std_env [] dp0 (Some sh0) (Some tex0) None None
        = Inr (True, w1, dp1, None)
      \<and> shaders dp1 = shaders dp0 @ [sh1] \<and> sh_addr sh1 = sh_addr sh0" by blast
  have c: "res_output sh0 \<noteq> PL_SHADER_SIG_NONE" by (simp add: sh0_def)
  from shader_always_reclaimed [where E = std_env and w = "[]" and dp = dp0 and sh = sh0
      and ds = "[1, 1, 1]"] c
  have p2: "pl_dispatch_compute std_env [] dp0 (Some sh0) [1, 1, 1]
        = Inr (False, [], dp0\<lparr>shaders := shaders dp0 @ [sh0]\<rparr>, None)" by blast
  have f: "sh_failed (sh0\<lparr>sh_failed := True\<rparr>)" by simp
  from shader_always_reclaimed [where E = std_env and w = "[]" and dp = dp0
      and sh = "sh0\<lparr>sh_failed := True\<rparr>" and t = None and rc = None and b = None] f
  have p3: "pl_dispatch_finish std_env [] dp0 (Some (sh0\<lparr>sh_failed := True\<rparr>)) None None None
        = Inr (False, [], dp0\<lparr>shaders := shaders dp0 @ [sh0\<lparr>sh_failed := True\<rparr>]\<rparr>, None)"
    by blast
  from p1 p2 p3 show ?thesis by blast
qed

text \<open>
  For a raster shader the scan never gets past a cached pass of its signature whose
  \<open>pass\<close> pointer is \<open>NULL\<close>, and a pass that \<open>find_pass\<close> appends has such a pointer
  exactly when it is marked failed.
\<close>

lemma raster_lookup_null_pass:
  assumes "\<forall>p \<in> set ps. \<not> spec_reusable sig False (Some t) b p"
      and "p_signature q = sig" and "p_pass q = None"
  shows "find_cached sig False (Some t) b (ps @ q # rest) k = Inl NullDeref"
  using assms
proof (induction ps arbitrary: k)
  case Nil
  then show ?case by simp
next
  case (Cons p ps)
  then show ?case
    by (simp add: find_cached_step del: find_cached.simps)
qed

lemma new_pass_failed_iff:
  assumes "find_pass E w dp sh t vp b = Inr (w1, dp1, sh1, i)" and "\<not> i < length (passes dp)"
  shows "passes dp1 = passes dp @ [passes dp1 ! i]
         \<and> p_signature (passes dp1 ! i) = pl_shader_signature E sh
         \<and> (p_failed (passes dp1 ! i) \<longleftrightarrow> p_pass (passes dp1 ! i) = None)"
proof -
  from assms obtain pass where
    cr: "create_pass E w (gpu dp) sh (pl_shader_signature E sh) t vp b = Inr (w1, sh1, pass)"
    and dp1: "dp1 = dp\<lparr>passes := passes dp @ [pass]\<rparr>" and i: "i = length (passes dp)"
    by (auto simp: find_pass_def Let_def split: sum.splits option.splits
             dest: find_cached_hit)
  from create_pass_result [OF cr] dp1 i show ?thesis by simp
qed

lemma failed_hit_fails_fast:
  assumes "find_pass E w dp sh (Some tgt) vp b = Inr (w1, dp1, sh1, i)"
      and "p_failed (passes dp1 ! i)"
  shows "finish_dispatch E w dp sh tgt rc vp b = Inr (False, w1, dp1, sh1)"
  using assms by (simp add: finish_dispatch_def)

text \<open>
  C4, evaluated where the code departs from it. With a device layer that creates no
  pass, the first \<open>pl_dispatch_finish\<close> of the raster shader \<open>sh0\<close> returns failure and
  leaves one pass in the cache, marked failed, whose \<open>pass\<close> pointer is \<open>NULL\<close>. The
  second dispatch of the same shader against the same target does not return failure:
  the scan of \<open>find_pass\<close> reads \<open>p->pass->params\<close> of that pass.
\<close>

theorem failed_raster_pass_is_dereferenced:
  "(case pl_dispatch_finish failing_env [] dp0 (Some sh0) (Some tex0) None None of
      Inl e \<Rightarrow> False
    | Inr (ret, w1, dp1, psh) \<Rightarrow>
        \<not> ret \<and> map p_failed (passes dp1) = [True] \<and> map p_pass (passes dp1) = [None]
        \<and> pl_dispatch_finish failing_env w1 dp1 (Some sh0) (Some tex0) None None
            = Inl NullDeref)"
  by (simp add: scen_defs disp_defs Let_def)

text \<open>
  The same two calls for a compute shader: the cached failure is found and the second
  call returns failure without a new pass.
\<close>

lemma failed_compute_pass_fails_fast:
  "(case pl_dispatch_compute failing_env [] dp0 (Some shc0) [1, 1, 1] of
      Inl e \<Rightarrow> False
    | Inr (ret, w1, dp1, psh) \<Rightarrow>
        \<not> ret \<and> map p_failed (passes dp1) = [True]
        \<and> pl_dispatch_compute failing_env w1 dp1 (Some shc0) [1, 1, 1]
            = Inr (False, w1, dp1\<lparr>shaders := shaders dp1 @ [shc0]\<rparr>, None))"
  by (simp add: scen_defs disp_defs compute_defs Let_def)

end
